theory Spec2Isabelle
  imports Complex_Main
begin

section \<open>Bond-style fixture harness: reader, comparison protocol and writer\<close>

text \<open>
  A shallow embedding of \<^verbatim>\<open>unittest/force-styles/bond-style.cpp\<close>.

  Conventions of the embedding.
  \<^item> A C++ \<^verbatim>\<open>double\<close> is a \<^typ>\<open>real\<close>: rounding, infinities and NaN are outside
    the model. Comparisons and the branch structure of the code are kept as written.
  \<^item> A C++ \<^verbatim>\<open>int\<close> is an \<^typ>\<open>int\<close>; where the code would leave the range of a
    32-bit \<^verbatim>\<open>int\<close> the model says so (an error value, a hypothesis, or the value that
    the conversion of the C library leaves in the \<^verbatim>\<open>int\<close>).
  \<^item> A \<^verbatim>\<open>std::string\<close> is a \<^typ>\<open>string\<close>; \<^verbatim>\<open>std::string::npos\<close> is \<^term>\<open>None\<close>
    in a \<^typ>\<open>nat option\<close>.
  \<^item> Undefined behaviour of the C++ code (a store outside a vector, a read through a
    pointer that the event does not hold) is an error value.
    The content of an uninitialised local variable is an explicit input of the model.
  \<^item> The objects of class \<^verbatim>\<open>TestConfig\<close> live in an explicit store, because the
    reader holds a reference to one of them while some of its methods name the global
    object \<^verbatim>\<open>test_config\<close> directly.
\<close>

subsection \<open>Value types and the fixture configuration\<close>

record coord_t =
  x_coord :: real
  y_coord :: real
  z_coord :: real

record stress_t =
  xx :: real
  yy :: real
  zz :: real
  xy :: real
  xz :: real
  yz :: real

text \<open>Value-initialisation of a \<^verbatim>\<open>coord_t\<close>, as \<^verbatim>\<open>std::vector::resize\<close> does it.\<close>

definition coord_zero :: coord_t where
  "coord_zero = \<lparr>x_coord = 0, y_coord = 0, z_coord = 0\<rparr>"

record TestConfig =
  lammps_version :: string
  date_generated :: string
  epsilon :: real
  prerequisites :: "(string \<times> string) list"
  pre_commands :: "string list"
  post_commands :: "string list"
  input_file :: string
  bond_style :: string
  bond_coeff :: "string list"
  natoms :: int
  init_energy :: real
  run_energy :: real
  init_stress :: stress_t
  run_stress :: stress_t
  init_forces :: "coord_t list"
  run_forces :: "coord_t list"

text \<open>The constructor \<^verbatim>\<open>TestConfig::TestConfig()\<close>.\<close>

definition TestConfig_ctor :: TestConfig where
  "TestConfig_ctor =
     \<lparr>lammps_version = '''',
      date_generated = '''',
      epsilon = 1 / 10 ^ 14,
      prerequisites = [],
      pre_commands = [],
      post_commands = [],
      input_file = '''',
      bond_style = ''zero'',
      bond_coeff = [],
      natoms = 0,
      init_energy = 0,
      run_energy = 0,
      init_stress = \<lparr>xx = 0, yy = 0, zz = 0, xy = 0, xz = 0, yz = 0\<rparr>,
      run_stress = \<lparr>xx = 0, yy = 0, zz = 0, xy = 0, xz = 0, yz = 0\<rparr>,
      init_forces = [],
      run_forces = []\<rparr>"

subsection \<open>Error statistics\<close>

record ErrorStats =
  sum_val :: real
  sumsq :: real
  maxerr :: real
  num :: int
  maxidx :: int

text \<open>\<^verbatim>\<open>ErrorStats::reset\<close>; the constructor calls it, so it is also the fresh object.\<close>

definition reset :: ErrorStats where
  "reset = \<lparr>sum_val = 0, sumsq = 0, maxerr = 0, num = 0, maxidx = - 1\<rparr>"

definition add :: "real \<Rightarrow> ErrorStats \<Rightarrow> ErrorStats" where
  "add val s =
     (let s1 = s\<lparr>num := num s + 1\<rparr>;
          s2 = (if val > maxerr s1 then s1\<lparr>maxidx := num s1, maxerr := val\<rparr> else s1);
          s3 = s2\<lparr>sum_val := sum_val s2 + val\<rparr>
      in s3\<lparr>sumsq := sumsq s3 + val * val\<rparr>)"

definition avg :: "ErrorStats \<Rightarrow> real" where
  "avg s = (if num s > 0 then sum_val s / real_of_int (num s) else 0)"

definition dev :: "ErrorStats \<Rightarrow> real" where
  "dev s =
     (if num s > 0
      then sqrt (sumsq s / real_of_int (num s)
                 - sum_val s / real_of_int (num s) * sum_val s / real_of_int (num s))
      else 0)"

definition max_stats :: "ErrorStats \<Rightarrow> real" where
  "max_stats s = maxerr s"

text \<open>\<^verbatim>\<open>idx()\<close> returns the \<^verbatim>\<open>int\<close> member \<^verbatim>\<open>maxidx\<close> converted to \<^verbatim>\<open>double\<close>.\<close>

definition idx :: "ErrorStats \<Rightarrow> real" where
  "idx s = real_of_int (maxidx s)"

text \<open>
  \<^verbatim>\<open>reset()\<close> followed by one call of \<^verbatim>\<open>add\<close> for each sample, in order: the way every
  comparison group of the tests drives the accumulator.
\<close>

definition add_all :: "real list \<Rightarrow> ErrorStats" where
  "add_all vs = foldl (\<lambda>s v. add v s) reset vs"

subsection \<open>The comparison macro\<close>

text \<open>\<^verbatim>\<open>std::min(a, b)\<close> is \<^verbatim>\<open>(b < a) ? b : a\<close>.\<close>

definition std_min :: "real \<Rightarrow> real \<Rightarrow> real" where
  "std_min a b = (if b < a then b else a)"

text \<open>
  One expansion of \<^verbatim>\<open>EXPECT_FP_LE_WITH_EPS(val1, val2, eps)\<close>: the entry handed to the
  assertion framework (the relative error, the tolerance and the verdict of
  \<^verbatim>\<open>DoubleLE\<close>, which on reals is \<open>\<le>\<close>) and the updated accumulator.
\<close>

record check =
  rel_err :: real
  tolerance :: real
  passed :: bool

definition EXPECT_FP_LE_WITH_EPS ::
  "real \<Rightarrow> real \<Rightarrow> real \<Rightarrow> ErrorStats \<Rightarrow> check \<times> ErrorStats" where
  "EXPECT_FP_LE_WITH_EPS val1 val2 eps stats =
     (let diff = \<bar>val1 - val2\<bar>;
          dv = std_min \<bar>val1\<bar> \<bar>val2\<bar>;
          err = (if dv = 0 then diff else diff / dv)
      in (\<lparr>rel_err = err, tolerance = eps, passed = (err \<le> eps)\<rparr>, add err stats))"

subsection \<open>Strings and the C library\<close>

text \<open>
  The functions of this subsection are not part of the repository: they model the
  C and C++ standard library as far as the harness uses it.
\<close>

text \<open>Reading a byte buffer as a C string stops at the first NUL.\<close>

definition c_str :: "string \<Rightarrow> string" where
  "c_str s = takeWhile (\<lambda>c. c \<noteq> CHR 0x00) s"

text \<open>
  The lines that \<^verbatim>\<open>while (std::getline(data, line, '\n'))\<close> yields for the content of
  the stream: \<open>cur\<close> holds the characters of the current line, latest first. At the end
  of the data a non-empty last line is still delivered, an empty one is not.
\<close>

fun getlines_from :: "string \<Rightarrow> string \<Rightarrow> string list" where
  "getlines_from cur [] = (if cur = [] then [] else [rev cur])"
| "getlines_from cur (c # cs) =
     (if c = CHR 0x0A then rev cur # getlines_from [] cs else getlines_from (c # cur) cs)"

definition getlines :: "string \<Rightarrow> string list" where
  "getlines s = getlines_from [] s"

fun first_index :: "(char \<Rightarrow> bool) \<Rightarrow> string \<Rightarrow> nat \<Rightarrow> nat option" where
  "first_index P [] i = None"
| "first_index P (c # cs) i = (if P c then Some i else first_index P cs (Suc i))"

text \<open>
  \<^verbatim>\<open>s.find_first_of(cs, pos)\<close> and \<^verbatim>\<open>s.find_first_not_of(cs, pos)\<close>; a start position
  \<^verbatim>\<open>npos\<close> finds nothing.
\<close>

definition find_first_of :: "string \<Rightarrow> string \<Rightarrow> nat option \<Rightarrow> nat option" where
  "find_first_of s cs pos =
     (case pos of None \<Rightarrow> None | Some p \<Rightarrow> first_index (\<lambda>c. c \<in> set cs) (drop p s) p)"

definition find_first_not_of :: "string \<Rightarrow> string \<Rightarrow> nat option \<Rightarrow> nat option" where
  "find_first_not_of s cs pos =
     (case pos of None \<Rightarrow> None | Some p \<Rightarrow> first_index (\<lambda>c. c \<notin> set cs) (drop p s) p)"

text \<open>
  \<^verbatim>\<open>s.substr(pos, count)\<close> for \<open>pos \<le> size\<close> (the only way the harness calls it);
  the count \<^verbatim>\<open>npos\<close> takes the rest of the string.
\<close>

definition substr :: "string \<Rightarrow> nat \<Rightarrow> nat option \<Rightarrow> string" where
  "substr s pos count = (case count of None \<Rightarrow> drop pos s | Some n \<Rightarrow> take n (drop pos s))"

text \<open>\<^verbatim>\<open>s.find(pat)\<close>: the position of the first occurrence of \<open>pat\<close>.\<close>

fun find_from :: "string \<Rightarrow> string \<Rightarrow> nat \<Rightarrow> nat option" where
  "find_from [] pat i = (if pat = [] then Some i else None)"
| "find_from (c # cs) pat i =
     (if take (length pat) (c # cs) = pat then Some i else find_from cs pat (Suc i))"

definition str_find :: "string \<Rightarrow> string \<Rightarrow> nat option" where
  "str_find s pat = find_from s pat 0"

text \<open>\<^verbatim>\<open>isspace\<close> in the C locale.\<close>

definition isspace :: "char \<Rightarrow> bool" where
  "isspace c = (c \<in> set [CHR '' '', CHR 0x09, CHR 0x0A, CHR 0x0B, CHR 0x0C, CHR 0x0D])"

text \<open>The value \<^verbatim>\<open>c - '0'\<close> of a decimal digit.\<close>

definition digit_val :: "char \<Rightarrow> nat option" where
  "digit_val c =
     (let n = (of_char c :: nat)
      in if of_char CHR ''0'' \<le> n \<and> n \<le> of_char CHR ''9''
         then Some (n - of_char CHR ''0'') else None)"

text \<open>
  The longest run of decimal digits at the front of a string: its value on top of
  \<open>acc\<close>, the number of digits read on top of \<open>n\<close>, and the rest.
\<close>

fun scan_digits :: "nat \<Rightarrow> nat \<Rightarrow> string \<Rightarrow> nat \<times> nat \<times> string" where
  "scan_digits acc n [] = (acc, n, [])"
| "scan_digits acc n (c # cs) =
     (case digit_val c of
        None \<Rightarrow> (acc, n, c # cs)
      | Some d \<Rightarrow> scan_digits (10 * acc + d) (Suc n) cs)"

fun scan_sign :: "string \<Rightarrow> bool \<times> string" where
  "scan_sign [] = (False, [])"
| "scan_sign (c # cs) =
     (if c = CHR ''-'' then (True, cs) else if c = CHR ''+'' then (False, cs)
      else (False, c # cs))"

text \<open>
  \<^verbatim>\<open>strtol\<close> stops at the bounds of the 64-bit \<^verbatim>\<open>long\<close>; storing a \<^verbatim>\<open>long\<close> into an
  \<^verbatim>\<open>int\<close> keeps its low 32 bits.
\<close>

definition strtol_value :: "bool \<Rightarrow> nat \<Rightarrow> int" where
  "strtol_value neg m =
     (if neg then max (- 9223372036854775808) (- int m) else min 9223372036854775807 (int m))"

definition long_to_int :: "int \<Rightarrow> int" where
  "long_to_int v = (v + 2147483648) mod 4294967296 - 2147483648"

text \<open>
  The conversion \<^verbatim>\<open>%d\<close> of \<^verbatim>\<open>sscanf\<close>: white space, an optional sign, at least one
  digit. \<open>None\<close> is a matching failure. For a numeral beyond the range of \<^verbatim>\<open>int\<close> the C
  standard leaves the result open; the model follows the C library of the platform, which
  converts the digits with \<^verbatim>\<open>strtol\<close> and stores the \<^verbatim>\<open>long\<close> into the \<^verbatim>\<open>int\<close>.
\<close>

definition scan_int :: "string \<Rightarrow> (int \<times> string) option" where
  "scan_int s =
     (let (neg, s1) = scan_sign (dropWhile isspace s);
          (m, n, s2) = scan_digits 0 0 s1
      in if n = 0 then None
         else Some (long_to_int (strtol_value neg m), s2))"

text \<open>The value of a hexadecimal digit, and the longest run of such digits.\<close>

definition xdigit_val :: "char \<Rightarrow> nat option" where
  "xdigit_val c =
     (let n = (of_char c :: nat)
      in if of_char CHR ''0'' \<le> n \<and> n \<le> of_char CHR ''9'' then Some (n - of_char CHR ''0'')
         else if of_char CHR ''a'' \<le> n \<and> n \<le> of_char CHR ''f''
         then Some (n - of_char CHR ''a'' + 10)
         else if of_char CHR ''A'' \<le> n \<and> n \<le> of_char CHR ''F''
         then Some (n - of_char CHR ''A'' + 10)
         else None)"

fun scan_xdigits :: "nat \<Rightarrow> nat \<Rightarrow> string \<Rightarrow> nat \<times> nat \<times> string" where
  "scan_xdigits acc n [] = (acc, n, [])"
| "scan_xdigits acc n (c # cs) =
     (case xdigit_val c of
        None \<Rightarrow> (acc, n, c # cs)
      | Some d \<Rightarrow> scan_xdigits (16 * acc + d) (Suc n) cs)"

text \<open>
  An exponent: one of the marker characters, an optional sign, at least one decimal
  digit.
\<close>

definition scan_exponent :: "string \<Rightarrow> string \<Rightarrow> (int \<times> string) option" where
  "scan_exponent marks s =
     (case s of
        [] \<Rightarrow> None
      | c # cs \<Rightarrow>
          if c \<in> set marks
          then (let (neg, s1) = scan_sign cs; (m, n, s2) = scan_digits 0 0 s1
                in if n = 0 then None else Some (if neg then - int m else int m, s2))
          else None)"

definition scale10 :: "real \<Rightarrow> int \<Rightarrow> real" where
  "scale10 v e = (if 0 \<le> e then v * 10 ^ nat e else v / 10 ^ nat (- e))"

definition scale2 :: "real \<Rightarrow> int \<Rightarrow> real" where
  "scale2 v e = (if 0 \<le> e then v * 2 ^ nat e else v / 2 ^ nat (- e))"

text \<open>
  A mantissa: digits with an optional point, at least one digit in all. The result is
  the value of the digits without the point, the number of digits behind the point and
  the rest. \<open>scan\<close> reads the digits (decimal or hexadecimal).
\<close>

definition mantissa ::
  "(nat \<Rightarrow> nat \<Rightarrow> string \<Rightarrow> nat \<times> nat \<times> string) \<Rightarrow> string \<Rightarrow> (nat \<times> nat \<times> string) option" where
  "mantissa scan s =
     (let (ip, ni, s2) = scan 0 0 s;
          (m, nf, s3) = (case s2 of
                           [] \<Rightarrow> (ip, 0, s2)
                         | c # cs \<Rightarrow> if c = CHR ''.'' then scan ip 0 cs else (ip, 0, s2))
      in if ni + nf = 0 then None else Some (m, nf, s3))"

text \<open>
  The unsigned numerals that \<^verbatim>\<open>strtod\<close> reads, with their exact values: a decimal
  mantissa with an optional decimal exponent, or \<^verbatim>\<open>0x\<close>, a hexadecimal mantissa and an
  optional binary exponent. An exponent marker with no digit behind it is not part of
  the numeral. The value is the exact one: its rounding to a \<^verbatim>\<open>double\<close>, and what
  becomes of a numeral beyond the range of \<^verbatim>\<open>double\<close>, are outside the model, and so
  are \<^verbatim>\<open>inf\<close> and \<^verbatim>\<open>nan\<close>, which have no value in \<^typ>\<open>real\<close> and are not read.
\<close>

definition dec_numeral :: "string \<Rightarrow> (real \<times> string) option" where
  "dec_numeral s =
     (case mantissa scan_digits s of
        None \<Rightarrow> None
      | Some (m, nf, s3) \<Rightarrow>
          (case scan_exponent ''eE'' s3 of
             Some (e, s4) \<Rightarrow> Some (scale10 (real m) (e - int nf), s4)
           | None \<Rightarrow> Some (scale10 (real m) (- int nf), s3)))"

definition is_hex :: "string \<Rightarrow> bool" where
  "is_hex s = (case s of c # x # cs \<Rightarrow> c = CHR ''0'' \<and> (x = CHR ''x'' \<or> x = CHR ''X'') | _ \<Rightarrow> False)"

definition hex_numeral :: "string \<Rightarrow> (real \<times> string) option" where
  "hex_numeral s =
     (if is_hex s
      then (case mantissa scan_xdigits (drop 2 s) of
              None \<Rightarrow> None
            | Some (m, nf, s3) \<Rightarrow>
                (case scan_exponent ''pP'' s3 of
                   Some (e, s4) \<Rightarrow> Some (scale2 (real m) (e - 4 * int nf), s4)
                 | None \<Rightarrow> Some (scale2 (real m) (- 4 * int nf), s3)))
      else None)"

definition numeral_value :: "string \<Rightarrow> (real \<times> string) option" where
  "numeral_value s = (case hex_numeral s of Some r \<Rightarrow> Some r | None \<Rightarrow> dec_numeral s)"

text \<open>\<^verbatim>\<open>strtod\<close>: white space, an optional sign, a numeral. \<open>None\<close>: no conversion.\<close>

definition strtod :: "string \<Rightarrow> (real \<times> string) option" where
  "strtod s =
     (let (neg, s1) = scan_sign (dropWhile isspace s)
      in case numeral_value s1 of
           None \<Rightarrow> None
         | Some (v, rest) \<Rightarrow> Some (if neg then - v else v, rest))"

text \<open>
  The characters that the conversion \<^verbatim>\<open>%lg\<close> of \<^verbatim>\<open>sscanf\<close> takes from the input after
  the sign, as the C library of the platform collects them: \<open>buf\<close> holds the characters
  taken so far, latest first. Digits are taken (hexadecimal ones after \<^verbatim>\<open>0x\<close> and
  before the exponent), one point before the exponent, one exponent marker after a
  digit, and a sign right behind the marker. The first other character ends the field
  and stays in the input.
\<close>

fun float_field :: "bool \<Rightarrow> bool \<Rightarrow> bool \<Rightarrow> bool \<Rightarrow> string \<Rightarrow> string \<Rightarrow> string \<times> string" where
  "float_field hexa got_digit got_dot got_e buf [] = (rev buf, [])"
| "float_field hexa got_digit got_dot got_e buf (c # cs) =
     (if digit_val c \<noteq> None then float_field hexa True got_dot got_e (c # buf) cs
      else if \<not> got_e \<and> hexa \<and> xdigit_val c \<noteq> None
      then float_field hexa True got_dot got_e (c # buf) cs
      else if got_e \<and> buf \<noteq> [] \<and> hd buf \<in> set (if hexa then ''pP'' else ''eE'')
              \<and> (c = CHR ''-'' \<or> c = CHR ''+'')
      then float_field hexa got_digit got_dot got_e (c # buf) cs
      else if got_digit \<and> \<not> got_e \<and> c \<in> set (if hexa then ''pP'' else ''eE'')
      then float_field hexa got_digit True True (c # buf) cs
      else if c = CHR ''.'' \<and> \<not> got_dot
      then float_field hexa got_digit True got_e (c # buf) cs
      else (rev buf, c # cs))"

text \<open>
  The conversion \<^verbatim>\<open>%lg\<close> of \<^verbatim>\<open>sscanf\<close>: white space, an optional sign, the field, which
  \<^verbatim>\<open>strtod\<close> then converts. The conversion fails when the field is empty, when it is
  \<^verbatim>\<open>0x\<close> alone, or when \<^verbatim>\<open>strtod\<close> finds no numeral in it; the characters of the field
  are used up even where \<^verbatim>\<open>strtod\<close> stops before its end (\<^verbatim>\<open>1e\<close> is converted to 1 and
  the \<^verbatim>\<open>e\<close> is gone).
\<close>

definition scanf_lg :: "string \<Rightarrow> (real \<times> string) option" where
  "scanf_lg s =
     (let (neg, s1) = scan_sign (dropWhile isspace s);
          (buf, rest) =
            (if is_hex s1 then float_field True False False False (rev (take 2 s1)) (drop 2 s1)
             else if s1 \<noteq> [] \<and> hd s1 = CHR ''0''
             then float_field False True False False (take 1 s1) (drop 1 s1)
             else float_field False False False False [] s1)
      in if buf = [] \<or> (is_hex s1 \<and> length buf = 2) then None
         else (case numeral_value buf of
                 None \<Rightarrow> None
               | Some (v, _) \<Rightarrow> Some (if neg then - v else v, rest)))"

text \<open>
  A floating-point numeral, as the conversion \<^verbatim>\<open>%lg\<close> of \<^verbatim>\<open>sscanf\<close> (\<open>strict = True\<close>)
  and \<^verbatim>\<open>strtod\<close> (\<open>strict = False\<close>) read it.
\<close>

definition scan_double :: "bool \<Rightarrow> string \<Rightarrow> (real \<times> string) option" where
  "scan_double strict s = (if strict then scanf_lg s else strtod s)"

text \<open>
  \<^verbatim>\<open>atof\<close> is \<^verbatim>\<open>strtod\<close> and \<^verbatim>\<open>atoi\<close> is \<^verbatim>\<open>strtol\<close> stored into an \<^verbatim>\<open>int\<close>: the value of
  the leading numeral, 0 when there is none.
\<close>

definition atof :: "string \<Rightarrow> real" where
  "atof s = (case scan_double False s of None \<Rightarrow> 0 | Some (v, _) \<Rightarrow> v)"

definition atoi :: "string \<Rightarrow> int" where
  "atoi s = (case scan_int s of None \<Rightarrow> 0 | Some (v, _) \<Rightarrow> v)"

text \<open>
  Up to \<open>n\<close> conversions \<^verbatim>\<open>%lg\<close> separated by white space in the format: the values
  converted before the first matching failure.
\<close>

fun scan_doubles :: "nat \<Rightarrow> string \<Rightarrow> real list" where
  "scan_doubles 0 s = []"
| "scan_doubles (Suc n) s =
     (case scan_double True s of
        None \<Rightarrow> []
      | Some (v, rest) \<Rightarrow> v # scan_doubles n rest)"

text \<open>
  The target of the \<open>i\<close>-th conversion after \<^verbatim>\<open>sscanf\<close> returns: the converted value
  if that conversion took place, and what the variable held before otherwise.
\<close>

definition assigned :: "'a list \<Rightarrow> nat \<Rightarrow> 'a \<Rightarrow> 'a" where
  "assigned vs i old = (if i < length vs then vs ! i else old)"

text \<open>\<^verbatim>\<open>sscanf(line, "%d %lg %lg %lg", ...)\<close>: the tag if converted, and the doubles converted.\<close>

definition sscanf_row :: "string \<Rightarrow> int option \<times> real list" where
  "sscanf_row line =
     (case scan_int line of
        None \<Rightarrow> (None, [])
      | Some (t, rest) \<Rightarrow> (Some t, scan_doubles 3 rest))"

subsection \<open>The event stream of the structured-text parser\<close>

text \<open>
  The parser library is an external collaborator. An event carries its type and, for a
  scalar, the bytes of the scalar. A file that could be opened is the sequence of
  results of the successive calls of \<^verbatim>\<open>yaml_parser_parse\<close>: \<open>None\<close> when the call
  reports an error, the event otherwise. Once its results are used up the parser
  delivers empty events (\<^verbatim>\<open>YAML_NO_EVENT\<close>).
\<close>

datatype yaml_event =
    YAML_NO_EVENT
  | YAML_STREAM_START_EVENT
  | YAML_STREAM_END_EVENT
  | YAML_DOCUMENT_START_EVENT
  | YAML_DOCUMENT_END_EVENT
  | YAML_ALIAS_EVENT
  | YAML_SCALAR_EVENT string
  | YAML_SEQUENCE_START_EVENT
  | YAML_SEQUENCE_END_EVENT
  | YAML_MAPPING_START_EVENT
  | YAML_MAPPING_END_EVENT

text \<open>\<^verbatim>\<open>event.data.scalar.value\<close>, read by the code for scalar events only.\<close>

fun scalar_value :: "yaml_event \<Rightarrow> string" where
  "scalar_value (YAML_SCALAR_EVENT v) = v"
| "scalar_value _ = []"

subsection \<open>The store of configuration objects and the reader object\<close>

text \<open>
  The ways in which the code leaves defined behaviour or throws: an access outside an
  array, a \<^verbatim>\<open>std::length_error\<close>, an overflow of \<^verbatim>\<open>int\<close> arithmetic, and a read of the
  scalar value of an event that is not a scalar.
\<close>

datatype error = OutOfBounds | LengthError | SignedOverflow | NoScalarValue

text \<open>
  References to \<^verbatim>\<open>TestConfig\<close> objects: the global \<^verbatim>\<open>test_config\<close> and any other
  object of the class.
\<close>

datatype cfg_ref = Global_test_config | Other_config nat

type_synonym heap = "cfg_ref \<Rightarrow> TestConfig"

definition upd :: "cfg_ref \<Rightarrow> (TestConfig \<Rightarrow> TestConfig) \<Rightarrow> heap \<Rightarrow> heap" where
  "upd p g h = h(p := g (h p))"

datatype StateValue = START | ACCEPT_KEY | ACCEPT_VALUE | STOP | ERROR

text \<open>
  The members of \<^verbatim>\<open>YamlReader\<close> and the member \<^verbatim>\<open>config\<close> that
  \<^verbatim>\<open>TestConfigReader\<close> adds: the reference bound at construction.
\<close>

record TestConfigReader =
  state :: StateValue
  accepted :: bool
  key :: string
  config :: cfg_ref

text \<open>
  What the uninitialised locals of the decoders hold when they are declared: the
  \<^verbatim>\<open>stress_t stress\<close> of the stress decoders, and for the row with a given number
  (from 0) the \<^verbatim>\<open>coord_t xyz\<close> of the force decoders and the \<^verbatim>\<open>int tag\<close> of
  \<^verbatim>\<open>run_forces\<close>.
\<close>

record uninit =
  stress_uninit :: stress_t
  xyz_uninit :: "nat \<Rightarrow> coord_t"
  tag_uninit :: "nat \<Rightarrow> int"

text \<open>
  The constructor of \<^verbatim>\<open>TestConfigReader\<close> binds \<open>config\<close>; the members \<open>state\<close>,
  \<open>accepted\<close> and \<open>key\<close> are set before they are read (\<open>state\<close> by \<^verbatim>\<open>parse_file\<close>,
  \<open>accepted\<close> by \<^verbatim>\<open>consume_event\<close>), so their first values do not matter.
\<close>

definition TestConfigReader_ctor :: "cfg_ref \<Rightarrow> TestConfigReader" where
  "TestConfigReader_ctor c = \<lparr>state = START, accepted = False, key = [], config = c\<rparr>"

subsection \<open>The state machine\<close>

text \<open>
  \<^verbatim>\<open>consume_event\<close>: the returned \<^verbatim>\<open>bool\<close> and the reader. In the states
  \<^verbatim>\<open>ACCEPT_KEY\<close> and \<^verbatim>\<open>ACCEPT_VALUE\<close> the default branch prints
  \<^verbatim>\<open>event.data.scalar.value\<close> before it sets the state \<^verbatim>\<open>ERROR\<close>; the event there is
  not a scalar, so the member read is not the one the event holds and the pointer found
  in its place is handed to the output stream: the error \<open>NoScalarValue\<close>. The default
  branch of the state \<^verbatim>\<open>START\<close> prints the type of the event only.
\<close>

definition consume_event ::
  "yaml_event \<Rightarrow> TestConfigReader \<Rightarrow> error + bool \<times> TestConfigReader" where
  "consume_event event r0 =
     (let r = r0\<lparr>accepted := False\<rparr>;
          res = (case state r of
                   START \<Rightarrow>
                     Inr (case event of
                            YAML_MAPPING_START_EVENT \<Rightarrow> r\<lparr>state := ACCEPT_KEY\<rparr>
                          | YAML_SCALAR_EVENT v \<Rightarrow> r\<lparr>state := ERROR\<rparr>
                          | YAML_SEQUENCE_START_EVENT \<Rightarrow> r\<lparr>state := ERROR\<rparr>
                          | YAML_STREAM_END_EVENT \<Rightarrow> r\<lparr>state := STOP\<rparr>
                          | YAML_STREAM_START_EVENT \<Rightarrow> r
                          | YAML_DOCUMENT_START_EVENT \<Rightarrow> r
                          | YAML_DOCUMENT_END_EVENT \<Rightarrow> r
                          | _ \<Rightarrow> r\<lparr>state := ERROR\<rparr>)
                 | ACCEPT_KEY \<Rightarrow>
                     (case event of
                        YAML_SCALAR_EVENT v \<Rightarrow> Inr (r\<lparr>key := c_str v, state := ACCEPT_VALUE\<rparr>)
                      | YAML_MAPPING_END_EVENT \<Rightarrow> Inr (r\<lparr>state := STOP\<rparr>)
                      | _ \<Rightarrow> Inl NoScalarValue)
                 | ACCEPT_VALUE \<Rightarrow>
                     (case event of
                        YAML_SCALAR_EVENT v \<Rightarrow> Inr (r\<lparr>accepted := True, state := ACCEPT_KEY\<rparr>)
                      | _ \<Rightarrow> Inl NoScalarValue)
                 | ERROR \<Rightarrow> Inr r
                 | STOP \<Rightarrow> Inr r)
      in case res of Inl e \<Rightarrow> Inl e | Inr r' \<Rightarrow> Inr (state r' \<noteq> ERROR, r'))"

subsection \<open>The field decoders of \<^verbatim>\<open>TestConfigReader\<close>\<close>

text \<open>
  Each decoder has the name of the field it decodes in the source; here it carries the
  suffix \<open>_consumer\<close>. A decoder that clears a list does so through the bound reference
  \<open>config\<close>; the \<^verbatim>\<open>push_back\<close> calls of \<^verbatim>\<open>prerequisites\<close>, \<^verbatim>\<open>pre_commands\<close>,
  \<^verbatim>\<open>post_commands\<close> and \<^verbatim>\<open>bond_coeff\<close> name the global \<^verbatim>\<open>test_config\<close>.
\<close>

type_synonym EventConsumer =
  "uninit \<Rightarrow> yaml_event \<Rightarrow> TestConfigReader \<Rightarrow> heap \<Rightarrow> error + heap"

text \<open>One line of the \<^verbatim>\<open>prerequisites\<close> block: the pair pushed, or \<open>None\<close> for a skipped line.\<close>

definition prerequisite_line :: "string \<Rightarrow> (string \<times> string) option" where
  "prerequisite_line line =
     (let found = find_first_of line [CHR '' '', CHR 0x09] (Some 0);
          k = substr line 0 found;
          found' = find_first_not_of line [CHR '' '', CHR 0x09] found
      in case found' of
           None \<Rightarrow> None
         | Some p \<Rightarrow>
             Some (k, substr line p (find_first_of line [CHR '' '', CHR 0x09] (Some p))))"

definition prerequisites_consumer :: EventConsumer where
  "prerequisites_consumer u event r h =
     (let h1 = upd (config r) (\<lambda>c. c\<lparr>prerequisites := []\<rparr>) h
      in Inr (foldl (\<lambda>h' line.
                 case prerequisite_line line of
                   None \<Rightarrow> h'
                 | Some kv \<Rightarrow>
                     upd Global_test_config (\<lambda>c. c\<lparr>prerequisites := prerequisites c @ [kv]\<rparr>) h')
               h1 (getlines (c_str (scalar_value event)))))"

definition pre_commands_consumer :: EventConsumer where
  "pre_commands_consumer u event r h =
     (let h1 = upd (config r) (\<lambda>c. c\<lparr>pre_commands := []\<rparr>) h
      in Inr (foldl (\<lambda>h' line.
                 upd Global_test_config (\<lambda>c. c\<lparr>pre_commands := pre_commands c @ [line]\<rparr>) h')
               h1 (getlines (c_str (scalar_value event)))))"

definition post_commands_consumer :: EventConsumer where
  "post_commands_consumer u event r h =
     (let h1 = upd (config r) (\<lambda>c. c\<lparr>post_commands := []\<rparr>) h
      in Inr (foldl (\<lambda>h' line.
                 upd Global_test_config (\<lambda>c. c\<lparr>post_commands := post_commands c @ [line]\<rparr>) h')
               h1 (getlines (c_str (scalar_value event)))))"

definition lammps_version_consumer :: EventConsumer where
  "lammps_version_consumer u event r h =
     Inr (upd (config r) (\<lambda>c. c\<lparr>lammps_version := c_str (scalar_value event)\<rparr>) h)"

definition date_generated_consumer :: EventConsumer where
  "date_generated_consumer u event r h =
     Inr (upd (config r) (\<lambda>c. c\<lparr>date_generated := c_str (scalar_value event)\<rparr>) h)"

definition epsilon_consumer :: EventConsumer where
  "epsilon_consumer u event r h =
     Inr (upd (config r) (\<lambda>c. c\<lparr>epsilon := atof (c_str (scalar_value event))\<rparr>) h)"

definition input_file_consumer :: EventConsumer where
  "input_file_consumer u event r h =
     Inr (upd (config r) (\<lambda>c. c\<lparr>input_file := c_str (scalar_value event)\<rparr>) h)"

definition bond_style_consumer :: EventConsumer where
  "bond_style_consumer u event r h =
     Inr (upd (config r) (\<lambda>c. c\<lparr>bond_style := c_str (scalar_value event)\<rparr>) h)"

definition bond_coeff_consumer :: EventConsumer where
  "bond_coeff_consumer u event r h =
     (let h1 = upd (config r) (\<lambda>c. c\<lparr>bond_coeff := []\<rparr>) h
      in Inr (foldl (\<lambda>h' line.
                 upd Global_test_config (\<lambda>c. c\<lparr>bond_coeff := bond_coeff c @ [line]\<rparr>) h')
               h1 (getlines (c_str (scalar_value event)))))"

definition natoms_consumer :: EventConsumer where
  "natoms_consumer u event r h =
     Inr (upd (config r) (\<lambda>c. c\<lparr>natoms := atoi (c_str (scalar_value event))\<rparr>) h)"

definition init_energy_consumer :: EventConsumer where
  "init_energy_consumer u event r h =
     Inr (upd (config r) (\<lambda>c. c\<lparr>init_energy := atof (c_str (scalar_value event))\<rparr>) h)"

definition run_energy_consumer :: EventConsumer where
  "run_energy_consumer u event r h =
     Inr (upd (config r) (\<lambda>c. c\<lparr>run_energy := atof (c_str (scalar_value event))\<rparr>) h)"

text \<open>
  \<^verbatim>\<open>sscanf(value, "%lg %lg %lg %lg %lg %lg", ...)\<close> into the uninitialised local
  \<^verbatim>\<open>stress\<close>: the components converted, the others as the local held them.
\<close>

definition sscanf_stress :: "stress_t \<Rightarrow> string \<Rightarrow> stress_t" where
  "sscanf_stress stress s =
     (let vs = scan_doubles 6 s
      in \<lparr>xx = assigned vs 0 (xx stress), yy = assigned vs 1 (yy stress),
          zz = assigned vs 2 (zz stress), xy = assigned vs 3 (xy stress),
          xz = assigned vs 4 (xz stress), yz = assigned vs 5 (yz stress)\<rparr>)"

definition init_stress_consumer :: EventConsumer where
  "init_stress_consumer u event r h =
     Inr (upd (config r)
            (\<lambda>c. c\<lparr>init_stress := sscanf_stress (stress_uninit u) (c_str (scalar_value event))\<rparr>) h)"

definition run_stress_consumer :: EventConsumer where
  "run_stress_consumer u event r h =
     Inr (upd (config r)
            (\<lambda>c. c\<lparr>run_stress := sscanf_stress (stress_uninit u) (c_str (scalar_value event))\<rparr>) h)"

text \<open>
  \<^verbatim>\<open>v.clear(); v.resize(natoms + 1)\<close>: \<open>natoms + 1\<close> is computed in \<^verbatim>\<open>int\<close> and
  converted to \<^verbatim>\<open>size_t\<close>, so a negative value asks for more than \<^verbatim>\<open>max_size()\<close>
  elements and \<^verbatim>\<open>resize\<close> throws \<^verbatim>\<open>std::length_error\<close>. Running out of memory is
  not modelled.
\<close>

definition resize_forces :: "int \<Rightarrow> error + coord_t list" where
  "resize_forces n =
     (if 2147483647 \<le> n then Inl SignedOverflow
      else if n + 1 < 0 then Inl LengthError
      else Inr (replicate (nat (n + 1)) coord_zero))"

text \<open>
  One pass of the body of the row loop of \<^verbatim>\<open>init_forces\<close> and \<^verbatim>\<open>run_forces\<close>:
  \<open>tag0\<close> and \<open>xyz0\<close> are what the locals \<^verbatim>\<open>tag\<close> and \<^verbatim>\<open>xyz\<close> hold before
  \<^verbatim>\<open>sscanf\<close>. The store \<^verbatim>\<open>forces[tag] = xyz\<close> is unchecked in the source; outside
  the vector it is the error \<open>OutOfBounds\<close>.
\<close>

definition store_row :: "int \<Rightarrow> coord_t \<Rightarrow> string \<Rightarrow> coord_t list \<Rightarrow> error + coord_t list" where
  "store_row tag0 xyz0 line forces =
     (let (t, vs) = sscanf_row line;
          tag = (case t of None \<Rightarrow> tag0 | Some t' \<Rightarrow> t');
          xyz = \<lparr>x_coord = assigned vs 0 (x_coord xyz0), y_coord = assigned vs 1 (y_coord xyz0),
                 z_coord = assigned vs 2 (z_coord xyz0)\<rparr>
      in if 0 \<le> tag \<and> nat tag < length forces then Inr (forces[nat tag := xyz])
         else Inl OutOfBounds)"

text \<open>The row loop; \<open>i\<close> is the number of the row at the head of the list.\<close>

fun store_rows ::
  "(nat \<Rightarrow> int) \<Rightarrow> (nat \<Rightarrow> coord_t) \<Rightarrow> nat \<Rightarrow> string list \<Rightarrow> coord_t list
     \<Rightarrow> error + coord_t list" where
  "store_rows tag0 xyz0 i [] forces = Inr forces"
| "store_rows tag0 xyz0 i (line # lines) forces =
     (case store_row (tag0 i) (xyz0 i) line forces of
        Inl e \<Rightarrow> Inl e
      | Inr forces' \<Rightarrow> store_rows tag0 xyz0 (Suc i) lines forces')"

text \<open>\<^verbatim>\<open>init_forces\<close> declares \<^verbatim>\<open>int tag = 0\<close>, \<^verbatim>\<open>run_forces\<close> declares \<^verbatim>\<open>int tag\<close>.\<close>

definition init_forces_consumer :: EventConsumer where
  "init_forces_consumer u event r h =
     (case resize_forces (natoms (h (config r))) of
        Inl e \<Rightarrow> Inl e
      | Inr forces \<Rightarrow>
          (case store_rows (\<lambda>i. 0) (xyz_uninit u) 0 (getlines (c_str (scalar_value event))) forces of
             Inl e \<Rightarrow> Inl e
           | Inr forces' \<Rightarrow> Inr (upd (config r) (\<lambda>c. c\<lparr>init_forces := forces'\<rparr>) h)))"

definition run_forces_consumer :: EventConsumer where
  "run_forces_consumer u event r h =
     (case resize_forces (natoms (h (config r))) of
        Inl e \<Rightarrow> Inl e
      | Inr forces \<Rightarrow>
          (case store_rows (tag_uninit u) (xyz_uninit u) 0
                  (getlines (c_str (scalar_value event))) forces of
             Inl e \<Rightarrow> Inl e
           | Inr forces' \<Rightarrow> Inr (upd (config r) (\<lambda>c. c\<lparr>run_forces := forces'\<rparr>) h)))"

text \<open>The registry filled by the constructor of \<^verbatim>\<open>TestConfigReader\<close>.\<close>

definition consumers :: "string \<Rightarrow> EventConsumer option" where
  "consumers =
     [''lammps_version'' \<mapsto> lammps_version_consumer,
      ''date_generated'' \<mapsto> date_generated_consumer,
      ''epsilon'' \<mapsto> epsilon_consumer,
      ''prerequisites'' \<mapsto> prerequisites_consumer,
      ''pre_commands'' \<mapsto> pre_commands_consumer,
      ''post_commands'' \<mapsto> post_commands_consumer,
      ''input_file'' \<mapsto> input_file_consumer,
      ''bond_style'' \<mapsto> bond_style_consumer,
      ''bond_coeff'' \<mapsto> bond_coeff_consumer,
      ''natoms'' \<mapsto> natoms_consumer,
      ''init_energy'' \<mapsto> init_energy_consumer,
      ''run_energy'' \<mapsto> run_energy_consumer,
      ''init_stress'' \<mapsto> init_stress_consumer,
      ''run_stress'' \<mapsto> run_stress_consumer,
      ''init_forces'' \<mapsto> init_forces_consumer,
      ''run_forces'' \<mapsto> run_forces_consumer]"

text \<open>
  \<^verbatim>\<open>consume_key_value\<close>: whether the key is registered, and the store after the decoder
  ran. The dynamic cast of the source always succeeds for a \<^verbatim>\<open>TestConfigReader\<close>.
\<close>

definition consume_key_value ::
  "uninit \<Rightarrow> string \<Rightarrow> yaml_event \<Rightarrow> TestConfigReader \<Rightarrow> heap \<Rightarrow> error + bool \<times> heap" where
  "consume_key_value u k event r h =
     (case consumers k of
        Some consumer \<Rightarrow>
          (case consumer u event r h of Inl e \<Rightarrow> Inl e | Inr h' \<Rightarrow> Inr (True, h'))
      | None \<Rightarrow> Inr (False, h))"

subsection \<open>The driver loop\<close>

text \<open>
  One pass of the body of the \<^verbatim>\<open>do ... while (state != STOP)\<close> loop of
  \<^verbatim>\<open>parse_file\<close>, for one result of \<^verbatim>\<open>yaml_parser_parse\<close>. The warning for an unknown
  key goes to the diagnostic stream and is not kept.
\<close>

definition parse_step ::
  "uninit \<Rightarrow> yaml_event option \<Rightarrow> TestConfigReader \<Rightarrow> heap \<Rightarrow> error + TestConfigReader \<times> heap" where
  "parse_step u res r h =
     (let r1 = (case res of None \<Rightarrow> r\<lparr>state := STOP\<rparr> | Some _ \<Rightarrow> r);
          event = (case res of None \<Rightarrow> YAML_NO_EVENT | Some e \<Rightarrow> e)
      in case consume_event event r1 of
           Inl e \<Rightarrow> Inl e
         | Inr (ok, r2) \<Rightarrow>
             (let r3 = (if \<not> ok then r2\<lparr>state := STOP\<rparr> else r2)
              in if accepted r3
                 then (case consume_key_value u (key r3) event r3 h of
                         Inl e \<Rightarrow> Inl e
                       | Inr (_, h') \<Rightarrow> Inr (r3, h'))
                 else Inr (r3, h)))"

fun parse_loop ::
  "uninit \<Rightarrow> yaml_event option list \<Rightarrow> TestConfigReader \<Rightarrow> heap
     \<Rightarrow> error + TestConfigReader \<times> heap" where
  "parse_loop u [] r h = parse_step u (Some YAML_NO_EVENT) r h"
| "parse_loop u (res # rest) r h =
     (case parse_step u res r h of
        Inl e \<Rightarrow> Inl e
      | Inr (r', h') \<Rightarrow> if state r' \<noteq> STOP then parse_loop u rest r' h' else Inr (r', h'))"

text \<open>
  \<^verbatim>\<open>parse_file\<close>: \<open>None\<close> is a file that \<^verbatim>\<open>fopen\<close> cannot open. The result is the
  returned \<^verbatim>\<open>int\<close>, the reader and the store.
\<close>

definition parse_file ::
  "uninit \<Rightarrow> yaml_event option list option \<Rightarrow> TestConfigReader \<Rightarrow> heap
     \<Rightarrow> error + int \<times> TestConfigReader \<times> heap" where
  "parse_file u fp r h =
     (case fp of
        None \<Rightarrow> Inr (1, r, h)
      | Some results \<Rightarrow>
          (case parse_loop u results (r\<lparr>state := START\<rparr>) h of
             Inl e \<Rightarrow> Inl e
           | Inr (r', h') \<Rightarrow> Inr (0, r', h')))"

subsection \<open>The entry point\<close>

text \<open>
  How \<^verbatim>\<open>main\<close> ends: a return code of its own, the generation of a fixture into the
  named file followed by return code 0, or the run of the tests (with the value of
  \<^verbatim>\<open>print_stats\<close>), whose verdict is the return code. \<open>argv\<close> is the argument vector
  left by the test framework, \<open>fopen\<close> the file system.
\<close>

datatype outcome = Exit int | Generate string | Run_all_tests bool

definition main ::
  "string list \<Rightarrow> (string \<Rightarrow> yaml_event option list option) \<Rightarrow> uninit \<Rightarrow> heap
     \<Rightarrow> error + outcome \<times> heap" where
  "main argv fopen u h =
     (if length argv \<noteq> 2 \<and> length argv \<noteq> 4 then Inr (Exit 1, h)
      else (case parse_file u (fopen (argv ! 1)) (TestConfigReader_ctor Global_test_config) h of
              Inl e \<Rightarrow> Inl e
            | Inr (rc, r, h') \<Rightarrow>
                if rc \<noteq> 0 then Inr (Exit 2, h')
                else if length argv = 4
                then (if argv ! 2 = ''--gen'' then Inr (Generate (argv ! 3), h')
                      else if argv ! 2 = ''--stats''
                      then Inr (Run_all_tests (argv ! 3 = ''yes''), h')
                      else Inr (Exit 1, h'))
                else Inr (Run_all_tests False, h')))"

subsection \<open>The simulation engine as the tests see it\<close>

text \<open>
  The engine is an external collaborator. A value of this record is what the harness
  reads from it at one moment: \<^verbatim>\<open>lmp->universe->version\<close>, \<^verbatim>\<open>lmp->atom->natoms\<close>,
  \<^verbatim>\<open>nlocal\<close>, \<^verbatim>\<open>tag\<close> and \<^verbatim>\<open>f\<close> (entry \<open>i\<close> holds \<^verbatim>\<open>f[i][0]\<close>, \<^verbatim>\<open>f[i][1]\<close>,
  \<^verbatim>\<open>f[i][2]\<close>), and \<^verbatim>\<open>lmp->force->bond->virial\<close> (its six components in the order of
  the fields of \<open>stress_t\<close>) and \<^verbatim>\<open>energy\<close>. The atom count and the tags, wider
  integers in the engine, are taken to fit the \<^verbatim>\<open>int\<close> they are converted to.
\<close>

record lammps =
  universe_version :: string
  atom_natoms :: int
  atom_nlocal :: int
  atom_tag :: "int list"
  atom_f :: "coord_t list"
  bond_virial :: stress_t
  bond_energy :: real

subsection \<open>The comparison sequence of the default variant\<close>

text \<open>
  The loop \<^verbatim>\<open>for (int i=0; i < nlocal; ++i)\<close> with its three comparisons per atom,
  from index \<open>i\<close> for \<open>n\<close> more atoms. The reads \<^verbatim>\<open>f[i]\<close>, \<^verbatim>\<open>tag[i]\<close> and
  \<^verbatim>\<open>f_ref[tag[i]]\<close> are unchecked in the source; outside their arrays they are the error
  \<open>OutOfBounds\<close>.
\<close>

fun compare_forces ::
  "real \<Rightarrow> coord_t list \<Rightarrow> int list \<Rightarrow> coord_t list \<Rightarrow> nat \<Rightarrow> nat \<Rightarrow> ErrorStats
     \<Rightarrow> error + check list \<times> ErrorStats" where
  "compare_forces eps f tag f_ref i 0 stats = Inr ([], stats)"
| "compare_forces eps f tag f_ref i (Suc n) stats =
     (if i < length f \<and> i < length tag \<and> 0 \<le> tag ! i \<and> nat (tag ! i) < length f_ref
      then (let ref = f_ref ! nat (tag ! i);
                (c1, s1) = EXPECT_FP_LE_WITH_EPS (x_coord (f ! i)) (x_coord ref) eps stats;
                (c2, s2) = EXPECT_FP_LE_WITH_EPS (y_coord (f ! i)) (y_coord ref) eps s1;
                (c3, s3) = EXPECT_FP_LE_WITH_EPS (z_coord (f ! i)) (z_coord ref) eps s2
            in case compare_forces eps f tag f_ref (Suc i) n s3 of
                 Inl e \<Rightarrow> Inl e
               | Inr (cs, s') \<Rightarrow> Inr (c1 # c2 # c3 # cs, s'))
      else Inl OutOfBounds)"

text \<open>The six comparisons of the stress components.\<close>

definition compare_stress ::
  "real \<Rightarrow> stress_t \<Rightarrow> stress_t \<Rightarrow> ErrorStats \<Rightarrow> check list \<times> ErrorStats" where
  "compare_stress eps stress ref stats =
     (let (c0, s0) = EXPECT_FP_LE_WITH_EPS (xx stress) (xx ref) eps stats;
          (c1, s1) = EXPECT_FP_LE_WITH_EPS (yy stress) (yy ref) eps s0;
          (c2, s2) = EXPECT_FP_LE_WITH_EPS (zz stress) (zz ref) eps s1;
          (c3, s3) = EXPECT_FP_LE_WITH_EPS (xy stress) (xy ref) eps s2;
          (c4, s4) = EXPECT_FP_LE_WITH_EPS (xz stress) (xz ref) eps s3;
          (c5, s5) = EXPECT_FP_LE_WITH_EPS (yz stress) (yz ref) eps s4
      in ([c0, c1, c2, c3, c4, c5], s5))"

text \<open>
  How a test body ends: it runs to its end, it is skipped, a fatal assertion
  (\<^verbatim>\<open>ASSERT_EQ\<close>) stops it, or it reads outside an array.
\<close>

datatype test_end = Completed | Skipped | Assert_failed | Undefined error

text \<open>
  \<^verbatim>\<open>TEST(BondStyle, plain)\<close>. \<open>cfg\<close> is the global \<^verbatim>\<open>test_config\<close>, \<open>init\<close> the engine
  after \<^verbatim>\<open>init_lammps\<close> (\<open>None\<close> for the null pointer), \<open>run\<close> the engine after
  \<^verbatim>\<open>run_lammps\<close> and \<open>energy\<close> the scalar of the compute \<^verbatim>\<open>sum\<close>. The result lists the
  comparisons handed to the assertion framework, one group for each reset of the
  accumulator, named as the source names the group when it prints the statistics. The
  two checks of the captured output are left out. The pointer \<^verbatim>\<open>tag\<close> is read once,
  before the run. The sum \<^verbatim>\<open>nlocal+1\<close> is taken not to overflow.
\<close>

definition BondStyle_plain ::
  "TestConfig \<Rightarrow> lammps option \<Rightarrow> lammps \<Rightarrow> real
     \<Rightarrow> (string \<times> check list) list \<times> test_end" where
  "BondStyle_plain cfg init run energy =
     (case init of
        None \<Rightarrow> ([], Skipped)
      | Some lmp \<Rightarrow>
          (let nlocal = atom_nlocal lmp in
           if atom_natoms lmp \<noteq> nlocal then ([], Assert_failed)
           else
             (let eps = epsilon cfg; f_ref = init_forces cfg in
              if nlocal + 1 \<noteq> int (length f_ref) then ([], Assert_failed)
              else
                (case compare_forces eps (atom_f lmp) (atom_tag lmp) f_ref 0 (nat nlocal) reset of
                   Inl e \<Rightarrow> ([], Undefined e)
                 | Inr (g1, _) \<Rightarrow>
                     (let g2 = fst (compare_stress eps (bond_virial lmp) (init_stress cfg) reset);
                          g3 = [fst (EXPECT_FP_LE_WITH_EPS (bond_energy lmp) (init_energy cfg)
                                       eps reset)];
                          groups = [(''init_forces'', g1), (''init_stress'', g2),
                                    (''init_energy'', g3)];
                          f_run = run_forces cfg
                      in if nlocal + 1 \<noteq> int (length f_run) then (groups, Assert_failed)
                         else
                           (case compare_forces (10 * eps) (atom_f run) (atom_tag lmp) f_run 0
                                   (nat nlocal) reset of
                              Inl e \<Rightarrow> (groups, Undefined e)
                            | Inr (g4, _) \<Rightarrow>
                                (let g5 = fst (compare_stress eps (bond_virial run)
                                                 (run_stress cfg) reset);
                                     (c1, s1) = EXPECT_FP_LE_WITH_EPS (bond_energy run)
                                                  (run_energy cfg) eps reset;
                                     (c2, s2) = EXPECT_FP_LE_WITH_EPS (bond_energy run)
                                                  energy eps s1
                                 in (groups @ [(''run_forces'', g4), (''run_stress'', g5),
                                               (''run_energy'', [c1, c2])],
                                     Completed))))))))"

text \<open>The comparisons of one group of a test result.\<close>

definition group_checks :: "(string \<times> check list) list \<Rightarrow> string \<Rightarrow> check list" where
  "group_checks groups name = concat (map snd (filter (\<lambda>g. fst g = name) groups))"

subsection \<open>The tolerance of the Intel variant\<close>

text \<open>
  The local \<^verbatim>\<open>epsilon\<close> of \<^verbatim>\<open>TEST(BondStyle, intel)\<close> after the loop over
  \<^verbatim>\<open>test_config.post_commands\<close>; every later comparison of the test uses it.
\<close>

definition intel_epsilon :: "TestConfig \<Rightarrow> real" where
  "intel_epsilon cfg =
     foldl (\<lambda>eps post_cmd.
              if str_find post_cmd ''bond_modify table'' \<noteq> None
              then (if str_find post_cmd ''bond_modify table 0'' = None
                    then eps * 1000000 else eps)
              else eps)
       (5 * epsilon cfg) (post_commands cfg)"

subsection \<open>The fixture writer\<close>

text \<open>
  Formatting of numbers by \<^verbatim>\<open>snprintf\<close> (C library). The integer conversions are
  defined here: \<^verbatim>\<open>%d\<close>, and \<^verbatim>\<open>% 3d\<close> with its blank in place of a plus sign and its
  padding to three characters. The conversions of a \<^verbatim>\<open>double\<close>, \<^verbatim>\<open>%.15g\<close> and
  \<^verbatim>\<open>% 23.16e\<close>, depend on the binary representation, which the model does not have:
  they are parameters, and what is known of them is stated below (\<open>renders\<close>).
\<close>

definition digit_char :: "nat \<Rightarrow> char" where
  "digit_char d = char_of (of_char CHR ''0'' + d)"

fun digits_of :: "nat \<Rightarrow> string" where
  "digits_of n =
     (if n < 10 then [digit_char n] else digits_of (n div 10) @ [digit_char (n mod 10)])"

declare digits_of.simps [simp del]

definition fmt_d :: "int \<Rightarrow> string" where
  "fmt_d n = (if n < 0 then CHR ''-'' # digits_of (nat (- n)) else digits_of (nat n))"

definition fmt_3d :: "int \<Rightarrow> string" where
  "fmt_3d n =
     (let s = (if n < 0 then CHR ''-'' # digits_of (nat (- n)) else CHR '' '' # digits_of (nat n))
      in replicate (3 - length s) CHR '' '' @ s)"

record printf =
  fmt_15g :: "real \<Rightarrow> string"
  fmt_23_16e :: "real \<Rightarrow> string"

text \<open>
  What the C library promises of a printed \<^verbatim>\<open>double\<close>, in terms of the reader. The text
  \<open>t\<close> is read as the number \<open>w\<close> when both conversions of the reader (\<^verbatim>\<open>%lg\<close> and
  \<^verbatim>\<open>strtod\<close>) convert \<open>t\<close>, at the end of the input or before a blank, in full and to
  \<open>w\<close>. A number \<open>w\<close> is close to \<open>v\<close> within \<open>\<delta>\<close> when their distance is at most
  \<open>\<delta> \<cdot> |v|\<close>. The text \<open>t\<close> renders \<open>v\<close> within \<open>\<delta>\<close> when it has at most 24 characters,
  none of them a NUL or a newline, and is read as a number close to \<open>v\<close> within \<open>\<delta>\<close>.
  \<^verbatim>\<open>%.15g\<close> prints 15 significant digits and \<^verbatim>\<open>% 23.16e\<close> prints 17: they render a
  finite \<^verbatim>\<open>double\<close> within \<open>5e-15\<close> and \<open>5e-17\<close>.
\<close>

definition reads_as :: "string \<Rightarrow> real \<Rightarrow> bool" where
  "reads_as t w \<longleftrightarrow>
     (\<forall>strict rest. rest = [] \<or> hd rest = CHR '' '' \<longrightarrow>
        scan_double strict (t @ rest) = Some (w, rest))"

definition close_to :: "real \<Rightarrow> real \<Rightarrow> real \<Rightarrow> bool" where
  "close_to \<delta> w v \<longleftrightarrow> \<bar>w - v\<bar> \<le> \<delta> * \<bar>v\<bar>"

definition renders :: "real \<Rightarrow> string \<Rightarrow> real \<Rightarrow> bool" where
  "renders \<delta> t v \<longleftrightarrow>
     length t \<le> 24 \<and> CHR 0x00 \<notin> set t \<and> CHR 0x0A \<notin> set t \<and>
     (\<exists>w. reads_as t w \<and> close_to \<delta> w v)"

text \<open>The same, component by component, for the values printed with \<^verbatim>\<open>% 23.16e\<close>.\<close>

definition coord_close :: "real \<Rightarrow> coord_t \<Rightarrow> coord_t \<Rightarrow> bool" where
  "coord_close \<delta> a b \<longleftrightarrow>
     close_to \<delta> (x_coord a) (x_coord b) \<and> close_to \<delta> (y_coord a) (y_coord b) \<and>
     close_to \<delta> (z_coord a) (z_coord b)"

definition stress_close :: "real \<Rightarrow> stress_t \<Rightarrow> stress_t \<Rightarrow> bool" where
  "stress_close \<delta> a b \<longleftrightarrow>
     close_to \<delta> (xx a) (xx b) \<and> close_to \<delta> (yy a) (yy b) \<and> close_to \<delta> (zz a) (zz b) \<and>
     close_to \<delta> (xy a) (xy b) \<and> close_to \<delta> (xz a) (xz b) \<and> close_to \<delta> (yz a) (yz b)"

definition renders_coord :: "printf \<Rightarrow> real \<Rightarrow> coord_t \<Rightarrow> bool" where
  "renders_coord p \<delta> a \<longleftrightarrow>
     renders \<delta> (fmt_23_16e p (x_coord a)) (x_coord a) \<and>
     renders \<delta> (fmt_23_16e p (y_coord a)) (y_coord a) \<and>
     renders \<delta> (fmt_23_16e p (z_coord a)) (z_coord a)"

definition renders_stress :: "printf \<Rightarrow> real \<Rightarrow> stress_t \<Rightarrow> bool" where
  "renders_stress p \<delta> s \<longleftrightarrow>
     renders \<delta> (fmt_23_16e p (xx s)) (xx s) \<and> renders \<delta> (fmt_23_16e p (yy s)) (yy s) \<and>
     renders \<delta> (fmt_23_16e p (zz s)) (zz s) \<and> renders \<delta> (fmt_23_16e p (xy s)) (xy s) \<and>
     renders \<delta> (fmt_23_16e p (xz s)) (xz s) \<and> renders \<delta> (fmt_23_16e p (yz s)) (yz s)"

text \<open>What \<^verbatim>\<open>snprintf(buf, 256, ...)\<close> leaves in the buffer: at most 255 characters.\<close>

definition snprintf_buf :: "string \<Rightarrow> string" where
  "snprintf_buf s = take 255 s"

text \<open>
  \<^verbatim>\<open>pos - 1\<close> in \<^verbatim>\<open>size_t\<close> arithmetic for a position or \<^verbatim>\<open>npos\<close>: position 0 wraps
  around to \<^verbatim>\<open>npos\<close>, and \<^verbatim>\<open>npos - 1\<close> still exceeds the length of every string, so
  as a count it takes the rest of the string like \<^verbatim>\<open>npos\<close>.
\<close>

fun size_minus_1 :: "nat option \<Rightarrow> nat option" where
  "size_minus_1 None = None"
| "size_minus_1 (Some 0) = None"
| "size_minus_1 (Some (Suc k)) = Some k"

text \<open>
  The events of \<^verbatim>\<open>YamlWriter::emit\<close> (all four overloads end in a key scalar and a
  value scalar; the numeric ones format the value first) and of \<^verbatim>\<open>emit_block\<close>. The
  scalar style, plain or literal, is not part of the event model: the emitter, the
  file and the parser are external, and a scalar written is taken to be read back
  with the same bytes.
\<close>

definition emit :: "string \<Rightarrow> string \<Rightarrow> yaml_event list" where
  "emit k v = [YAML_SCALAR_EVENT k, YAML_SCALAR_EVENT v]"

definition emit_double :: "printf \<Rightarrow> string \<Rightarrow> real \<Rightarrow> yaml_event list" where
  "emit_double p k v = emit k (snprintf_buf (fmt_15g p v))"

definition emit_int :: "string \<Rightarrow> int \<Rightarrow> yaml_event list" where
  "emit_int k v = emit k (snprintf_buf (fmt_d v))"

definition emit_block :: "string \<Rightarrow> string \<Rightarrow> yaml_event list" where
  "emit_block k v = [YAML_SCALAR_EVENT k, YAML_SCALAR_EVENT v]"

text \<open>The line of six stress components, without a newline.\<close>

definition stress_line :: "printf \<Rightarrow> stress_t \<Rightarrow> string" where
  "stress_line p stress =
     snprintf_buf (fmt_23_16e p (xx stress) @ '' '' @ fmt_23_16e p (yy stress) @ '' '' @
                   fmt_23_16e p (zz stress) @ '' '' @ fmt_23_16e p (xy stress) @ '' '' @
                   fmt_23_16e p (xz stress) @ '' '' @ fmt_23_16e p (yz stress))"

text \<open>
  One row of a force block: the text that the conversions of the format
  \<^verbatim>\<open>"% 3d % 23.16e % 23.16e % 23.16e\n"\<close> produce before the final newline, and the
  row as it is left in the buffer.
\<close>

definition force_line :: "printf \<Rightarrow> int \<Rightarrow> coord_t \<Rightarrow> string" where
  "force_line p t xyz =
     fmt_3d t @ '' '' @ fmt_23_16e p (x_coord xyz) @ '' '' @
     fmt_23_16e p (y_coord xyz) @ '' '' @ fmt_23_16e p (z_coord xyz)"

definition force_row :: "printf \<Rightarrow> int \<Rightarrow> coord_t \<Rightarrow> string" where
  "force_row p t xyz = snprintf_buf (force_line p t xyz @ ''\<newline>'')"

text \<open>
  The loop \<^verbatim>\<open>for (int i=0; i < natoms; ++i)\<close> that builds a force block, from index
  \<open>i\<close> for \<open>n\<close> more atoms; the reads \<^verbatim>\<open>tag[i]\<close> and \<^verbatim>\<open>f[i]\<close> are unchecked in the
  source.
\<close>

fun force_block :: "printf \<Rightarrow> int list \<Rightarrow> coord_t list \<Rightarrow> nat \<Rightarrow> nat \<Rightarrow> error + string" where
  "force_block p tag f i 0 = Inr []"
| "force_block p tag f i (Suc n) =
     (if i < length tag \<and> i < length f
      then (case force_block p tag f (Suc i) n of
              Inl e \<Rightarrow> Inl e
            | Inr block \<Rightarrow> Inr (force_row p (tag ! i) (f ! i) @ block))
      else Inl OutOfBounds)"

text \<open>
  \<^verbatim>\<open>generate\<close>: the events written to the output file, \<open>None\<close> when a prerequisite
  style is missing and nothing is written. \<open>cfg\<close> is the global \<^verbatim>\<open>test_config\<close>,
  \<open>init\<close> the engine after \<^verbatim>\<open>init_lammps\<close> (\<open>None\<close> for the null pointer), \<open>run\<close> the
  engine after \<^verbatim>\<open>run_lammps\<close>, \<open>now\<close> the text that \<^verbatim>\<open>ctime\<close> returns. The output
  file is taken to open. The force blocks are built here before the events are listed;
  the source builds the second one after the run, with the same reads.
\<close>

definition generate ::
  "printf \<Rightarrow> TestConfig \<Rightarrow> lammps option \<Rightarrow> lammps \<Rightarrow> string
     \<Rightarrow> error + yaml_event list option" where
  "generate p cfg init run now =
     (case init of
        None \<Rightarrow> Inr None
      | Some lmp \<Rightarrow>
          (let natoms = atom_natoms lmp in
           case force_block p (atom_tag lmp) (atom_f lmp) 0 (nat natoms) of
             Inl e \<Rightarrow> Inl e
           | Inr init_block \<Rightarrow>
               (case force_block p (atom_tag run) (atom_f run) 0 (nat natoms) of
                  Inl e \<Rightarrow> Inl e
                | Inr run_block \<Rightarrow>
                    Inr (Some
                      ([YAML_STREAM_START_EVENT, YAML_DOCUMENT_START_EVENT,
                        YAML_MAPPING_START_EVENT] @
                       emit ''lammps_version'' (universe_version lmp) @
                       emit ''date_generated''
                         (substr now 0 (size_minus_1 (str_find now ''\<newline>''))) @
                       emit_double p ''epsilon'' (epsilon cfg) @
                       emit_block ''prerequisites''
                         (concat (map (\<lambda>pr. fst pr @ '' '' @ snd pr @ ''\<newline>'')
                                    (prerequisites cfg))) @
                       emit_block ''pre_commands''
                         (concat (map (\<lambda>c. c @ ''\<newline>'') (pre_commands cfg))) @
                       emit_block ''post_commands''
                         (concat (map (\<lambda>c. c @ ''\<newline>'') (post_commands cfg))) @
                       emit ''input_file'' (input_file cfg) @
                       emit ''bond_style'' (bond_style cfg) @
                       emit_block ''bond_coeff''
                         (concat (map (\<lambda>c. c @ ''\<newline>'') (bond_coeff cfg))) @
                       emit_int ''natoms'' natoms @
                       emit_double p ''init_energy'' (bond_energy lmp) @
                       emit_block ''init_stress'' (stress_line p (bond_virial lmp)) @
                       emit_block ''init_forces'' init_block @
                       emit_double p ''run_energy'' (bond_energy run) @
                       emit_block ''run_stress'' (stress_line p (bond_virial run)) @
                       emit_block ''run_forces'' run_block @
                       [YAML_MAPPING_END_EVENT, YAML_DOCUMENT_END_EVENT,
                        YAML_STREAM_END_EVENT])))))"

text \<open>
  Writer, then reader: the written events handed to \<^verbatim>\<open>parse_file\<close> of a reader bound to
  the global \<^verbatim>\<open>test_config\<close>, for a store \<open>h\<close>.
\<close>

definition write_then_read ::
  "printf \<Rightarrow> uninit \<Rightarrow> TestConfig \<Rightarrow> lammps option \<Rightarrow> lammps \<Rightarrow> string \<Rightarrow> heap
     \<Rightarrow> error + (int \<times> TestConfigReader \<times> heap) option" where
  "write_then_read p u cfg init run now h =
     (case generate p cfg init run now of
        Inl e \<Rightarrow> Inl e
      | Inr None \<Rightarrow> Inr None
      | Inr (Some events) \<Rightarrow>
          (case parse_file u (Some (map Some events))
                  (TestConfigReader_ctor Global_test_config) h of
             Inl e \<Rightarrow> Inl e
           | Inr res \<Rightarrow> Inr (Some res)))"

subsection \<open>Sample values for evaluation\<close>

text \<open>
  Uninitialised locals that hold left-over values: every component of \<^verbatim>\<open>stress\<close> is
  1, every \<^verbatim>\<open>xyz\<close> is (7, 8, 9) and every \<^verbatim>\<open>tag\<close> is 1.
\<close>

definition leftover :: uninit where
  "leftover =
     \<lparr>stress_uninit = \<lparr>xx = 1, yy = 1, zz = 1, xy = 1, xz = 1, yz = 1\<rparr>,
      xyz_uninit = (\<lambda>i. \<lparr>x_coord = 7, y_coord = 8, z_coord = 9\<rparr>),
      tag_uninit = (\<lambda>i. 1)\<rparr>"

text \<open>
  An engine with one atom, tag 1, force (1, 0, 0), no stress and no energy, and the
  fixture that matches it: the constructed configuration with \<open>natoms = 1\<close> and force
  arrays of \<open>natoms + 1\<close> entries.
\<close>

definition one_atom_engine :: lammps where
  "one_atom_engine =
     \<lparr>universe_version = ''7 Aug 2019'', atom_natoms = 1, atom_nlocal = 1, atom_tag = [1],
      atom_f = [\<lparr>x_coord = 1, y_coord = 0, z_coord = 0\<rparr>],
      bond_virial = \<lparr>xx = 0, yy = 0, zz = 0, xy = 0, xz = 0, yz = 0\<rparr>,
      bond_energy = 0\<rparr>"

definition one_atom_fixture :: TestConfig where
  "one_atom_fixture =
     TestConfig_ctor\<lparr>lammps_version := ''5 Jun 2019'',
       date_generated := ''Wed Jun  5 12:00:00 201'',
       prerequisites := [(''atom'', ''full''), (''bond'', ''harmonic'')],
       pre_commands := [''units real''],
       post_commands := [''special_bonds lj 0 1 1''],
       input_file := ''in.fourmol'',
       bond_style := ''harmonic'',
       bond_coeff := [''1 250.0 1.5''],
       natoms := 1,
       init_forces := [coord_zero, \<lparr>x_coord = 1, y_coord = 0, z_coord = 0\<rparr>],
       run_forces := [coord_zero, \<lparr>x_coord = 1, y_coord = 0, z_coord = 0\<rparr>]\<rparr>"

text \<open>
  A fixture recorded earlier, on 5 June, for a system of two atoms with energy 5 and
  with a tolerance of 17 significant digits, and the engine at the time the fixture is
  written again: one atom, with the energy \<open>0.30000000000000004\<close> (the \<^verbatim>\<open>double\<close> sum of
  0.1 and 0.2).
\<close>

definition stale_fixture :: TestConfig where
  "stale_fixture =
     TestConfig_ctor\<lparr>lammps_version := ''5 Jun 2019'',
       date_generated := ''Wed Jun  5 12:00:00 2019'',
       epsilon := 11000000000000001 / 10 ^ 32,
       prerequisites := [(''atom'', ''full''), (''bond'', ''harmonic'')],
       pre_commands := [''units real''],
       post_commands := [''special_bonds lj 0 1 1''],
       input_file := ''in.fourmol'',
       bond_style := ''harmonic'',
       bond_coeff := [''1 250.0 1.5''],
       natoms := 2,
       init_energy := 5,
       run_energy := 5,
       init_forces := [coord_zero, \<lparr>x_coord = 1, y_coord = 0, z_coord = 0\<rparr>,
                       \<lparr>x_coord = - 1, y_coord = 0, z_coord = 0\<rparr>],
       run_forces := [coord_zero, \<lparr>x_coord = 1, y_coord = 0, z_coord = 0\<rparr>,
                      \<lparr>x_coord = - 1, y_coord = 0, z_coord = 0\<rparr>]\<rparr>"

definition strained_engine :: lammps where
  "strained_engine = one_atom_engine\<lparr>bond_energy := 30000000000000004 / 10 ^ 17\<rparr>"

text \<open>
  A stand-in for the two \<^verbatim>\<open>double\<close> conversions of \<^verbatim>\<open>snprintf\<close> that prints the
  values of the samples as \<^verbatim>\<open>snprintf\<close> does: 0, 1 and \<open>1e-14\<close>, and, with 15
  significant digits, \<open>0.30000000000000004\<close> as \<^verbatim>\<open>0.3\<close> and \<open>1.1000000000000001e-16\<close> as
  \<^verbatim>\<open>1.1e-16\<close>.
\<close>

definition sample_printf :: printf where
  "sample_printf =
     \<lparr>fmt_15g = (\<lambda>v. if v = 0 then ''0'' else if v = 1 then ''1''
                      else if v = 1 / 10 ^ 14 then ''1e-14''
                      else if v = 30000000000000004 / 10 ^ 17 then ''0.3''
                      else if v = 11000000000000001 / 10 ^ 32 then ''1.1e-16''
                      else ''nan''),
      fmt_23_16e = (\<lambda>v. if v = 0 then '' 0.0000000000000000e+00''
                         else if v = 1 then '' 1.0000000000000000e+00''
                         else ''                    nan'')\<rparr>"

text \<open>
  The text of \<^verbatim>\<open>ctime\<close> for one moment, and the store in which every configuration
  object is as its constructor leaves it.
\<close>

definition sample_now :: string where
  "sample_now = ''Wed Aug  7 12:00:00 2019\<newline>''"

definition fresh_heap :: heap where
  "fresh_heap = (\<lambda>p. TestConfig_ctor)"

section \<open>Verified properties\<close>

subsection \<open>Relative error\<close>

lemma std_min_eq: "std_min a b = min a b"
  by (simp add: std_min_def min_def)

text \<open>
  C2. For an observed value \<open>ob\<close> and an expected value \<open>ex\<close>, the relative error that
  the comparison macro computes, hands to the assertion framework and records in the
  accumulator is \<open>|ob - ex|\<close> when \<open>min |ob| |ex| = 0\<close> and \<open>|ob - ex| / min |ob| |ex|\<close>
  otherwise.
\<close>

theorem C2_relative_error:
  "rel_err (fst (EXPECT_FP_LE_WITH_EPS ob ex eps stats)) =
     (if min \<bar>ob\<bar> \<bar>ex\<bar> = 0 then \<bar>ob - ex\<bar> else \<bar>ob - ex\<bar> / min \<bar>ob\<bar> \<bar>ex\<bar>) \<and>
   snd (EXPECT_FP_LE_WITH_EPS ob ex eps stats) =
     add (if min \<bar>ob\<bar> \<bar>ex\<bar> = 0 then \<bar>ob - ex\<bar> else \<bar>ob - ex\<bar> / min \<bar>ob\<bar> \<bar>ex\<bar>) stats"
  by (simp add: EXPECT_FP_LE_WITH_EPS_def Let_def std_min_eq)

subsection \<open>Maximum and index of the maximum\<close>

lemma add_all_snoc: "add_all (vs @ [v]) = add v (add_all vs)"
  by (simp add: add_all_def)

lemma Max_snoc: "Max (insert 0 (set (xs @ [x]))) = max x (Max (insert (0::real) (set xs)))"
proof -
  have "insert 0 (set (xs @ [x])) = insert x (insert 0 (set xs))" by auto
  then show ?thesis by (simp del: set_append)
qed

lemma Max_nonpos: "\<forall>v\<in>set xs. v \<le> 0 \<Longrightarrow> Max (insert (0::real) (set xs)) = 0"
  by (rule Max_eqI) auto

lemma Max_pos: "\<exists>v\<in>set xs. 0 < v \<Longrightarrow> Max (insert (0::real) (set xs)) = Max (set xs)"
proof -
  assume "\<exists>v\<in>set xs. 0 < v"
  then obtain v where v: "v \<in> set xs" "0 < v" by blast
  then have ne: "set xs \<noteq> {}" by auto
  have "v \<le> Max (set xs)" using v by simp
  then have "0 \<le> Max (set xs)" using v by linarith
  then show ?thesis using ne by (simp add: max_def)
qed

lemma add_all_num: "num (add_all vs) = int (length vs)"
  by (induction vs rule: rev_induct) (simp_all add: add_all_def reset_def add_def Let_def)

lemma add_all_maxerr: "maxerr (add_all vs) = Max (insert 0 (set vs))"
proof (induction vs rule: rev_induct)
  case Nil
  show ?case by (simp add: add_all_def reset_def)
next
  case (snoc x xs)
  have "maxerr (add x (add_all xs)) = max x (maxerr (add_all xs))"
    by (simp add: add_def Let_def max_def)
  then show ?case
    unfolding add_all_snoc Max_snoc using snoc by simp
qed

lemma add_all_maxidx_nonpos:
  "\<forall>v\<in>set vs. v \<le> 0 \<Longrightarrow> maxidx (add_all vs) = - 1"
proof (induction vs rule: rev_induct)
  case Nil
  show ?case by (simp add: add_all_def reset_def)
next
  case (snoc x xs)
  then have all: "\<forall>v\<in>set xs. v \<le> 0" and x: "x \<le> 0" by simp_all
  have "maxerr (add_all xs) = 0"
    using all by (simp add: add_all_maxerr Max_nonpos)
  then show ?case
    unfolding add_all_snoc using x snoc.IH [OF all] by (simp add: add_def Let_def)
qed

lemma add_all_maxidx_pos:
  "\<exists>v\<in>set vs. 0 < v \<Longrightarrow>
   \<exists>i<length vs. maxidx (add_all vs) = int i + 1 \<and> vs ! i = maxerr (add_all vs)
      \<and> (\<forall>j<i. vs ! j < maxerr (add_all vs))"
proof (induction vs rule: rev_induct)
  case Nil
  then show ?case by simp
next
  case (snoc x xs)
  let ?s = "add_all xs"
  have ub: "xs ! j \<le> maxerr ?s" if "j < length xs" for j
    using that by (simp add: add_all_maxerr)
  have nonneg: "0 \<le> maxerr ?s" by (simp add: add_all_maxerr)
  show ?case
  proof (cases "maxerr ?s < x")
    case True
    have 1: "maxerr (add x ?s) = x" "maxidx (add x ?s) = int (length xs) + 1"
      using True by (simp_all add: add_def Let_def add_all_num)
    have "(xs @ [x]) ! j < x" if "j < length xs" for j
      using ub [OF that] True that by (simp add: nth_append)
    then have "length xs < length (xs @ [x]) \<and> maxidx (add x ?s) = int (length xs) + 1
        \<and> (xs @ [x]) ! length xs = maxerr (add x ?s)
        \<and> (\<forall>j<length xs. (xs @ [x]) ! j < maxerr (add x ?s))"
      using 1 by simp
    then show ?thesis unfolding add_all_snoc by blast
  next
    case False
    have 1: "maxerr (add x ?s) = maxerr ?s" "maxidx (add x ?s) = maxidx ?s"
      using False by (simp_all add: add_def Let_def)
    have "\<exists>v\<in>set xs. 0 < v"
    proof (rule ccontr)
      assume "\<not> (\<exists>v\<in>set xs. 0 < v)"
      then have "\<forall>v\<in>set xs. v \<le> 0" by auto
      then have "maxerr ?s = 0" by (simp add: add_all_maxerr Max_nonpos)
      with False have "x \<le> 0" by simp
      with \<open>\<forall>v\<in>set xs. v \<le> 0\<close> snoc.prems show False by auto
    qed
    from snoc.IH [OF this] obtain i where i: "i < length xs" "maxidx ?s = int i + 1"
      "xs ! i = maxerr ?s" "\<forall>j<i. xs ! j < maxerr ?s" by blast
    have "i < length (xs @ [x]) \<and> maxidx (add x ?s) = int i + 1
        \<and> (xs @ [x]) ! i = maxerr (add x ?s)
        \<and> (\<forall>j<i. (xs @ [x]) ! j < maxerr (add x ?s))"
      using i 1 by (simp add: nth_append)
    then show ?thesis unfolding add_all_snoc by blast
  qed
qed

text \<open>
  C4, as stated, fails: after \<^verbatim>\<open>reset()\<close> and the single sample 0 the only position
  is 1, but \<^verbatim>\<open>idx()\<close> is -1, because a sample replaces the maximum only when it is
  greater than the initial \<^verbatim>\<open>maxerr = 0\<close>. After the single sample -1 the reported
  maximum is 0.
\<close>

theorem C4_idx_counterexample:
  "max_stats (add_all [0]) = 0 \<and> idx (add_all [0]) = - 1 \<and> idx (add_all [0]) \<noteq> 1 \<and>
   max_stats (add_all [- 1]) = 0 \<and> max_stats (add_all [- 1]) \<noteq> - 1"
  by (simp add: add_all_def add_def reset_def max_stats_def idx_def)

text \<open>
  C4, amended. For samples \<open>vs\<close> fed to \<^verbatim>\<open>add\<close> after \<^verbatim>\<open>reset()\<close>, fewer than \<open>2^31\<close>
  of them (the counter is an \<^verbatim>\<open>int\<close>): if some sample is greater than 0, \<^verbatim>\<open>max()\<close> is
  the largest sample and \<^verbatim>\<open>idx()\<close> is the 1-based position of its first occurrence;
  if no sample is greater than 0, \<^verbatim>\<open>max()\<close> is 0 and \<^verbatim>\<open>idx()\<close> is -1.
\<close>

theorem C4_max_and_idx:
  assumes "length vs < 2 ^ 31"
  shows "((\<exists>v\<in>set vs. 0 < v) \<longrightarrow>
            max_stats (add_all vs) = Max (set vs) \<and>
            (\<exists>i<length vs. idx (add_all vs) = real (i + 1) \<and> vs ! i = Max (set vs)
                \<and> (\<forall>j<i. vs ! j < Max (set vs)))) \<and>
         ((\<forall>v\<in>set vs. v \<le> 0) \<longrightarrow>
            max_stats (add_all vs) = 0 \<and> idx (add_all vs) = - 1)"
proof (intro conjI impI)
  assume pos: "\<exists>v\<in>set vs. 0 < v"
  have m: "maxerr (add_all vs) = Max (set vs)"
    using pos by (simp add: add_all_maxerr Max_pos)
  then show "max_stats (add_all vs) = Max (set vs)"
    by (simp add: max_stats_def)
  from add_all_maxidx_pos [OF pos] obtain i where i: "i < length vs"
    "maxidx (add_all vs) = int i + 1" "vs ! i = maxerr (add_all vs)"
    "\<forall>j<i. vs ! j < maxerr (add_all vs)" by blast
  have "idx (add_all vs) = real (i + 1)"
    using i(2) by (simp add: idx_def)
  then show "\<exists>i<length vs. idx (add_all vs) = real (i + 1) \<and> vs ! i = Max (set vs)
      \<and> (\<forall>j<i. vs ! j < Max (set vs))"
    using i m by auto
next
  assume np: "\<forall>v\<in>set vs. v \<le> 0"
  then show "max_stats (add_all vs) = 0"
    by (simp add: max_stats_def add_all_maxerr Max_nonpos)
  show "idx (add_all vs) = - 1"
    using add_all_maxidx_nonpos [OF np] by (simp add: idx_def)
qed

text \<open>
  The samples 0.5, 2, 2, 1 have their maximum 2 first at position 2; the samples 0, 0
  never exceed 0.
\<close>

theorem C4_max_and_idx_witness:
  "max_stats (add_all [1 / 2, 2, 2, 1]) = Max (set [1 / 2, 2, 2, 1]) \<and>
   (\<exists>i<length [1 / 2, 2, 2, 1 :: real]. idx (add_all [1 / 2, 2, 2, 1]) = real (i + 1) \<and>
      [1 / 2, 2, 2, 1] ! i = Max (set [1 / 2, 2, 2, 1 :: real]) \<and>
      (\<forall>j<i. [1 / 2, 2, 2, 1] ! j < Max (set [1 / 2, 2, 2, 1 :: real]))) \<and>
   max_stats (add_all [0, 0]) = 0 \<and> idx (add_all [0, 0]) = - 1"
proof -
  have len: "length [1 / 2, 2, 2, 1 :: real] < 2 ^ 31" "length [0, 0 :: real] < 2 ^ 31"
    by simp_all
  have pos: "\<exists>v\<in>set [1 / 2, 2, 2, 1 :: real]. 0 < v" by simp
  have nonpos: "\<forall>v\<in>set [0, 0 :: real]. v \<le> 0" by simp
  show ?thesis
    using C4_max_and_idx [OF len(1)] C4_max_and_idx [OF len(2)] pos nonpos by blast
qed

subsection \<open>Parse failures\<close>

text \<open>
  The driver loop ends in state \<open>STOP\<close> whenever it returns: the one pass that the model
  makes after the parser's results are used up is the last one.
\<close>

lemma parse_step_no_event:
  "parse_step u (Some YAML_NO_EVENT) r h = Inr (r', h') \<Longrightarrow> state r' = STOP \<and> h' = h"
  by (cases "state r") (auto simp: parse_step_def consume_event_def)

lemma parse_loop_stops:
  "parse_loop u results r h = Inr (r', h') \<Longrightarrow> state r' = STOP"
proof (induction results arbitrary: r h)
  case Nil
  then show ?case using parse_step_no_event by simp
next
  case (Cons res results)
  then show ?case
    by (auto split: sum.splits if_splits)
qed

text \<open>
  A file that could be opened never makes \<^verbatim>\<open>parse_file\<close> return anything but 0, and
  so never makes \<^verbatim>\<open>main\<close> return 2.
\<close>

lemma parse_file_opened:
  "parse_file u (Some results) r h = Inr (rc, r', h') \<Longrightarrow> rc = 0"
  by (auto simp: parse_file_def split: sum.splits)

lemma main_never_exits_2_on_opened_file:
  assumes "fopen (argv ! 1) = Some results"
  shows "main argv fopen u h \<noteq> Inr (Exit 2, h')"
  using assms
  by (auto simp: main_def parse_file_def split: sum.splits)

text \<open>
  A value that is no scalar (here the start of a sequence behind the key \<open>natoms\<close>) is
  met in state \<^verbatim>\<open>ACCEPT_VALUE\<close>, whose default branch prints the scalar value that
  the event does not have.
\<close>

lemma sequence_value_has_no_scalar:
  "parse_file u
     (Some (Some YAML_STREAM_START_EVENT # Some YAML_DOCUMENT_START_EVENT #
            Some YAML_MAPPING_START_EVENT # Some (YAML_SCALAR_EVENT ''natoms'') #
            Some YAML_SEQUENCE_START_EVENT # rest))
     (TestConfigReader_ctor Global_test_config) h
   = Inl NoScalarValue"
  by (simp add: parse_file_def parse_step_def consume_event_def TestConfigReader_ctor_def)

text \<open>
  C1, evaluated on a bare scalar document. The scalar sends the state machine from
  \<open>START\<close> to \<open>ERROR\<close>, no decoder runs and the store is unchanged; but the driver turns
  \<open>ERROR\<close> into \<open>STOP\<close> and \<^verbatim>\<open>parse_file\<close> returns 0, as for every file that could be
  opened, so \<^verbatim>\<open>main\<close> goes on to run the tests instead of returning 2.
\<close>

theorem C1_bare_scalar_returns_0:
  "parse_file u
     (Some [Some YAML_STREAM_START_EVENT, Some YAML_DOCUMENT_START_EVENT,
            Some (YAML_SCALAR_EVENT ''hello''), Some YAML_DOCUMENT_END_EVENT,
            Some YAML_STREAM_END_EVENT])
     (TestConfigReader_ctor Global_test_config) h
   = Inr (0, \<lparr>state = STOP, accepted = False, key = [], config = Global_test_config\<rparr>, h) \<and>
   main [''bond-style'', ''bare.yaml'']
     (\<lambda>name. Some [Some YAML_STREAM_START_EVENT, Some YAML_DOCUMENT_START_EVENT,
            Some (YAML_SCALAR_EVENT ''hello''), Some YAML_DOCUMENT_END_EVENT,
            Some YAML_STREAM_END_EVENT]) u h
   = Inr (Run_all_tests False, h)"
  by (simp add: main_def parse_file_def parse_step_def consume_event_def
      TestConfigReader_ctor_def)

subsection \<open>The bound configuration object\<close>

text \<open>
  C7, evaluated for a reader bound to a \<^verbatim>\<open>TestConfig\<close> other than the global
  \<^verbatim>\<open>test_config\<close>, both freshly constructed. Each of the four list decoders clears the
  list of the bound object and appends the parsed entries to the list of the global
  object: the bound object's list stays empty.
\<close>

theorem C7_lists_go_to_global:
  "(case prerequisites_consumer u
           (YAML_SCALAR_EVENT (''bond harmonic'' @ [CHR 0x0A] @ ''atom full'' @ [CHR 0x0A]))
           (TestConfigReader_ctor (Other_config 0)) (\<lambda>p. TestConfig_ctor) of
      Inl e \<Rightarrow> False
    | Inr h' \<Rightarrow> prerequisites (h' (Other_config 0)) = [] \<and>
        prerequisites (h' Global_test_config) = [(''bond'', ''harmonic''), (''atom'', ''full'')]) \<and>
   (case pre_commands_consumer u
           (YAML_SCALAR_EVENT (''units real'' @ [CHR 0x0A] @ ''newton on'' @ [CHR 0x0A]))
           (TestConfigReader_ctor (Other_config 0)) (\<lambda>p. TestConfig_ctor) of
      Inl e \<Rightarrow> False
    | Inr h' \<Rightarrow> pre_commands (h' (Other_config 0)) = [] \<and>
        pre_commands (h' Global_test_config) = [''units real'', ''newton on'']) \<and>
   (case post_commands_consumer u
           (YAML_SCALAR_EVENT (''special_bonds lj 0 1 1'' @ [CHR 0x0A]))
           (TestConfigReader_ctor (Other_config 0)) (\<lambda>p. TestConfig_ctor) of
      Inl e \<Rightarrow> False
    | Inr h' \<Rightarrow> post_commands (h' (Other_config 0)) = [] \<and>
        post_commands (h' Global_test_config) = [''special_bonds lj 0 1 1'']) \<and>
   (case bond_coeff_consumer u
           (YAML_SCALAR_EVENT (''1 250.0 1.5'' @ [CHR 0x0A] @ ''2 300.0 1.1'' @ [CHR 0x0A]))
           (TestConfigReader_ctor (Other_config 0)) (\<lambda>p. TestConfig_ctor) of
      Inl e \<Rightarrow> False
    | Inr h' \<Rightarrow> bond_coeff (h' (Other_config 0)) = [] \<and>
        bond_coeff (h' Global_test_config) = [''1 250.0 1.5'', ''2 300.0 1.1''])"
  by (simp add: prerequisites_consumer_def pre_commands_consumer_def post_commands_consumer_def
      bond_coeff_consumer_def TestConfigReader_ctor_def upd_def getlines_def c_str_def
      TestConfig_ctor_def prerequisite_line_def find_first_of_def find_first_not_of_def
      substr_def)

subsection \<open>The force decoders: rows, atom IDs and bounds\<close>

lemma store_row_error: "store_row tag0 xyz0 line forces = Inl e \<Longrightarrow> e = OutOfBounds"
  by (auto simp: store_row_def Let_def split: prod.splits if_splits)

lemma store_row_length:
  "store_row tag0 xyz0 line forces = Inr forces' \<Longrightarrow> length forces' = length forces"
  by (auto simp: store_row_def Let_def split: prod.splits if_splits)

lemma store_row_tagged:
  assumes "fst (sscanf_row line) = Some t"
  shows "store_row tag0 xyz0 line forces =
     (if 0 \<le> t \<and> nat t < length forces
      then Inr (forces[nat t :=
             \<lparr>x_coord = assigned (snd (sscanf_row line)) 0 (x_coord xyz0),
              y_coord = assigned (snd (sscanf_row line)) 1 (y_coord xyz0),
              z_coord = assigned (snd (sscanf_row line)) 2 (z_coord xyz0)\<rparr>])
      else Inl OutOfBounds)"
  using assms by (cases "sscanf_row line") (simp add: store_row_def)

lemma store_rows_length:
  "store_rows tag0 xyz0 i lines forces = Inr forces' \<Longrightarrow> length forces' = length forces"
proof (induction lines arbitrary: i forces)
  case Nil
  then show ?case by simp
next
  case (Cons line lines)
  then show ?case
    by (auto split: sum.splits dest: store_row_length)
qed

lemma store_rows_out_of_bounds:
  assumes "line \<in> set lines" and "fst (sscanf_row line) = Some t"
    and "t < 0 \<or> int (length forces) \<le> t"
  shows "store_rows tag0 xyz0 i lines forces = Inl OutOfBounds"
  using assms(1,3)
proof (induction lines arbitrary: i forces)
  case Nil
  then show ?case by simp
next
  case (Cons l lines)
  show ?case
  proof (cases "store_row (tag0 i) (xyz0 i) l forces")
    case (Inl e)
    then show ?thesis using store_row_error [OF Inl] by simp
  next
    case (Inr forces')
    have len: "length forces' = length forces" by (rule store_row_length [OF Inr])
    have "l \<noteq> line"
    proof
      assume "l = line"
      then have "store_row (tag0 i) (xyz0 i) l forces = Inl OutOfBounds"
        using Cons.prems(2) by (auto simp: store_row_tagged [OF assms(2)])
      with Inr show False by simp
    qed
    then have "line \<in> set lines" using Cons.prems(1) by auto
    then have "store_rows tag0 xyz0 (Suc i) lines forces' = Inl OutOfBounds"
      using Cons.IH [of forces' "Suc i"] Cons.prems(2) len by simp
    then show ?thesis using Inr by simp
  qed
qed

lemma resize_forces_ok:
  "- 1 \<le> n \<Longrightarrow> n < 2147483647 \<Longrightarrow> resize_forces n = Inr (replicate (nat (n + 1)) coord_zero)"
  by (simp add: resize_forces_def)

lemma store_rows_untouched:
  assumes "store_rows tag0 xyz0 i lines forces = Inr forces'"
    and "\<forall>line\<in>set lines. \<exists>t. fst (sscanf_row line) = Some t \<and> t \<noteq> int k"
  shows "forces' ! k = forces ! k"
  using assms
proof (induction lines arbitrary: i forces)
  case Nil
  then show ?case by simp
next
  case (Cons l lines)
  from Cons.prems(2) obtain t where t: "fst (sscanf_row l) = Some t" "t \<noteq> int k" by auto
  from Cons.prems(1) obtain f1 where f1: "store_row (tag0 i) (xyz0 i) l forces = Inr f1"
    and rest: "store_rows tag0 xyz0 (Suc i) lines f1 = Inr forces'"
    by (auto split: sum.splits)
  have "f1 ! k = forces ! k"
    using f1 t(2) by (auto simp: store_row_tagged [OF t(1)] split: if_splits)
  moreover have "forces' ! k = f1 ! k"
    using Cons.IH [OF rest] Cons.prems(2) by simp
  ultimately show ?case by simp
qed

lemma store_rows_stored:
  assumes "store_rows tag0 xyz0 i lines forces = Inr forces'"
    and "\<forall>line\<in>set lines. \<exists>t. fst (sscanf_row line) = Some t"
    and "distinct (map (\<lambda>line. fst (sscanf_row line)) lines)"
    and "line \<in> set lines"
    and "sscanf_row line = (Some t, [a, b, c])"
  shows "0 \<le> t \<and> nat t < length forces' \<and>
         forces' ! nat t = \<lparr>x_coord = a, y_coord = b, z_coord = c\<rparr>"
  using assms(1-4)
proof (induction lines arbitrary: i forces)
  case Nil
  then show ?case by simp
next
  case (Cons l lines)
  from Cons.prems(1) obtain f1 where f1: "store_row (tag0 i) (xyz0 i) l forces = Inr f1"
    and rest: "store_rows tag0 xyz0 (Suc i) lines f1 = Inr forces'"
    by (auto split: sum.splits)
  have len: "length forces' = length f1" "length f1 = length forces"
    using store_rows_length [OF rest] store_row_length [OF f1] by simp_all
  show ?case
  proof (cases "l = line")
    case True
    have t: "fst (sscanf_row l) = Some t" "snd (sscanf_row l) = [a, b, c]"
      using True assms(5) by simp_all
    have ok: "0 \<le> t \<and> nat t < length forces"
      using f1 by (auto simp: store_row_tagged [OF t(1)] split: if_splits)
    have "f1 ! nat t = \<lparr>x_coord = a, y_coord = b, z_coord = c\<rparr>"
      using f1 ok by (auto simp: store_row_tagged [OF t(1)] t(2) assigned_def)
    moreover have "forces' ! nat t = f1 ! nat t"
    proof (rule store_rows_untouched [OF rest], intro ballI)
      fix l' assume l': "l' \<in> set lines"
      then obtain t' where t': "fst (sscanf_row l') = Some t'" using Cons.prems(2) by auto
      have "fst (sscanf_row l) \<notin> (\<lambda>line. fst (sscanf_row line)) ` set lines"
        using Cons.prems(3) by simp
      then have "fst (sscanf_row l') \<noteq> fst (sscanf_row l)"
        using l' by (metis image_eqI)
      then have "t' \<noteq> int (nat t)" using t' t(1) ok by auto
      then show "\<exists>s. fst (sscanf_row l') = Some s \<and> s \<noteq> int (nat t)"
        using t' by auto
    qed
    ultimately show ?thesis using ok len by simp
  next
    case False
    then have "line \<in> set lines" using Cons.prems(4) by auto
    then show ?thesis
      using Cons.IH [OF rest] Cons.prems(2,3) by simp
  qed
qed

lemma store_rows_succeeds:
  assumes "\<forall>line\<in>set lines. \<exists>t. fst (sscanf_row line) = Some t \<and> 0 \<le> t \<and> nat t < length forces"
  shows "\<exists>forces'. store_rows tag0 xyz0 i lines forces = Inr forces'"
  using assms
proof (induction lines arbitrary: i forces)
  case Nil
  then show ?case by simp
next
  case (Cons l lines)
  from Cons.prems obtain t where t: "fst (sscanf_row l) = Some t" "0 \<le> t" "nat t < length forces"
    by auto
  obtain f1 where f1: "store_row (tag0 i) (xyz0 i) l forces = Inr f1"
    using t by (simp add: store_row_tagged [OF t(1)])
  have "length f1 = length forces" by (rule store_row_length [OF f1])
  then obtain forces' where "store_rows tag0 xyz0 (Suc i) lines f1 = Inr forces'"
    using Cons.IH [of f1 "Suc i"] Cons.prems by auto
  then show ?case using f1 by simp
qed

text \<open>Evaluation of the scanning functions on the rows used below.\<close>

lemma scan_doubles_3:
  "scan_doubles 3 s =
     (case scan_double True s of None \<Rightarrow> []
      | Some (v1, r1) \<Rightarrow> v1 # (case scan_double True r1 of None \<Rightarrow> []
          | Some (v2, r2) \<Rightarrow> v2 # (case scan_double True r2 of None \<Rightarrow> []
              | Some (v3, r3) \<Rightarrow> [v3])))"
  by (simp add: numeral_3_eq_3 split: option.splits)

lemmas scan_int_defs = scan_int_def strtol_value_def long_to_int_def isspace_def digit_val_def

lemmas scan_double_defs = scan_double_def scanf_lg_def strtod_def numeral_value_def
  hex_numeral_def dec_numeral_def is_hex_def mantissa_def scan_exponent_def scale10_def
  scale2_def isspace_def digit_val_def xdigit_val_def

lemmas scan_row_defs = sscanf_row_def scan_int_defs scan_double_defs scan_doubles_3




lemma scan_row_7: "sscanf_row ''7 0.0 0.0 0.0'' = (Some 7, [0, 0, 0])"
  by (simp add: scan_row_defs)

lemma scan_row_garbage: "sscanf_row ''garbage'' = (None, [])"
  by (simp add: scan_row_defs)

lemma scan_row_partial: "sscanf_row ''2 1.5 oops'' = (Some 2, [3 / 2])"
  by (simp add: scan_row_defs)

lemma replicate_4: "replicate 4 v = [v, v, v, v]"
  by (simp add: numeral_eq_Suc)


lemma resize_forces_3: "resize_forces 3 = Inr (replicate 4 coord_zero)"
  by (simp add: resize_forces_def)











text \<open>
  C10. With \<open>-1 \<le> natoms < 2^31 - 1\<close> (so that the array of \<open>natoms + 1\<close> entries is
  built), a block with a row whose atom ID is converted to a value below 0 or above
  \<open>natoms\<close> makes both force decoders store outside the array: no check precedes the
  store, and the model returns \<open>OutOfBounds\<close>. The value \<open>t\<close> is the one that the
  conversion \<^verbatim>\<open>%d\<close> leaves in the \<^verbatim>\<open>int tag\<close>.
\<close>

theorem C10_out_of_range_tag:
  assumes "- 1 \<le> natoms (h (config r))" and "natoms (h (config r)) < 2147483647"
    and "line \<in> set (getlines (c_str (scalar_value event)))"
    and "fst (sscanf_row line) = Some t"
    and "t < 0 \<or> natoms (h (config r)) < t"
  shows "init_forces_consumer u event r h = Inl OutOfBounds \<and>
         run_forces_consumer u event r h = Inl OutOfBounds"
proof -
  let ?forces = "replicate (nat (natoms (h (config r)) + 1)) coord_zero"
  have oob: "t < 0 \<or> int (length ?forces) \<le> t"
    using assms(1,5) by auto
  have "store_rows tag0 xyz0 0 (getlines (c_str (scalar_value event))) ?forces = Inl OutOfBounds"
    for tag0 xyz0
    by (rule store_rows_out_of_bounds [OF assms(3,4) oob])
  then show ?thesis
    by (simp add: init_forces_consumer_def run_forces_consumer_def
        resize_forces_ok [OF assms(1,2)])
qed

lemma oob_lines:
  "getlines (c_str ''1 1.0 2.0 3.0\<newline>7 0.0 0.0 0.0\<newline>'')
     = [''1 1.0 2.0 3.0'', ''7 0.0 0.0 0.0'']"
  by (simp add: getlines_def c_str_def)

text \<open>
  With \<open>natoms = 3\<close>, a block whose second row names atom 7.
\<close>

theorem C10_out_of_range_tag_witness:
  "init_forces_consumer leftover (YAML_SCALAR_EVENT ''1 1.0 2.0 3.0\<newline>7 0.0 0.0 0.0\<newline>'')
      (TestConfigReader_ctor Global_test_config) (\<lambda>p. TestConfig_ctor\<lparr>natoms := 3\<rparr>)
     = Inl OutOfBounds \<and>
   run_forces_consumer leftover (YAML_SCALAR_EVENT ''1 1.0 2.0 3.0\<newline>7 0.0 0.0 0.0\<newline>'')
      (TestConfigReader_ctor Global_test_config) (\<lambda>p. TestConfig_ctor\<lparr>natoms := 3\<rparr>)
     = Inl OutOfBounds"
proof -
  let ?ev = "YAML_SCALAR_EVENT ''1 1.0 2.0 3.0\<newline>7 0.0 0.0 0.0\<newline>''"
  let ?r = "TestConfigReader_ctor Global_test_config"
  let ?h = "\<lambda>p::cfg_ref. TestConfig_ctor\<lparr>natoms := 3\<rparr>"
  have n: "- 1 \<le> natoms (?h (config ?r))" "natoms (?h (config ?r)) < 2147483647" by simp_all
  have l: "''7 0.0 0.0 0.0'' \<in> set (getlines (c_str (scalar_value ?ev)))"
    using oob_lines by simp
  have t: "fst (sscanf_row ''7 0.0 0.0 0.0'') = Some 7" by (simp add: scan_row_7)
  have o: "(7::int) < 0 \<or> natoms (?h (config ?r)) < 7" by simp
  show ?thesis by (rule C10_out_of_range_tag [OF n l t o])
qed

text \<open>
  A numeral beyond the range of \<^verbatim>\<open>int\<close> is no out-of-range index by itself: what counts
  is the value left in the \<^verbatim>\<open>int\<close>. The row \<open>4294967298 1 2 3\<close> (\<open>2^32 + 2\<close>) is stored at
  index 2, in bounds for \<open>natoms = 3\<close>.
\<close>

lemma scan_row_wrapped: "sscanf_row ''4294967298 1 2 3'' = (Some 2, [1, 2, 3])"
  by (simp add: scan_row_defs)

lemma wrapped_lines: "getlines (c_str ''4294967298 1 2 3\<newline>'') = [''4294967298 1 2 3'']"
  by (simp add: getlines_def c_str_def)

lemma wrapped_tag_stored_in_bounds:
  "init_forces_consumer leftover (YAML_SCALAR_EVENT ''4294967298 1 2 3\<newline>'')
      (TestConfigReader_ctor Global_test_config) (\<lambda>p. TestConfig_ctor\<lparr>natoms := 3\<rparr>)
     = Inr ((\<lambda>p. TestConfig_ctor\<lparr>natoms := 3\<rparr>)
             (Global_test_config := TestConfig_ctor\<lparr>natoms := 3,
                init_forces := [coord_zero, coord_zero,
                                \<lparr>x_coord = 1, y_coord = 2, z_coord = 3\<rparr>, coord_zero]\<rparr>))"
  unfolding init_forces_consumer_def scalar_value.simps wrapped_lines
  by (simp add: TestConfigReader_ctor_def resize_forces_3 replicate_4 store_row_def
      scan_row_wrapped assigned_def leftover_def upd_def coord_zero_def)

lemma garbage_lines:
  "getlines (c_str ''garbage\<newline>2 1.5 oops\<newline>'') = [''garbage'', ''2 1.5 oops'']"
  "getlines (c_str ''garbage\<newline>'') = [''garbage'']"
  by (simp_all add: getlines_def c_str_def)

text \<open>
  C9, evaluated with left-over values (7, 8, 9) in the uninitialised \<^verbatim>\<open>xyz\<close> and
  \<open>natoms = 3\<close>. No error is raised, but the row \<open>garbage\<close> stores (7, 8, 9), not
  zeros, at index 0 (\<^verbatim>\<open>init_forces\<close>, where \<^verbatim>\<open>tag\<close> starts as 0), and the row
  \<open>2 1.5 oops\<close> stores (1.5, 8, 9) at index 2. In \<^verbatim>\<open>run_forces\<close> the index itself is the
  uninitialised \<^verbatim>\<open>tag\<close>: a left-over 1 puts (7, 8, 9) at index 1, a left-over 4 is a
  store outside the array.
\<close>

theorem C9_unparsable_row_stores_leftover:
  "init_forces_consumer leftover (YAML_SCALAR_EVENT ''garbage\<newline>2 1.5 oops\<newline>'')
      (TestConfigReader_ctor Global_test_config) (\<lambda>p. TestConfig_ctor\<lparr>natoms := 3\<rparr>)
     = Inr ((\<lambda>p. TestConfig_ctor\<lparr>natoms := 3\<rparr>)
             (Global_test_config := TestConfig_ctor\<lparr>natoms := 3,
                init_forces := [\<lparr>x_coord = 7, y_coord = 8, z_coord = 9\<rparr>, coord_zero,
                                \<lparr>x_coord = 3 / 2, y_coord = 8, z_coord = 9\<rparr>, coord_zero]\<rparr>)) \<and>
   \<lparr>x_coord = 7, y_coord = 8, z_coord = 9\<rparr> \<noteq> coord_zero \<and>
   run_forces_consumer leftover (YAML_SCALAR_EVENT ''garbage\<newline>'')
      (TestConfigReader_ctor Global_test_config) (\<lambda>p. TestConfig_ctor\<lparr>natoms := 3\<rparr>)
     = Inr ((\<lambda>p. TestConfig_ctor\<lparr>natoms := 3\<rparr>)
             (Global_test_config := TestConfig_ctor\<lparr>natoms := 3,
                run_forces := [coord_zero, \<lparr>x_coord = 7, y_coord = 8, z_coord = 9\<rparr>,
                               coord_zero, coord_zero]\<rparr>)) \<and>
   run_forces_consumer (leftover\<lparr>tag_uninit := \<lambda>i. 4\<rparr>) (YAML_SCALAR_EVENT ''garbage\<newline>'')
      (TestConfigReader_ctor Global_test_config) (\<lambda>p. TestConfig_ctor\<lparr>natoms := 3\<rparr>)
     = Inl OutOfBounds"
  unfolding init_forces_consumer_def run_forces_consumer_def scalar_value.simps garbage_lines
  by (simp add: TestConfigReader_ctor_def resize_forces_3 replicate_4 store_row_def
      scan_row_garbage scan_row_partial assigned_def leftover_def upd_def coord_zero_def)

subsection \<open>Tolerances of the test variants\<close>

lemma EXPECT_tolerance_pair:
  "EXPECT_FP_LE_WITH_EPS a b eps stats = (c, s) \<Longrightarrow> tolerance c = eps"
  by (auto simp: EXPECT_FP_LE_WITH_EPS_def Let_def)

lemma compare_stress_checks:
  "length (fst (compare_stress eps stress ref stats)) = 6 \<and>
   (\<forall>c\<in>set (fst (compare_stress eps stress ref stats)). tolerance c = eps)"
  by (auto simp: compare_stress_def Let_def split: prod.splits dest: EXPECT_tolerance_pair)

lemma compare_forces_checks:
  "compare_forces eps f tag f_ref i n stats = Inr (cs, s') \<Longrightarrow>
     length cs = 3 * n \<and> (\<forall>c\<in>set cs. tolerance c = eps)"
proof (induction n arbitrary: i stats cs s')
  case 0
  then show ?case by simp
next
  case (Suc n)
  from Suc.prems obtain c1 s1 c2 s2 c3 s3 cs' where
    e: "EXPECT_FP_LE_WITH_EPS (x_coord (f ! i)) (x_coord (f_ref ! nat (tag ! i))) eps stats = (c1, s1)"
       "EXPECT_FP_LE_WITH_EPS (y_coord (f ! i)) (y_coord (f_ref ! nat (tag ! i))) eps s1 = (c2, s2)"
       "EXPECT_FP_LE_WITH_EPS (z_coord (f ! i)) (z_coord (f_ref ! nat (tag ! i))) eps s2 = (c3, s3)"
    and rest: "compare_forces eps f tag f_ref (Suc i) n s3 = Inr (cs', s')"
    and cs: "cs = c1 # c2 # c3 # cs'"
    by (auto simp: Let_def split: if_splits prod.splits sum.splits)
  show ?case
    using Suc.IH [OF rest] cs e [THEN EXPECT_tolerance_pair] by simp
qed

lemma EXPECT_tolerance: "tolerance (fst (EXPECT_FP_LE_WITH_EPS a b eps stats)) = eps"
  by (cases "EXPECT_FP_LE_WITH_EPS a b eps stats") (auto dest: EXPECT_tolerance_pair)

text \<open>The three shapes of the result of the default variant.\<close>

lemma plain_shape:
  fixes cfg init run energy
  defines "res \<equiv> BondStyle_plain cfg init run energy"
  shows "(fst res = [] \<and> snd res \<noteq> Completed) \<or>
    (\<exists>g1 g2 g3. fst res = [(''init_forces'', g1), (''init_stress'', g2), (''init_energy'', g3)]
        \<and> snd res \<noteq> Completed
        \<and> (\<forall>c\<in>set g2. tolerance c = epsilon cfg)) \<or>
    (\<exists>lmp g1 g2 g3 g4 g5 c1 c2. init = Some lmp \<and>
        fst res = [(''init_forces'', g1), (''init_stress'', g2), (''init_energy'', g3),
                   (''run_forces'', g4), (''run_stress'', g5), (''run_energy'', [c1, c2])]
        \<and> length g2 = 6 \<and> (\<forall>c\<in>set g2. tolerance c = epsilon cfg)
        \<and> length g4 = 3 * nat (atom_nlocal lmp) \<and> (\<forall>c\<in>set g4. tolerance c = 10 * epsilon cfg)
        \<and> length g5 = 6 \<and> (\<forall>c\<in>set g5. tolerance c = epsilon cfg)
        \<and> tolerance c1 = epsilon cfg \<and> tolerance c2 = epsilon cfg)"
proof (cases init)
  case None
  then show ?thesis by (simp add: res_def BondStyle_plain_def)
next
  case (Some lmp)
  let ?eps = "epsilon cfg"
  let ?n = "atom_nlocal lmp"
  let ?g2 = "fst (compare_stress ?eps (bond_virial lmp) (init_stress cfg) reset)"
  let ?g3 = "[fst (EXPECT_FP_LE_WITH_EPS (bond_energy lmp) (init_energy cfg) ?eps reset)]"
  let ?g5 = "fst (compare_stress ?eps (bond_virial run) (run_stress cfg) reset)"
  let ?e1 = "EXPECT_FP_LE_WITH_EPS (bond_energy run) (run_energy cfg) ?eps reset"
  let ?e2 = "EXPECT_FP_LE_WITH_EPS (bond_energy run) energy ?eps (snd ?e1)"
  show ?thesis
  proof (cases "atom_natoms lmp \<noteq> ?n \<or> ?n + 1 \<noteq> int (length (init_forces cfg))")
    case True
    then show ?thesis using Some by (auto simp: res_def BondStyle_plain_def Let_def)
  next
    case ok1: False
    show ?thesis
    proof (cases "compare_forces ?eps (atom_f lmp) (atom_tag lmp) (init_forces cfg) 0 (nat ?n) reset")
      case (Inl e)
      then show ?thesis using Some ok1 by (simp add: res_def BondStyle_plain_def Let_def)
    next
      case (Inr p1)
      obtain g1 s1 where p1: "p1 = (g1, s1)" by (cases p1)
      show ?thesis
      proof (cases "?n + 1 \<noteq> int (length (run_forces cfg))")
        case True
        then have "res = ([(''init_forces'', g1), (''init_stress'', ?g2), (''init_energy'', ?g3)],
                          Assert_failed)"
          using Some ok1 Inr p1 by (simp add: res_def BondStyle_plain_def Let_def)
        then show ?thesis using compare_stress_checks by auto
      next
        case ok2: False
        show ?thesis
        proof (cases "compare_forces (10 * ?eps) (atom_f run) (atom_tag lmp) (run_forces cfg) 0
                        (nat ?n) reset")
          case (Inl e)
          then have "res = ([(''init_forces'', g1), (''init_stress'', ?g2), (''init_energy'', ?g3)],
                            Undefined e)"
            using Some ok1 ok2 Inr p1 by (simp add: res_def BondStyle_plain_def Let_def)
          then show ?thesis using compare_stress_checks by auto
        next
          case r2: (Inr p2)
          obtain g4 s4 where p2: "p2 = (g4, s4)" by (cases p2)
          have res: "res = ([(''init_forces'', g1), (''init_stress'', ?g2), (''init_energy'', ?g3),
                      (''run_forces'', g4), (''run_stress'', ?g5),
                      (''run_energy'', [fst ?e1, fst ?e2])], Completed)"
            using Some ok1 ok2 Inr p1 r2 p2
            by (simp add: res_def BondStyle_plain_def Let_def split: prod.splits)
          have g4: "length g4 = 3 * nat ?n \<and> (\<forall>c\<in>set g4. tolerance c = 10 * ?eps)"
            using compare_forces_checks r2 p2 by blast
          have "init = Some lmp \<and>
            fst res = [(''init_forces'', g1), (''init_stress'', ?g2), (''init_energy'', ?g3),
                   (''run_forces'', g4), (''run_stress'', ?g5), (''run_energy'', [fst ?e1, fst ?e2])]
            \<and> length ?g2 = 6 \<and> (\<forall>c\<in>set ?g2. tolerance c = ?eps)
            \<and> length g4 = 3 * nat ?n \<and> (\<forall>c\<in>set g4. tolerance c = 10 * ?eps)
            \<and> length ?g5 = 6 \<and> (\<forall>c\<in>set ?g5. tolerance c = ?eps)
            \<and> tolerance (fst ?e1) = ?eps \<and> tolerance (fst ?e2) = ?eps"
            using Some res g4 compare_stress_checks
              EXPECT_tolerance by simp
          then show ?thesis by blast
        qed
      qed
    qed
  qed
qed

lemma EXPECT_equal: "EXPECT_FP_LE_WITH_EPS a a eps stats
   = (\<lparr>rel_err = 0, tolerance = eps, passed = (0 \<le> eps)\<rparr>, add 0 stats)"
  by (simp add: EXPECT_FP_LE_WITH_EPS_def Let_def)

lemma one_atom_plain:
  "\<exists>g1 g3. BondStyle_plain one_atom_fixture (Some one_atom_engine) one_atom_engine 0 =
    ([(''init_forces'', g1),
      (''init_stress'', replicate 6 \<lparr>rel_err = 0, tolerance = 1 / 10 ^ 14, passed = True\<rparr>),
      (''init_energy'', g3),
      (''run_forces'', replicate 3 \<lparr>rel_err = 0, tolerance = 10 * (1 / 10 ^ 14), passed = True\<rparr>),
      (''run_stress'', replicate 6 \<lparr>rel_err = 0, tolerance = 1 / 10 ^ 14, passed = True\<rparr>),
      (''run_energy'', replicate 2 \<lparr>rel_err = 0, tolerance = 1 / 10 ^ 14, passed = True\<rparr>)],
     Completed)"
  by (simp add: BondStyle_plain_def one_atom_fixture_def one_atom_engine_def TestConfig_ctor_def
      coord_zero_def compare_stress_def EXPECT_equal Let_def numeral_eq_Suc)

lemma group_checks_simps:
  "group_checks [] name = []"
  "group_checks ((n, cs) # groups) name = (if n = name then cs @ group_checks groups name
                                            else group_checks groups name)"
  by (simp_all add: group_checks_def)

text \<open>
  C6, as stated, fails: in the default variant the two energy comparisons after the
  short run are made with tolerance \<open>epsilon\<close>, not \<open>10 * epsilon\<close>. Here for the
  one-atom engine and its fixture, whose \<open>epsilon\<close> is the default \<open>1e-14\<close>.
\<close>

theorem C6_tolerance_counterexample:
  "map tolerance (group_checks
      (fst (BondStyle_plain one_atom_fixture (Some one_atom_engine) one_atom_engine 0))
      ''run_energy'') = [1 / 10 ^ 14, 1 / 10 ^ 14] \<and>
   epsilon one_atom_fixture = 1 / 10 ^ 14 \<and>
   (1 / 10 ^ 14 :: real) \<noteq> 10 * epsilon one_atom_fixture"
proof -
  obtain g1 g3 where "BondStyle_plain one_atom_fixture (Some one_atom_engine) one_atom_engine 0 =
    ([(''init_forces'', g1),
      (''init_stress'', replicate 6 \<lparr>rel_err = 0, tolerance = 1 / 10 ^ 14, passed = True\<rparr>),
      (''init_energy'', g3),
      (''run_forces'', replicate 3 \<lparr>rel_err = 0, tolerance = 10 * (1 / 10 ^ 14), passed = True\<rparr>),
      (''run_stress'', replicate 6 \<lparr>rel_err = 0, tolerance = 1 / 10 ^ 14, passed = True\<rparr>),
      (''run_energy'', replicate 2 \<lparr>rel_err = 0, tolerance = 1 / 10 ^ 14, passed = True\<rparr>)],
     Completed)"
    using one_atom_plain by blast
  then show ?thesis
    by (simp add: group_checks_simps one_atom_fixture_def TestConfig_ctor_def numeral_2_eq_2)
qed

text \<open>
  C6, amended. In the default variant every stress comparison (before and after the
  short run) uses the tolerance \<open>epsilon\<close> of the fixture, every per-atom force
  comparison after the short run uses \<open>10 * epsilon\<close>, and the energy comparisons after
  the short run use \<open>epsilon\<close>. A test that runs to its end makes 6 stress comparisons
  at each point, 3 force comparisons per local atom and 2 energy comparisons after the
  run.
\<close>

theorem C6_plain_tolerances:
  "(\<forall>c\<in>set (group_checks (fst (BondStyle_plain cfg init run energy)) ''init_stress'').
      tolerance c = epsilon cfg) \<and>
   (\<forall>c\<in>set (group_checks (fst (BondStyle_plain cfg init run energy)) ''run_stress'').
      tolerance c = epsilon cfg) \<and>
   (\<forall>c\<in>set (group_checks (fst (BondStyle_plain cfg init run energy)) ''run_forces'').
      tolerance c = 10 * epsilon cfg) \<and>
   (\<forall>c\<in>set (group_checks (fst (BondStyle_plain cfg init run energy)) ''run_energy'').
      tolerance c = epsilon cfg) \<and>
   (snd (BondStyle_plain cfg init run energy) = Completed \<longrightarrow>
      length (group_checks (fst (BondStyle_plain cfg init run energy)) ''init_stress'') = 6 \<and>
      length (group_checks (fst (BondStyle_plain cfg init run energy)) ''run_stress'') = 6 \<and>
      (\<exists>lmp. init = Some lmp \<and>
         length (group_checks (fst (BondStyle_plain cfg init run energy)) ''run_forces'')
           = 3 * nat (atom_nlocal lmp)) \<and>
      length (group_checks (fst (BondStyle_plain cfg init run energy)) ''run_energy'') = 2)"
  using plain_shape [of cfg init run energy]
  by (elim disjE exE conjE) (simp_all add: group_checks_simps)

lemma map_const: "\<forall>c\<in>set cs. g c = e \<Longrightarrow> map g cs = replicate (length cs) e"
  by (induction cs) simp_all

text \<open>
  The one-atom engine against its fixture: three force comparisons after the run at
  \<open>10 * epsilon\<close>, six stress comparisons and two energy comparisons at \<open>epsilon\<close>.
\<close>

theorem C6_plain_tolerances_witness:
  "map tolerance (group_checks
      (fst (BondStyle_plain one_atom_fixture (Some one_atom_engine) one_atom_engine 0))
      ''run_forces'') = replicate 3 (10 * epsilon one_atom_fixture) \<and>
   map tolerance (group_checks
      (fst (BondStyle_plain one_atom_fixture (Some one_atom_engine) one_atom_engine 0))
      ''run_stress'') = replicate 6 (epsilon one_atom_fixture) \<and>
   map tolerance (group_checks
      (fst (BondStyle_plain one_atom_fixture (Some one_atom_engine) one_atom_engine 0))
      ''run_energy'') = replicate 2 (epsilon one_atom_fixture)"
proof -
  let ?res = "BondStyle_plain one_atom_fixture (Some one_atom_engine) one_atom_engine 0"
  have fin: "snd ?res = Completed"
    using one_atom_plain by auto
  have n: "atom_nlocal one_atom_engine = 1" by (simp add: one_atom_engine_def)
  note t = C6_plain_tolerances [of one_atom_fixture "Some one_atom_engine" one_atom_engine 0]
  have len: "length (group_checks (fst ?res) ''run_forces'') = 3"
    "length (group_checks (fst ?res) ''run_stress'') = 6"
    "length (group_checks (fst ?res) ''run_energy'') = 2"
    using t fin n by auto
  have "map tolerance (group_checks (fst ?res) ''run_forces'')
          = replicate (length (group_checks (fst ?res) ''run_forces'')) (10 * epsilon one_atom_fixture)"
    "map tolerance (group_checks (fst ?res) ''run_stress'')
          = replicate (length (group_checks (fst ?res) ''run_stress'')) (epsilon one_atom_fixture)"
    "map tolerance (group_checks (fst ?res) ''run_energy'')
          = replicate (length (group_checks (fst ?res) ''run_energy'')) (epsilon one_atom_fixture)"
    using t by (simp_all add: map_const)
  then show ?thesis unfolding len by simp
qed

lemma intel_loop:
  "foldl (\<lambda>eps post_cmd.
              if str_find post_cmd ''bond_modify table'' \<noteq> None
              then (if str_find post_cmd ''bond_modify table 0'' = None
                    then eps * 1000000 else eps)
              else eps) (e::real) cmds
   = e * 1000000 ^ length (filter (\<lambda>post_cmd. str_find post_cmd ''bond_modify table'' \<noteq> None
          \<and> str_find post_cmd ''bond_modify table 0'' = None) cmds)"
  by (induction cmds arbitrary: e) (simp_all add: mult.assoc)

text \<open>
  C8, amended. The tolerance of the Intel variant is \<open>5 * epsilon\<close> multiplied by
  1,000,000 once for each post-setup command that contains \<^verbatim>\<open>bond_modify table\<close> and
  does not contain \<^verbatim>\<open>bond_modify table 0\<close>: \<open>5 * epsilon\<close> with no such command,
  \<open>5,000,000 * epsilon\<close> with exactly one.
\<close>

theorem C8_intel_tolerance:
  "intel_epsilon cfg =
     5 * epsilon cfg *
     1000000 ^ length (filter (\<lambda>post_cmd. str_find post_cmd ''bond_modify table'' \<noteq> None
          \<and> str_find post_cmd ''bond_modify table 0'' = None) (post_commands cfg))"
  unfolding intel_epsilon_def by (rule intel_loop)

lemma find_table_12:
  "str_find ''bond_modify table 12'' ''bond_modify table'' = Some 0"
  "str_find ''bond_modify table 12'' ''bond_modify table 0'' = None"
  by (simp_all add: str_find_def)

text \<open>
  C8, as stated, fails: with two such commands the factor is applied twice, and the
  tolerance is \<open>5e-14 * 1e12\<close> instead of \<open>5e-14 * 1e6\<close>.
\<close>

theorem C8_two_commands_counterexample:
  "intel_epsilon (TestConfig_ctor\<lparr>post_commands :=
       [''bond_modify table 12'', ''bond_modify table 12'']\<rparr>) = 1 / 20 \<and>
   5 * epsilon (TestConfig_ctor\<lparr>post_commands :=
       [''bond_modify table 12'', ''bond_modify table 12'']\<rparr>) * 1000000 = 1 / 20000000 \<and>
   (1 / 20 :: real) \<noteq> 1 / 20000000"
  by (simp add: intel_epsilon_def find_table_12 TestConfig_ctor_def)

subsection \<open>Writer, then reader\<close>

lemma c_str_id: "CHR 0x00 \<notin> set s \<Longrightarrow> c_str s = s"
  by (auto simp: c_str_def takeWhile_eq_all_conv)

lemma getlines_from_line:
  "CHR 0x0A \<notin> set l \<Longrightarrow>
     getlines_from cur (l @ CHR 0x0A # rest) = (rev cur @ l) # getlines_from [] rest"
  by (induction l arbitrary: cur) auto

lemma getlines_terminated:
  "\<forall>l\<in>set ls. CHR 0x0A \<notin> set l \<Longrightarrow> getlines (concat (map (\<lambda>l. l @ ''\<newline>'') ls)) = ls"
  unfolding getlines_def
proof (induction ls)
  case Nil
  then show ?case by simp
next
  case (Cons l ls)
  then show ?case by (simp add: getlines_from_line)
qed

lemma first_index_none: "\<forall>c\<in>set s. \<not> P c \<Longrightarrow> first_index P s i = None"
  by (induction s arbitrary: i) auto

lemma first_index_skip:
  "\<forall>c\<in>set s. \<not> P c \<Longrightarrow> P d \<Longrightarrow> first_index P (s @ d # t) i = Some (i + length s)"
  by (induction s arbitrary: i) auto

lemma prerequisite_line_pair:
  assumes k: "CHR '' '' \<notin> set k" "CHR 0x09 \<notin> set k"
    and v: "CHR '' '' \<notin> set v" "CHR 0x09 \<notin> set v" "v \<noteq> []"
  shows "prerequisite_line (k @ '' '' @ v) = Some (k, v)"
proof -
  let ?ws = "[CHR '' '', CHR 0x09]"
  let ?line = "k @ CHR '' '' # v"
  obtain c v' where cv: "v = c # v'" using v(3) by (cases v) auto
  have "\<forall>c\<in>set k. \<not> c \<in> set ?ws" using k by auto
  from first_index_skip [OF this, of "CHR '' ''" v 0]
  have 1: "find_first_of ?line ?ws (Some 0) = Some (length k)"
    by (simp add: find_first_of_def)
  have 2: "find_first_not_of ?line ?ws (Some (length k)) = Some (Suc (length k))"
    using v(1,2) by (auto simp: find_first_not_of_def cv)
  have "\<forall>c\<in>set v. \<not> c \<in> set ?ws" using v by auto
  from first_index_none [OF this]
  have 3: "find_first_of ?line ?ws (Some (Suc (length k))) = None"
    by (simp add: find_first_of_def)
  show ?thesis
    by (simp add: prerequisite_line_def 1 2 3 substr_def Let_def)
qed

lemma digit_val_digit_char: "d < 10 \<Longrightarrow> digit_val (digit_char d) = Some d"
  by (simp add: digit_val_def digit_char_def Let_def)

lemma digit_char_not_special:
  "d < 10 \<Longrightarrow> \<not> isspace (digit_char d) \<and> digit_char d \<noteq> CHR ''-'' \<and> digit_char d \<noteq> CHR ''+''
     \<and> digit_char d \<noteq> CHR 0x00 \<and> digit_char d \<noteq> CHR 0x0A"
proof -
  assume "d < 10"
  then have "of_char (digit_char d) = 48 + d"
    by (simp add: digit_char_def)
  then show ?thesis
    using \<open>d < 10\<close> by (auto simp: isspace_def)
qed

lemma digits_of_nonempty: "digits_of n \<noteq> []"
  by (subst digits_of.simps) simp

lemma digits_of_digits: "c \<in> set (digits_of n) \<Longrightarrow> \<exists>d<10. c = digit_char d"
proof (induction n rule: digits_of.induct)
  case (1 n)
  show ?case
  proof (cases "n < 10")
    case True
    then show ?thesis using "1.prems" by (subst (asm) digits_of.simps) auto
  next
    case False
    then have "c \<in> set (digits_of (n div 10)) \<or> c = digit_char (n mod 10)"
      using "1.prems" by (subst (asm) digits_of.simps) auto
    then show ?thesis
    proof
      assume "c \<in> set (digits_of (n div 10))"
      then show ?thesis using "1.IH" False by simp
    next
      assume "c = digit_char (n mod 10)"
      moreover have "n mod 10 < 10" by simp
      ultimately show ?thesis by blast
    qed
  qed
qed

lemma digits_of_length: "n < 10 ^ k \<Longrightarrow> 0 < k \<Longrightarrow> length (digits_of n) \<le> k"
proof (induction n arbitrary: k rule: digits_of.induct)
  case (1 n)
  show ?case
  proof (cases "n < 10")
    case True
    then show ?thesis using "1.prems" by (subst digits_of.simps) simp
  next
    case False
    obtain j where j: "k = Suc j" using "1.prems"(2) by (cases k) auto
    have "0 < j"
    proof (rule ccontr)
      assume "\<not> 0 < j"
      then have "k = 1" using j by simp
      then show False using "1.prems"(1) False by simp
    qed
    moreover have "n div 10 < 10 ^ j"
      using "1.prems"(1) j by (simp add: less_mult_imp_div_less mult.commute)
    ultimately have "length (digits_of (n div 10)) \<le> j"
      using "1.IH" False by simp
    then show ?thesis using False j by (subst digits_of.simps) simp
  qed
qed

lemma scan_digits_digits:
  "scan_digits acc k (digits_of n @ rest)
     = scan_digits (acc * 10 ^ length (digits_of n) + n) (k + length (digits_of n)) rest"
proof (induction n arbitrary: acc k rest rule: digits_of.induct)
  case (1 n)
  show ?case
  proof (cases "n < 10")
    case True
    then have d: "digits_of n = [digit_char n]" by (subst digits_of.simps) simp
    show ?thesis using True by (simp add: d digit_val_digit_char mult.commute)
  next
    case False
    then have d: "digits_of n = digits_of (n div 10) @ [digit_char (n mod 10)]"
      by (subst digits_of.simps) simp
    have m: "n mod 10 < 10" by simp
    have "scan_digits acc k (digits_of n @ rest)
        = scan_digits acc k (digits_of (n div 10) @ (digit_char (n mod 10) # rest))"
      by (simp add: d)
    also have "\<dots> = scan_digits (acc * 10 ^ length (digits_of (n div 10)) + n div 10)
                         (k + length (digits_of (n div 10))) (digit_char (n mod 10) # rest)"
      using "1.IH" [OF False] by simp
    also have "\<dots> = scan_digits (10 * (acc * 10 ^ length (digits_of (n div 10)) + n div 10) + n mod 10)
                         (Suc (k + length (digits_of (n div 10)))) rest"
      by (simp add: digit_val_digit_char [OF m])
    also have "10 * (acc * 10 ^ length (digits_of (n div 10)) + n div 10) + n mod 10
        = acc * 10 ^ length (digits_of n) + n"
      by (simp add: d algebra_simps)
    also have "Suc (k + length (digits_of (n div 10))) = k + length (digits_of n)"
      by (simp add: d)
    finally show ?thesis .
  qed
qed

lemma scan_digits_stop:
  "rest = [] \<or> digit_val (hd rest) = None \<Longrightarrow> scan_digits acc k rest = (acc, k, rest)"
  by (cases rest) auto

lemma digits_of_hd: "\<exists>d<10. \<exists>ds. digits_of n = digit_char d # ds"
proof -
  obtain c ds where cd: "digits_of n = c # ds"
    using digits_of_nonempty [of n] by (cases "digits_of n") auto
  then have "c \<in> set (digits_of n)" by simp
  from digits_of_digits [OF this] cd show ?thesis by blast
qed

lemma int_fits: "n < 2147483648 \<Longrightarrow> long_to_int (strtol_value False n) = int n"
  by (simp add: long_to_int_def strtol_value_def)

lemma scan_int_digits:
  assumes "rest = [] \<or> digit_val (hd rest) = None" and "\<forall>c\<in>set pad. isspace c"
    and "n < 2147483648"
  shows "scan_int (pad @ digits_of n @ rest) = Some (int n, rest)"
proof -
  obtain d ds where d: "d < 10" "digits_of n = digit_char d # ds"
    using digits_of_hd by blast
  have "dropWhile isspace (pad @ digits_of n @ rest) = digits_of n @ rest"
    using assms(2) digit_char_not_special [OF d(1)] by (simp add: d(2) dropWhile_append)
  moreover have "scan_sign (digits_of n @ rest) = (False, digits_of n @ rest)"
    using digit_char_not_special [OF d(1)] by (simp add: d(2))
  moreover have "scan_digits 0 0 (digits_of n @ rest) = (n, length (digits_of n), rest)"
    by (simp add: scan_digits_digits scan_digits_stop [OF assms(1)])
  ultimately show ?thesis
    by (simp add: scan_int_def digits_of_nonempty int_fits [OF assms(3)])
qed

lemma fmt_3d_nonneg: "0 \<le> t \<Longrightarrow> \<exists>pad. fmt_3d t = pad @ digits_of (nat t) \<and> (\<forall>c\<in>set pad. isspace c)"
  by (rule exI [of _ "replicate (3 - length (CHR '' '' # digits_of (nat t))) CHR '' '' @ '' ''"])
     (simp add: fmt_3d_def Let_def isspace_def)

lemma scan_int_fmt_3d:
  assumes t: "0 \<le> t" and b: "t < 2147483648"
  shows "scan_int (fmt_3d t @ CHR '' '' # rest) = Some (t, CHR '' '' # rest)"
proof -
  have n: "nat t < 2147483648" using b by simp
  obtain pad where pad: "fmt_3d t = pad @ digits_of (nat t)" "\<forall>c\<in>set pad. isspace c"
    using fmt_3d_nonneg [OF t] by blast
  have "digit_val (hd (CHR '' '' # rest)) = None" by (simp add: digit_val_def)
  then have "scan_int (pad @ digits_of (nat t) @ CHR '' '' # rest) = Some (int (nat t), CHR '' '' # rest)"
    using scan_int_digits [of "CHR '' '' # rest" pad "nat t"] pad(2) n by blast
  then show ?thesis using t by (simp add: pad(1))
qed

lemma fmt_d_nonneg: "0 \<le> n \<Longrightarrow> fmt_d n = digits_of (nat n)"
  by (simp add: fmt_d_def)

lemma digits_of_clean: "CHR 0x00 \<notin> set (digits_of n) \<and> CHR 0x0A \<notin> set (digits_of n)"
  by (metis digits_of_digits digit_char_not_special)

lemma atoi_fmt_d:
  assumes "0 \<le> n" "n < 2147483648"
  shows "atoi (c_str (snprintf_buf (fmt_d n))) = n"
proof -
  have "nat n < 10 ^ 10" using assms by simp
  then have "length (digits_of (nat n)) \<le> 10" by (rule digits_of_length) simp
  then have "snprintf_buf (fmt_d n) = digits_of (nat n)"
    using assms(1) by (simp add: snprintf_buf_def fmt_d_nonneg)
  moreover have "c_str (digits_of (nat n)) = digits_of (nat n)"
    using digits_of_clean by (simp add: c_str_id)
  moreover have "scan_int (digits_of (nat n)) = Some (int (nat n), [])"
    using scan_int_digits [of "[]" "[]" "nat n"] assms(2) by simp
  ultimately show ?thesis using assms(1) by (simp add: atoi_def)
qed

text \<open>The list decoders of a reader bound to the global object.\<close>

lemma push_lines:
  "foldl (\<lambda>h' line. upd Global_test_config (\<lambda>c. g c (sel c @ [line])) h') h ls
     = upd Global_test_config (\<lambda>c. g c (sel c @ ls)) h"
  if "\<And>c v. sel (g c v) = v" "\<And>c v w. g (g c v) w = g c w" "\<And>c. g c (sel c) = c"
  using that
proof (induction ls arbitrary: h)
  case Nil
  then show ?case by (simp add: upd_def)
next
  case (Cons l ls)
  have "upd Global_test_config (\<lambda>c. g c (sel c @ ls))
          (upd Global_test_config (\<lambda>c. g c (sel c @ [l])) h)
        = upd Global_test_config (\<lambda>c. g c (sel c @ l # ls)) h"
    by (rule ext) (simp add: upd_def Cons.prems)
  then show ?case using Cons by simp
qed

lemma pre_commands_global:
  "config r = Global_test_config \<Longrightarrow>
   pre_commands_consumer u (YAML_SCALAR_EVENT v) r h
     = Inr (upd Global_test_config (\<lambda>c. c\<lparr>pre_commands := getlines (c_str v)\<rparr>) h)"
  using push_lines [of pre_commands "\<lambda>c v. c\<lparr>pre_commands := v\<rparr>"]
  by (simp add: pre_commands_consumer_def) (rule ext, simp add: upd_def)

lemma post_commands_global:
  "config r = Global_test_config \<Longrightarrow>
   post_commands_consumer u (YAML_SCALAR_EVENT v) r h
     = Inr (upd Global_test_config (\<lambda>c. c\<lparr>post_commands := getlines (c_str v)\<rparr>) h)"
  using push_lines [of post_commands "\<lambda>c v. c\<lparr>post_commands := v\<rparr>"]
  by (simp add: post_commands_consumer_def) (rule ext, simp add: upd_def)

lemma bond_coeff_global:
  "config r = Global_test_config \<Longrightarrow>
   bond_coeff_consumer u (YAML_SCALAR_EVENT v) r h
     = Inr (upd Global_test_config (\<lambda>c. c\<lparr>bond_coeff := getlines (c_str v)\<rparr>) h)"
  using push_lines [of bond_coeff "\<lambda>c v. c\<lparr>bond_coeff := v\<rparr>"]
  by (simp add: bond_coeff_consumer_def) (rule ext, simp add: upd_def)

lemma push_prerequisites:
  "foldl (\<lambda>h' line.
            case prerequisite_line line of
              None \<Rightarrow> h'
            | Some kv \<Rightarrow>
                upd Global_test_config (\<lambda>c. c\<lparr>prerequisites := prerequisites c @ [kv]\<rparr>) h')
     h ls
   = upd Global_test_config
       (\<lambda>c. c\<lparr>prerequisites := prerequisites c @ List.map_filter prerequisite_line ls\<rparr>) h"
proof (induction ls arbitrary: h)
  case Nil
  then show ?case by (simp add: upd_def List.map_filter_simps)
next
  case (Cons l ls)
  show ?case
  proof (cases "prerequisite_line l")
    case None
    then show ?thesis using Cons by (simp add: List.map_filter_simps)
  next
    case (Some kv)
    have "upd Global_test_config
            (\<lambda>c. c\<lparr>prerequisites := prerequisites c @ List.map_filter prerequisite_line ls\<rparr>)
            (upd Global_test_config (\<lambda>c. c\<lparr>prerequisites := prerequisites c @ [kv]\<rparr>) h)
          = upd Global_test_config
            (\<lambda>c. c\<lparr>prerequisites := prerequisites c @ kv # List.map_filter prerequisite_line ls\<rparr>) h"
      by (rule ext) (simp add: upd_def)
    then show ?thesis using Cons Some by (simp add: List.map_filter_simps)
  qed
qed

lemma prerequisites_global:
  "config r = Global_test_config \<Longrightarrow>
   prerequisites_consumer u (YAML_SCALAR_EVENT v) r h
     = Inr (upd Global_test_config
              (\<lambda>c. c\<lparr>prerequisites := List.map_filter prerequisite_line (getlines (c_str v))\<rparr>) h)"
  by (simp add: prerequisites_consumer_def push_prerequisites) (rule ext, simp add: upd_def)

text \<open>The blocks that the writer builds from lists, read back as lines.\<close>

lemma terminated_clean:
  "\<forall>l\<in>set ls. CHR 0x00 \<notin> set l \<Longrightarrow> CHR 0x00 \<notin> set (concat (map (\<lambda>l. l @ ''\<newline>'') ls))"
  by (induction ls) auto

lemma block_lines:
  assumes "\<forall>l\<in>set ls. CHR 0x00 \<notin> set l \<and> CHR 0x0A \<notin> set l"
  shows "getlines (c_str (concat (map (\<lambda>l. l @ ''\<newline>'') ls))) = ls"
  using assms by (simp add: c_str_id terminated_clean getlines_terminated)

lemma prerequisites_block:
  assumes "\<forall>pr\<in>set prs. (\<forall>c\<in>set [CHR 0x00, CHR 0x0A, CHR '' '', CHR 0x09].
               c \<notin> set (fst pr) \<and> c \<notin> set (snd pr)) \<and> snd pr \<noteq> []"
  shows "List.map_filter prerequisite_line
           (getlines (c_str (concat (map (\<lambda>pr. fst pr @ '' '' @ snd pr @ ''\<newline>'') prs)))) = prs"
proof -
  let ?ls = "map (\<lambda>pr. fst pr @ '' '' @ snd pr) prs"
  have b: "concat (map (\<lambda>pr. fst pr @ '' '' @ snd pr @ ''\<newline>'') prs)
        = concat (map (\<lambda>l. l @ ''\<newline>'') ?ls)"
    by (simp add: comp_def)
  have "\<forall>l\<in>set ?ls. CHR 0x00 \<notin> set l \<and> CHR 0x0A \<notin> set l"
    using assms by auto
  then have l: "getlines (c_str (concat (map (\<lambda>l. l @ ''\<newline>'') ?ls))) = ?ls"
    by (rule block_lines)
  have "List.map_filter prerequisite_line ?ls = prs"
    using assms
  proof (induction prs)
    case Nil
    then show ?case by (simp add: List.map_filter_simps)
  next
    case (Cons pr prs)
    have "prerequisite_line (fst pr @ '' '' @ snd pr) = Some (fst pr, snd pr)"
      using Cons.prems by (intro prerequisite_line_pair) auto
    then show ?case using Cons by (simp add: List.map_filter_simps)
  qed
  then show ?thesis unfolding b l .
qed

text \<open>The force blocks that the writer builds, read back as rows.\<close>

lemma force_block_rows:
  "i + n \<le> length tag \<Longrightarrow> i + n \<le> length f \<Longrightarrow>
   force_block p tag f i n = Inr (concat (map (\<lambda>j. force_row p (tag ! j) (f ! j)) [i..<i + n]))"
proof (induction n arbitrary: i)
  case 0
  then show ?case by simp
next
  case (Suc n)
  have "[i..<i + Suc n] = i # [Suc i..<Suc i + n]"
    by (simp add: upt_conv_Cons)
  then show ?case using Suc.prems Suc.IH [of "Suc i"] by simp
qed

lemma fmt_3d_length:
  assumes "0 \<le> t" "t < 2147483648"
  shows "length (fmt_3d t) \<le> 11"
proof -
  have "nat t < 10 ^ 10" using assms by simp
  then have "length (digits_of (nat t)) \<le> 10" by (rule digits_of_length) simp
  then show ?thesis using assms(1) by (simp add: fmt_3d_def Let_def)
qed

lemma fmt_3d_clean:
  assumes "0 \<le> t"
  shows "CHR 0x00 \<notin> set (fmt_3d t) \<and> CHR 0x0A \<notin> set (fmt_3d t)"
proof -
  obtain pad where pad: "fmt_3d t = pad @ digits_of (nat t)" "\<forall>c\<in>set pad. isspace c"
    using fmt_3d_nonneg [OF assms] by blast
  have "set pad \<subseteq> {CHR '' ''}"
    using assms pad(1) by (auto simp: fmt_3d_def Let_def append_eq_append_conv2
        dest: arg_cong [where f = set])
  then show ?thesis
    using digits_of_clean [of "nat t"] by (auto simp: pad(1))
qed

lemma rendered_shape:
  "renders \<delta> t v \<Longrightarrow> length t \<le> 24 \<and> CHR 0x00 \<notin> set t \<and> CHR 0x0A \<notin> set t"
  by (simp add: renders_def)

lemma rendered_coord_shape:
  assumes "renders_coord p \<delta> xyz"
  shows "length (fmt_23_16e p (x_coord xyz)) \<le> 24" "length (fmt_23_16e p (y_coord xyz)) \<le> 24"
    "length (fmt_23_16e p (z_coord xyz)) \<le> 24"
    "CHR 0x00 \<notin> set (fmt_23_16e p (x_coord xyz))" "CHR 0x00 \<notin> set (fmt_23_16e p (y_coord xyz))"
    "CHR 0x00 \<notin> set (fmt_23_16e p (z_coord xyz))"
    "CHR 0x0A \<notin> set (fmt_23_16e p (x_coord xyz))" "CHR 0x0A \<notin> set (fmt_23_16e p (y_coord xyz))"
    "CHR 0x0A \<notin> set (fmt_23_16e p (z_coord xyz))"
  using assms by (simp_all add: renders_coord_def renders_def)

lemma force_row_line:
  assumes p: "renders_coord p \<delta> xyz" and t: "0 \<le> t" "t < 2147483648"
  shows "force_row p t xyz = force_line p t xyz @ ''\<newline>''"
proof -
  have "length (fmt_23_16e p (x_coord xyz)) \<le> 24" "length (fmt_23_16e p (y_coord xyz)) \<le> 24"
    "length (fmt_23_16e p (z_coord xyz)) \<le> 24"
    using rendered_coord_shape [OF p] by simp_all
  then have "length (force_line p t xyz @ ''\<newline>'') \<le> 255"
    using fmt_3d_length [OF t] by (simp add: force_line_def)
  then show ?thesis by (simp add: force_row_def snprintf_buf_def)
qed

lemma force_line_clean:
  assumes p: "renders_coord p \<delta> xyz" and t: "0 \<le> t"
  shows "CHR 0x00 \<notin> set (force_line p t xyz) \<and> CHR 0x0A \<notin> set (force_line p t xyz)"
  using rendered_coord_shape [OF p] fmt_3d_clean [OF t] by (simp add: force_line_def)

lemma force_line_tag:
  "0 \<le> t \<Longrightarrow> t < 2147483648 \<Longrightarrow> fst (sscanf_row (force_line p t xyz)) = Some t"
  by (simp add: force_line_def sscanf_row_def scan_int_fmt_3d)

lemma force_block_lines:
  assumes p: "\<forall>j<n. renders_coord p \<delta> (f ! j)"
    and len: "n \<le> length tag" "n \<le> length f"
    and tags: "\<forall>j<n. 0 \<le> tag ! j \<and> tag ! j < 2147483648"
  shows "\<exists>block. force_block p tag f 0 n = Inr block \<and>
           getlines (c_str block) = map (\<lambda>j. force_line p (tag ! j) (f ! j)) [0..<n]"
proof -
  let ?lines = "map (\<lambda>j. force_line p (tag ! j) (f ! j)) [0..<n]"
  have rows: "map (\<lambda>j. force_row p (tag ! j) (f ! j)) [0..<n] = map (\<lambda>l. l @ ''\<newline>'') ?lines"
    using p tags by (simp add: force_row_line [where \<delta> = \<delta>])
  have b: "force_block p tag f 0 n = Inr (concat (map (\<lambda>l. l @ ''\<newline>'') ?lines))"
    using force_block_rows [of 0 n tag f p] len rows by simp
  have "\<forall>l\<in>set ?lines. CHR 0x00 \<notin> set l \<and> CHR 0x0A \<notin> set l"
    using p tags force_line_clean [where \<delta> = \<delta>] by auto
  then have "getlines (c_str (concat (map (\<lambda>l. l @ ''\<newline>'') ?lines))) = ?lines"
    by (rule block_lines)
  then show ?thesis using b by blast
qed

lemma forces_global:
  assumes n: "natoms (h Global_test_config) = n" "0 \<le> n" "n < 2147483647"
    and rows: "\<forall>line\<in>set (getlines (c_str v)). \<exists>t. fst (sscanf_row line) = Some t \<and> 0 \<le> t \<and> t \<le> n"
  shows "\<exists>forces'.
           store_rows (\<lambda>i. 0) (xyz_uninit u) 0 (getlines (c_str v))
             (replicate (nat (n + 1)) coord_zero) = Inr forces' \<and>
           (\<forall>r. config r = Global_test_config \<longrightarrow>
              init_forces_consumer u (YAML_SCALAR_EVENT v) r h
                = Inr (upd Global_test_config (\<lambda>c. c\<lparr>init_forces := forces'\<rparr>) h))"
    and "\<exists>forces'.
           store_rows (tag_uninit u) (xyz_uninit u) 0 (getlines (c_str v))
             (replicate (nat (n + 1)) coord_zero) = Inr forces' \<and>
           (\<forall>r. config r = Global_test_config \<longrightarrow>
              run_forces_consumer u (YAML_SCALAR_EVENT v) r h
                = Inr (upd Global_test_config (\<lambda>c. c\<lparr>run_forces := forces'\<rparr>) h))"
proof -
  let ?zero = "replicate (nat (n + 1)) coord_zero"
  have rs: "resize_forces (natoms (h Global_test_config)) = Inr ?zero"
    using n by (simp add: resize_forces_ok)
  have ok: "\<forall>line\<in>set (getlines (c_str v)).
              \<exists>t. fst (sscanf_row line) = Some t \<and> 0 \<le> t \<and> nat t < length ?zero"
    using rows n(2) by fastforce
  from store_rows_succeeds [OF ok] obtain f1
    where f1: "store_rows (\<lambda>i. 0) (xyz_uninit u) 0 (getlines (c_str v)) ?zero = Inr f1" by blast
  from store_rows_succeeds [OF ok] obtain f2
    where f2: "store_rows (tag_uninit u) (xyz_uninit u) 0 (getlines (c_str v)) ?zero = Inr f2"
    by blast
  show "\<exists>forces'.
           store_rows (\<lambda>i. 0) (xyz_uninit u) 0 (getlines (c_str v)) ?zero = Inr forces' \<and>
           (\<forall>r. config r = Global_test_config \<longrightarrow>
              init_forces_consumer u (YAML_SCALAR_EVENT v) r h
                = Inr (upd Global_test_config (\<lambda>c. c\<lparr>init_forces := forces'\<rparr>) h))"
    using f1 rs by (auto simp: init_forces_consumer_def)
  show "\<exists>forces'.
           store_rows (tag_uninit u) (xyz_uninit u) 0 (getlines (c_str v)) ?zero = Inr forces' \<and>
           (\<forall>r. config r = Global_test_config \<longrightarrow>
              run_forces_consumer u (YAML_SCALAR_EVENT v) r h
                = Inr (upd Global_test_config (\<lambda>c. c\<lparr>run_forces := forces'\<rparr>) h))"
    using f2 rs by (auto simp: run_forces_consumer_def)
qed

text \<open>Printed numbers, read back.\<close>

lemma scan_double_blank: "scan_double strict (CHR '' '' # s) = scan_double strict s"
  by (simp add: scan_double_def scanf_lg_def strtod_def isspace_def)

lemma scan_doubles_blank: "scan_doubles n (CHR '' '' # s) = scan_doubles n s"
  by (cases n) (simp_all add: scan_double_blank)

lemma scan_doubles_empty: "scan_doubles n [] = []"
  by (cases n) (simp_all add: scan_double_def scanf_lg_def is_hex_def)

lemma scan_doubles_read:
  assumes "reads_as t w"
  shows "scan_doubles (Suc n) (t @ CHR '' '' # rest) = w # scan_doubles n rest"
    and "scan_doubles (Suc n) t = [w]"
proof -
  have "scan_double True (t @ CHR '' '' # rest) = Some (w, CHR '' '' # rest)"
    using assms by (simp add: reads_as_def)
  then show "scan_doubles (Suc n) (t @ CHR '' '' # rest) = w # scan_doubles n rest"
    by (simp add: scan_doubles_blank)
  have "scan_double True (t @ []) = Some (w, [])"
    using assms unfolding reads_as_def by blast
  then show "scan_doubles (Suc n) t = [w]"
    by (simp add: scan_doubles_empty)
qed

lemma atof_rendered:
  assumes "renders \<delta> t v"
  shows "close_to \<delta> (atof (c_str (snprintf_buf t))) v"
proof -
  from assms obtain w where w: "reads_as t w" "close_to \<delta> w v"
    and sh: "length t \<le> 24" "CHR 0x00 \<notin> set t"
    by (auto simp: renders_def)
  have "c_str (snprintf_buf t) = t"
    using sh by (simp add: snprintf_buf_def c_str_id)
  moreover have "scan_double False (t @ []) = Some (w, [])"
    using w(1) unfolding reads_as_def by blast
  ultimately show ?thesis using w(2) by (simp add: atof_def)
qed

lemma stress_rendered:
  assumes "renders_stress p \<delta> s"
  shows "stress_close \<delta> (sscanf_stress u0 (c_str (stress_line p s))) s"
proof -
  let ?t1 = "fmt_23_16e p (xx s)" and ?t2 = "fmt_23_16e p (yy s)"
    and ?t3 = "fmt_23_16e p (zz s)" and ?t4 = "fmt_23_16e p (xy s)"
    and ?t5 = "fmt_23_16e p (xz s)" and ?t6 = "fmt_23_16e p (yz s)"
  have r: "renders \<delta> ?t1 (xx s)" "renders \<delta> ?t2 (yy s)" "renders \<delta> ?t3 (zz s)"
    "renders \<delta> ?t4 (xy s)" "renders \<delta> ?t5 (xz s)" "renders \<delta> ?t6 (yz s)"
    using assms by (simp_all add: renders_stress_def)
  from r(1) obtain w1 where w1: "reads_as ?t1 w1" "close_to \<delta> w1 (xx s)"
    unfolding renders_def by blast
  from r(2) obtain w2 where w2: "reads_as ?t2 w2" "close_to \<delta> w2 (yy s)"
    unfolding renders_def by blast
  from r(3) obtain w3 where w3: "reads_as ?t3 w3" "close_to \<delta> w3 (zz s)"
    unfolding renders_def by blast
  from r(4) obtain w4 where w4: "reads_as ?t4 w4" "close_to \<delta> w4 (xy s)"
    unfolding renders_def by blast
  from r(5) obtain w5 where w5: "reads_as ?t5 w5" "close_to \<delta> w5 (xz s)"
    unfolding renders_def by blast
  from r(6) obtain w6 where w6: "reads_as ?t6 w6" "close_to \<delta> w6 (yz s)"
    unfolding renders_def by blast
  let ?line = "?t1 @ CHR '' '' # ?t2 @ CHR '' '' # ?t3 @ CHR '' '' # ?t4 @ CHR '' '' # ?t5
                 @ CHR '' '' # ?t6"
  have sh: "length ?t1 \<le> 24" "length ?t2 \<le> 24" "length ?t3 \<le> 24" "length ?t4 \<le> 24"
    "length ?t5 \<le> 24" "length ?t6 \<le> 24"
    "CHR 0x00 \<notin> set ?t1" "CHR 0x00 \<notin> set ?t2" "CHR 0x00 \<notin> set ?t3" "CHR 0x00 \<notin> set ?t4"
    "CHR 0x00 \<notin> set ?t5" "CHR 0x00 \<notin> set ?t6"
    using r by (simp_all add: rendered_shape)
  have "length ?line \<le> 255" using sh(1-6) by simp
  then have buf: "stress_line p s = ?line"
    by (simp add: stress_line_def snprintf_buf_def)
  have "CHR 0x00 \<notin> set ?line" using sh(7-12) by simp
  then have str: "c_str ?line = ?line" by (rule c_str_id)
  have six: "(6::nat) = Suc (Suc (Suc (Suc (Suc (Suc 0)))))" by simp
  have "scan_doubles 6 ?line = [w1, w2, w3, w4, w5, w6]"
    unfolding six
    by (simp only: scan_doubles_read(1) [OF w1(1)] scan_doubles_read(1) [OF w2(1)]
        scan_doubles_read(1) [OF w3(1)] scan_doubles_read(1) [OF w4(1)]
        scan_doubles_read(1) [OF w5(1)] scan_doubles_read(2) [OF w6(1)])
  then have "sscanf_stress u0 (c_str (stress_line p s))
      = \<lparr>xx = w1, yy = w2, zz = w3, xy = w4, xz = w5, yz = w6\<rparr>"
    unfolding buf str by (simp add: sscanf_stress_def assigned_def)
  then show ?thesis
    using w1(2) w2(2) w3(2) w4(2) w5(2) w6(2) by (simp add: stress_close_def)
qed

lemma force_line_rendered:
  assumes r: "renders_coord p \<delta> a" and t: "0 \<le> t" "t < 2147483648"
  shows "\<exists>x y z. sscanf_row (force_line p t a) = (Some t, [x, y, z]) \<and>
           coord_close \<delta> \<lparr>x_coord = x, y_coord = y, z_coord = z\<rparr> a"
proof -
  let ?tx = "fmt_23_16e p (x_coord a)" and ?ty = "fmt_23_16e p (y_coord a)"
    and ?tz = "fmt_23_16e p (z_coord a)"
  have rr: "renders \<delta> ?tx (x_coord a)" "renders \<delta> ?ty (y_coord a)" "renders \<delta> ?tz (z_coord a)"
    using r by (simp_all add: renders_coord_def)
  from rr(1) obtain x where x: "reads_as ?tx x" "close_to \<delta> x (x_coord a)"
    unfolding renders_def by blast
  from rr(2) obtain y where y: "reads_as ?ty y" "close_to \<delta> y (y_coord a)"
    unfolding renders_def by blast
  from rr(3) obtain z where z: "reads_as ?tz z" "close_to \<delta> z (z_coord a)"
    unfolding renders_def by blast
  let ?rest = "CHR '' '' # ?tx @ CHR '' '' # ?ty @ CHR '' '' # ?tz"
  have three: "(3::nat) = Suc (Suc (Suc 0))" by simp
  have d: "scan_doubles 3 ?rest = [x, y, z]"
    unfolding three scan_doubles_blank
    by (simp only: scan_doubles_read(1) [OF x(1)] scan_doubles_read(1) [OF y(1)]
        scan_doubles_read(2) [OF z(1)])
  have i: "scan_int (fmt_3d t @ ?rest) = Some (t, ?rest)"
    by (rule scan_int_fmt_3d [OF t])
  have "force_line p t a = fmt_3d t @ ?rest"
    by (simp add: force_line_def)
  then have "sscanf_row (force_line p t a) = (Some t, [x, y, z])"
    by (simp add: sscanf_row_def i d)
  then show ?thesis
    using x(2) y(2) z(2) by (auto simp: coord_close_def)
qed

lemma forces_rendered:
  assumes st: "store_rows tag0 xyz0 0 (map (\<lambda>j. force_line p (tag ! j) (f ! j)) [0..<n]) forces
                 = Inr forces'"
    and tags: "\<forall>j<n. 0 \<le> tag ! j \<and> tag ! j < 2147483648"
    and d: "distinct (take n tag)" and len: "n \<le> length tag"
    and r: "\<forall>j<n. renders_coord p \<delta> (f ! j)" and j: "j < n"
  shows "coord_close \<delta> (forces' ! nat (tag ! j)) (f ! j)"
proof -
  let ?lines = "map (\<lambda>j. force_line p (tag ! j) (f ! j)) [0..<n]"
  have tagged: "fst (sscanf_row (force_line p (tag ! i) (f ! i))) = Some (tag ! i)" if "i < n" for i
    using tags that by (simp add: force_line_tag)
  have 1: "\<forall>line\<in>set ?lines. \<exists>t. fst (sscanf_row line) = Some t"
    using tagged by auto
  have "map (\<lambda>line. fst (sscanf_row line)) ?lines = map (\<lambda>i. Some (tag ! i)) [0..<n]"
    using tagged by simp
  also have "\<dots> = map Some (take n tag)"
    using len by (simp add: list_eq_iff_nth_eq)
  finally have 2: "distinct (map (\<lambda>line. fst (sscanf_row line)) ?lines)"
    using d by (simp add: distinct_map)
  have 3: "force_line p (tag ! j) (f ! j) \<in> set ?lines"
    using j by auto
  from force_line_rendered [of p \<delta> "f ! j" "tag ! j"] r tags j
  obtain x y z where xyz: "sscanf_row (force_line p (tag ! j) (f ! j)) = (Some (tag ! j), [x, y, z])"
    "coord_close \<delta> \<lparr>x_coord = x, y_coord = y, z_coord = z\<rparr> (f ! j)"
    by blast
  from store_rows_stored [OF st 1 2 3 xyz(1)]
  have "forces' ! nat (tag ! j) = \<lparr>x_coord = x, y_coord = y, z_coord = z\<rparr>" by simp
  then show ?thesis using xyz(2) by simp
qed

text \<open>
  A value read back close to the value written passes the comparison of the harness
  against it, at every tolerance of at least twice the distance.
\<close>

lemma close_passes:
  assumes c: "close_to \<delta> w v" and d: "0 \<le> \<delta>" "\<delta> \<le> 1 / 2" "2 * \<delta> \<le> eps"
  shows "passed (fst (EXPECT_FP_LE_WITH_EPS v w eps s))"
proof (cases "v = 0")
  case True
  then have "w = 0" using c by (simp add: close_to_def)
  then show ?thesis using True d by (simp add: EXPECT_FP_LE_WITH_EPS_def std_min_def)
next
  case False
  have le: "\<bar>v - w\<bar> \<le> \<delta> * \<bar>v\<bar>" using c by (simp add: close_to_def abs_minus_commute)
  have "\<bar>v\<bar> - \<bar>w\<bar> \<le> \<bar>v - w\<bar>" by simp
  then have w: "(1 - \<delta>) * \<bar>v\<bar> \<le> \<bar>w\<bar>" using le by (simp add: algebra_simps)
  have "(1 / 2) * \<bar>v\<bar> \<le> (1 - \<delta>) * \<bar>v\<bar>"
    using d(2) by (intro mult_right_mono) simp_all
  then have "\<bar>v\<bar> / 2 \<le> (1 - \<delta>) * \<bar>v\<bar>" by simp
  then have m: "\<bar>v\<bar> / 2 \<le> std_min \<bar>v\<bar> \<bar>w\<bar>"
    using w by (simp add: std_min_def)
  have pos: "0 < \<bar>v\<bar> / 2" using False by simp
  then have mpos: "0 < std_min \<bar>v\<bar> \<bar>w\<bar>" using m by linarith
  have "\<bar>v - w\<bar> / std_min \<bar>v\<bar> \<bar>w\<bar> \<le> (\<delta> * \<bar>v\<bar>) / (\<bar>v\<bar> / 2)"
    using le m pos mpos by (intro frac_le) (simp_all add: d(1))
  also have "\<dots> = 2 * \<delta>" using False by simp
  finally have "\<bar>v - w\<bar> / std_min \<bar>v\<bar> \<bar>w\<bar> \<le> eps" using d(3) by simp
  then show ?thesis using mpos by (simp add: EXPECT_FP_LE_WITH_EPS_def Let_def)
qed

lemma compare_stress_passes:
  assumes c: "stress_close \<delta> w v" and d: "0 \<le> \<delta>" "\<delta> \<le> 1 / 2" "2 * \<delta> \<le> eps"
  shows "list_all passed (fst (compare_stress eps v w s))"
  using c by (simp add: compare_stress_def Let_def split_beta stress_close_def close_passes [OF _ d])

lemma compare_forces_passes:
  assumes "\<forall>j. i \<le> j \<and> j < i + n \<longrightarrow>
             j < length f \<and> j < length tag \<and> 0 \<le> tag ! j \<and> nat (tag ! j) < length f_ref \<and>
             coord_close \<delta> (f_ref ! nat (tag ! j)) (f ! j)"
    and d: "0 \<le> \<delta>" "\<delta> \<le> 1 / 2" "2 * \<delta> \<le> eps"
  shows "\<exists>cs s'. compare_forces eps f tag f_ref i n stats = Inr (cs, s') \<and> list_all passed cs"
  using assms(1)
proof (induction n arbitrary: i stats)
  case 0
  then show ?case by simp
next
  case (Suc n)
  have here: "i < length f" "i < length tag" "0 \<le> tag ! i" "nat (tag ! i) < length f_ref"
    "coord_close \<delta> (f_ref ! nat (tag ! i)) (f ! i)"
    using Suc.prems by simp_all
  define s3 where "s3 = snd (EXPECT_FP_LE_WITH_EPS (z_coord (f ! i)) (z_coord (f_ref ! nat (tag ! i))) eps
       (snd (EXPECT_FP_LE_WITH_EPS (y_coord (f ! i)) (y_coord (f_ref ! nat (tag ! i))) eps
         (snd (EXPECT_FP_LE_WITH_EPS (x_coord (f ! i)) (x_coord (f_ref ! nat (tag ! i))) eps stats)))))"
  have "\<forall>j. Suc i \<le> j \<and> j < Suc i + n \<longrightarrow>
             j < length f \<and> j < length tag \<and> 0 \<le> tag ! j \<and> nat (tag ! j) < length f_ref \<and>
             coord_close \<delta> (f_ref ! nat (tag ! j)) (f ! j)"
    using Suc.prems by simp
  from Suc.IH [OF this, of s3] obtain cs s' where
    rest: "compare_forces eps f tag f_ref (Suc i) n s3 = Inr (cs, s')" "list_all passed cs"
    by blast
  show ?case
    using here rest
    by (simp add: Let_def split_beta s3_def coord_close_def close_passes [OF _ d])
qed

text \<open>The scalar decoders of a reader bound to the global object.\<close>

lemma scalars_global:
  assumes "config r = Global_test_config"
  shows "lammps_version_consumer u (YAML_SCALAR_EVENT v) r h
           = Inr (upd Global_test_config (\<lambda>c. c\<lparr>lammps_version := c_str v\<rparr>) h)"
    and "date_generated_consumer u (YAML_SCALAR_EVENT v) r h
           = Inr (upd Global_test_config (\<lambda>c. c\<lparr>date_generated := c_str v\<rparr>) h)"
    and "epsilon_consumer u (YAML_SCALAR_EVENT v) r h
           = Inr (upd Global_test_config (\<lambda>c. c\<lparr>epsilon := atof (c_str v)\<rparr>) h)"
    and "input_file_consumer u (YAML_SCALAR_EVENT v) r h
           = Inr (upd Global_test_config (\<lambda>c. c\<lparr>input_file := c_str v\<rparr>) h)"
    and "bond_style_consumer u (YAML_SCALAR_EVENT v) r h
           = Inr (upd Global_test_config (\<lambda>c. c\<lparr>bond_style := c_str v\<rparr>) h)"
    and "natoms_consumer u (YAML_SCALAR_EVENT v) r h
           = Inr (upd Global_test_config (\<lambda>c. c\<lparr>natoms := atoi (c_str v)\<rparr>) h)"
    and "init_energy_consumer u (YAML_SCALAR_EVENT v) r h
           = Inr (upd Global_test_config (\<lambda>c. c\<lparr>init_energy := atof (c_str v)\<rparr>) h)"
    and "run_energy_consumer u (YAML_SCALAR_EVENT v) r h
           = Inr (upd Global_test_config (\<lambda>c. c\<lparr>run_energy := atof (c_str v)\<rparr>) h)"
    and "init_stress_consumer u (YAML_SCALAR_EVENT v) r h
           = Inr (upd Global_test_config
                    (\<lambda>c. c\<lparr>init_stress := sscanf_stress (stress_uninit u) (c_str v)\<rparr>) h)"
    and "run_stress_consumer u (YAML_SCALAR_EVENT v) r h
           = Inr (upd Global_test_config
                    (\<lambda>c. c\<lparr>run_stress := sscanf_stress (stress_uninit u) (c_str v)\<rparr>) h)"
  using assms
  by (simp_all add: lammps_version_consumer_def date_generated_consumer_def epsilon_consumer_def
      input_file_consumer_def bond_style_consumer_def natoms_consumer_def
      init_energy_consumer_def run_energy_consumer_def init_stress_consumer_def
      run_stress_consumer_def)

text \<open>Steps of the driver loop.\<close>

lemma parse_loop_start:
  assumes "state r = START"
  shows "\<exists>r1. state r1 = ACCEPT_KEY \<and> config r1 = config r \<and>
           parse_loop u (Some YAML_STREAM_START_EVENT # Some YAML_DOCUMENT_START_EVENT #
                         Some YAML_MAPPING_START_EVENT # rest) r h
             = parse_loop u rest r1 h"
  using assms
  by (intro exI [of _ "r\<lparr>accepted := False, state := ACCEPT_KEY\<rparr>"])
     (simp add: parse_step_def consume_event_def)

lemma parse_loop_pair:
  assumes "state r = ACCEPT_KEY" and "consumers (c_str k) = Some d"
    and "\<And>r'. config r' = config r \<Longrightarrow> d u (YAML_SCALAR_EVENT v) r' h = Inr h1"
  obtains r1 where "state r1 = ACCEPT_KEY" and "config r1 = config r"
    and "parse_loop u (Some (YAML_SCALAR_EVENT k) # Some (YAML_SCALAR_EVENT v) # rest) r h
           = parse_loop u rest r1 h1"
proof -
  let ?r1 = "r\<lparr>key := c_str k, accepted := True, state := ACCEPT_KEY\<rparr>"
  have "d u (YAML_SCALAR_EVENT v) ?r1 h = Inr h1"
    by (rule assms(3)) simp
  then have "parse_loop u (Some (YAML_SCALAR_EVENT k) # Some (YAML_SCALAR_EVENT v) # rest) r h
             = parse_loop u rest ?r1 h1"
    using assms(1,2) by (simp add: parse_step_def consume_event_def consume_key_value_def)
  moreover have "state ?r1 = ACCEPT_KEY" "config ?r1 = config r" by simp_all
  ultimately show ?thesis using that by blast
qed

lemma parse_loop_end:
  assumes "state r = ACCEPT_KEY"
  shows "\<exists>r1. parse_loop u (Some YAML_MAPPING_END_EVENT # rest) r h = Inr (r1, h)"
  using assms by (simp add: parse_step_def consume_event_def)

text \<open>
  The fixture written by \<^verbatim>\<open>generate\<close>, read back by a reader bound to the global
  object: the driver loop decodes the sixteen key/value pairs in turn.
\<close>

lemma written_fixture_read_back:
  assumes rf: "\<forall>j<nat (atom_natoms lmp).
                 renders_coord p \<delta> (atom_f lmp ! j) \<and> renders_coord p \<delta> (atom_f run ! j)"
    and cmds: "\<forall>s\<in>set (pre_commands cfg @ post_commands cfg @ bond_coeff cfg).
                 CHR 0x00 \<notin> set s \<and> CHR 0x0A \<notin> set s"
    and names: "CHR 0x00 \<notin> set (input_file cfg)" "CHR 0x00 \<notin> set (bond_style cfg)"
    and prs: "\<forall>pr\<in>set (prerequisites cfg).
                (\<forall>c\<in>set [CHR 0x00, CHR 0x0A, CHR '' '', CHR 0x09].
                    c \<notin> set (fst pr) \<and> c \<notin> set (snd pr)) \<and> snd pr \<noteq> []"
    and n: "0 \<le> atom_natoms lmp" "atom_natoms lmp < 2147483647"
    and arrays: "nat (atom_natoms lmp) \<le> length (atom_tag lmp)"
      "nat (atom_natoms lmp) \<le> length (atom_f lmp)"
      "nat (atom_natoms lmp) \<le> length (atom_tag run)"
      "nat (atom_natoms lmp) \<le> length (atom_f run)"
    and tags: "\<forall>j<nat (atom_natoms lmp).
                 0 \<le> atom_tag lmp ! j \<and> atom_tag lmp ! j \<le> atom_natoms lmp \<and>
                 0 \<le> atom_tag run ! j \<and> atom_tag run ! j \<le> atom_natoms lmp"
  shows "\<exists>r' h' fi fr.
           write_then_read p u cfg (Some lmp) run now h = Inr (Some (0, r', h')) \<and>
           h' Global_test_config =
             (h Global_test_config)\<lparr>lammps_version := c_str (universe_version lmp),
               date_generated := c_str (substr now 0 (size_minus_1 (str_find now ''\<newline>''))),
               epsilon := atof (c_str (snprintf_buf (fmt_15g p (epsilon cfg)))),
               prerequisites := prerequisites cfg,
               pre_commands := pre_commands cfg,
               post_commands := post_commands cfg,
               input_file := input_file cfg,
               bond_style := bond_style cfg,
               bond_coeff := bond_coeff cfg,
               natoms := atom_natoms lmp,
               init_energy := atof (c_str (snprintf_buf (fmt_15g p (bond_energy lmp)))),
               init_stress := sscanf_stress (stress_uninit u) (c_str (stress_line p (bond_virial lmp))),
               init_forces := fi,
               run_energy := atof (c_str (snprintf_buf (fmt_15g p (bond_energy run)))),
               run_stress := sscanf_stress (stress_uninit u) (c_str (stress_line p (bond_virial run))),
               run_forces := fr\<rparr> \<and>
           store_rows (\<lambda>i. 0) (xyz_uninit u) 0
               (map (\<lambda>j. force_line p (atom_tag lmp ! j) (atom_f lmp ! j)) [0..<nat (atom_natoms lmp)])
               (replicate (nat (atom_natoms lmp + 1)) coord_zero) = Inr fi \<and>
           store_rows (tag_uninit u) (xyz_uninit u) 0
               (map (\<lambda>j. force_line p (atom_tag run ! j) (atom_f run ! j)) [0..<nat (atom_natoms lmp)])
               (replicate (nat (atom_natoms lmp + 1)) coord_zero) = Inr fr"
proof -
  let ?n = "atom_natoms lmp"
  have tr: "\<forall>j<nat ?n. 0 \<le> atom_tag lmp ! j \<and> atom_tag lmp ! j < 2147483648"
    "\<forall>j<nat ?n. 0 \<le> atom_tag run ! j \<and> atom_tag run ! j < 2147483648"
    using tags n(2) by force+
  have rf1: "\<forall>j<nat ?n. renders_coord p \<delta> (atom_f lmp ! j)"
    and rf2: "\<forall>j<nat ?n. renders_coord p \<delta> (atom_f run ! j)"
    using rf by simp_all
  from force_block_lines [OF rf1 arrays(1,2) tr(1)] obtain ib
    where ib: "force_block p (atom_tag lmp) (atom_f lmp) 0 (nat ?n) = Inr ib"
      "getlines (c_str ib) = map (\<lambda>j. force_line p (atom_tag lmp ! j) (atom_f lmp ! j)) [0..<nat ?n]"
    by blast
  from force_block_lines [OF rf2 arrays(3,4) tr(2)] obtain rb
    where rb: "force_block p (atom_tag run) (atom_f run) 0 (nat ?n) = Inr rb"
      "getlines (c_str rb) = map (\<lambda>j. force_line p (atom_tag run ! j) (atom_f run ! j)) [0..<nat ?n]"
    by blast
  have rows: "\<forall>line\<in>set (getlines (c_str ib)). \<exists>t. fst (sscanf_row line) = Some t \<and> 0 \<le> t \<and> t \<le> ?n"
    "\<forall>line\<in>set (getlines (c_str rb)). \<exists>t. fst (sscanf_row line) = Some t \<and> 0 \<le> t \<and> t \<le> ?n"
    unfolding ib(2) rb(2) using tags n(2) by (auto simp: force_line_tag)
  have nat_back: "atoi (c_str (snprintf_buf (fmt_d ?n))) = ?n"
    using n by (intro atoi_fmt_d) simp_all
  define H0 where "H0 = h"
  define rest16 where "rest16 = [Some YAML_MAPPING_END_EVENT, Some YAML_DOCUMENT_END_EVENT, Some YAML_STREAM_END_EVENT]"
  define rest15 where "rest15 = Some (YAML_SCALAR_EVENT ''run_forces'') # Some (YAML_SCALAR_EVENT (rb)) # rest16"
  define rest14 where "rest14 = Some (YAML_SCALAR_EVENT ''run_stress'') # Some (YAML_SCALAR_EVENT (stress_line p (bond_virial run))) # rest15"
  define rest13 where "rest13 = Some (YAML_SCALAR_EVENT ''run_energy'') # Some (YAML_SCALAR_EVENT (snprintf_buf (fmt_15g p (bond_energy run)))) # rest14"
  define rest12 where "rest12 = Some (YAML_SCALAR_EVENT ''init_forces'') # Some (YAML_SCALAR_EVENT (ib)) # rest13"
  define rest11 where "rest11 = Some (YAML_SCALAR_EVENT ''init_stress'') # Some (YAML_SCALAR_EVENT (stress_line p (bond_virial lmp))) # rest12"
  define rest10 where "rest10 = Some (YAML_SCALAR_EVENT ''init_energy'') # Some (YAML_SCALAR_EVENT (snprintf_buf (fmt_15g p (bond_energy lmp)))) # rest11"
  define rest9 where "rest9 = Some (YAML_SCALAR_EVENT ''natoms'') # Some (YAML_SCALAR_EVENT (snprintf_buf (fmt_d (atom_natoms lmp)))) # rest10"
  define rest8 where "rest8 = Some (YAML_SCALAR_EVENT ''bond_coeff'') # Some (YAML_SCALAR_EVENT (concat (map (\<lambda>c. c @ ''\<newline>'') (bond_coeff cfg)))) # rest9"
  define rest7 where "rest7 = Some (YAML_SCALAR_EVENT ''bond_style'') # Some (YAML_SCALAR_EVENT (bond_style cfg)) # rest8"
  define rest6 where "rest6 = Some (YAML_SCALAR_EVENT ''input_file'') # Some (YAML_SCALAR_EVENT (input_file cfg)) # rest7"
  define rest5 where "rest5 = Some (YAML_SCALAR_EVENT ''post_commands'') # Some (YAML_SCALAR_EVENT (concat (map (\<lambda>c. c @ ''\<newline>'') (post_commands cfg)))) # rest6"
  define rest4 where "rest4 = Some (YAML_SCALAR_EVENT ''pre_commands'') # Some (YAML_SCALAR_EVENT (concat (map (\<lambda>c. c @ ''\<newline>'') (pre_commands cfg)))) # rest5"
  define rest3 where "rest3 = Some (YAML_SCALAR_EVENT ''prerequisites'') # Some (YAML_SCALAR_EVENT (concat (map (\<lambda>pr. fst pr @ '' '' @ snd pr @ ''\<newline>'') (prerequisites cfg)))) # rest4"
  define rest2 where "rest2 = Some (YAML_SCALAR_EVENT ''epsilon'') # Some (YAML_SCALAR_EVENT (snprintf_buf (fmt_15g p (epsilon cfg)))) # rest3"
  define rest1 where "rest1 = Some (YAML_SCALAR_EVENT ''date_generated'') # Some (YAML_SCALAR_EVENT (substr now 0 (size_minus_1 (str_find now ''\<newline>'')))) # rest2"
  define rest0 where "rest0 = Some (YAML_SCALAR_EVENT ''lammps_version'') # Some (YAML_SCALAR_EVENT (universe_version lmp)) # rest1"
  have gen: "generate p cfg (Some lmp) run now
      = Inr (Some (YAML_STREAM_START_EVENT # YAML_DOCUMENT_START_EVENT # YAML_MAPPING_START_EVENT #
                   map the rest0))"
    by (simp add: generate_def ib(1) rb(1) Let_def emit_def emit_double_def emit_int_def
        emit_block_def rest0_def rest1_def rest2_def rest3_def rest4_def rest5_def rest6_def rest7_def rest8_def rest9_def rest10_def rest11_def rest12_def rest13_def rest14_def rest15_def rest16_def)
  have evs: "map Some (YAML_STREAM_START_EVENT # YAML_DOCUMENT_START_EVENT #
                YAML_MAPPING_START_EVENT # map the rest0)
      = Some YAML_STREAM_START_EVENT # Some YAML_DOCUMENT_START_EVENT #
          Some YAML_MAPPING_START_EVENT # rest0"
    by (simp add: rest0_def rest1_def rest2_def rest3_def rest4_def rest5_def rest6_def rest7_def rest8_def rest9_def rest10_def rest11_def rest12_def rest13_def rest14_def rest15_def rest16_def)
  let ?rd = "(TestConfigReader_ctor Global_test_config)\<lparr>state := START\<rparr>"
  have "state ?rd = START" by simp
  from parse_loop_start [OF this, where rest = rest0 and u = u and h = h]
  obtain r0 where r0: "state r0 = ACCEPT_KEY" "config r0 = config ?rd"
    "parse_loop u (Some YAML_STREAM_START_EVENT # Some YAML_DOCUMENT_START_EVENT #
        Some YAML_MAPPING_START_EVENT # rest0) ?rd h = parse_loop u rest0 r0 H0"
    unfolding H0_def by blast
  have c0: "config r0 = Global_test_config"
    by (simp add: r0(2) TestConfigReader_ctor_def)
  define H1 where "H1 = upd Global_test_config (\<lambda>c. c\<lparr>lammps_version := c_str (universe_version lmp)\<rparr>) H0"
  have d1: "lammps_version_consumer u (YAML_SCALAR_EVENT (universe_version lmp)) r' H0 = Inr H1"
    if "config r' = config r0" for r'
    unfolding H1_def by (rule scalars_global) (simp only: that c0)
  have k1: "consumers (c_str ''lammps_version'') = Some lammps_version_consumer"
    by (simp add: c_str_def consumers_def)
  obtain r1 where r1: "state r1 = ACCEPT_KEY" "config r1 = config r0"
    "parse_loop u rest0 r0 H0 = parse_loop u rest1 r1 H1"
    unfolding rest0_def
    by (rule parse_loop_pair [OF r0(1) k1 d1, where rest = rest1])
  have c1: "config r1 = Global_test_config" by (simp only: r1(2) c0)
  define H2 where "H2 = upd Global_test_config (\<lambda>c. c\<lparr>date_generated := c_str (substr now 0 (size_minus_1 (str_find now ''\<newline>'')))\<rparr>) H1"
  have d2: "date_generated_consumer u (YAML_SCALAR_EVENT (substr now 0 (size_minus_1 (str_find now ''\<newline>'')))) r' H1 = Inr H2"
    if "config r' = config r1" for r'
    unfolding H2_def by (rule scalars_global) (simp only: that c1)
  have k2: "consumers (c_str ''date_generated'') = Some date_generated_consumer"
    by (simp add: c_str_def consumers_def)
  obtain r2 where r2: "state r2 = ACCEPT_KEY" "config r2 = config r1"
    "parse_loop u rest1 r1 H1 = parse_loop u rest2 r2 H2"
    unfolding rest1_def
    by (rule parse_loop_pair [OF r1(1) k2 d2, where rest = rest2])
  have c2: "config r2 = Global_test_config" by (simp only: r2(2) c1)
  define H3 where "H3 = upd Global_test_config (\<lambda>c. c\<lparr>epsilon := atof (c_str (snprintf_buf (fmt_15g p (epsilon cfg))))\<rparr>) H2"
  have d3: "epsilon_consumer u (YAML_SCALAR_EVENT (snprintf_buf (fmt_15g p (epsilon cfg)))) r' H2 = Inr H3"
    if "config r' = config r2" for r'
    unfolding H3_def by (rule scalars_global) (simp only: that c2)
  have k3: "consumers (c_str ''epsilon'') = Some epsilon_consumer"
    by (simp add: c_str_def consumers_def)
  obtain r3 where r3: "state r3 = ACCEPT_KEY" "config r3 = config r2"
    "parse_loop u rest2 r2 H2 = parse_loop u rest3 r3 H3"
    unfolding rest2_def
    by (rule parse_loop_pair [OF r2(1) k3 d3, where rest = rest3])
  have c3: "config r3 = Global_test_config" by (simp only: r3(2) c2)
  define H4 where "H4 = upd Global_test_config (\<lambda>c. c\<lparr>prerequisites := List.map_filter prerequisite_line (getlines (c_str (concat (map (\<lambda>pr. fst pr @ '' '' @ snd pr @ ''\<newline>'') (prerequisites cfg)))))\<rparr>) H3"
  have d4: "prerequisites_consumer u (YAML_SCALAR_EVENT (concat (map (\<lambda>pr. fst pr @ '' '' @ snd pr @ ''\<newline>'') (prerequisites cfg)))) r' H3 = Inr H4"
    if "config r' = config r3" for r'
    unfolding H4_def by (rule prerequisites_global) (simp only: that c3)
  have k4: "consumers (c_str ''prerequisites'') = Some prerequisites_consumer"
    by (simp add: c_str_def consumers_def)
  obtain r4 where r4: "state r4 = ACCEPT_KEY" "config r4 = config r3"
    "parse_loop u rest3 r3 H3 = parse_loop u rest4 r4 H4"
    unfolding rest3_def
    by (rule parse_loop_pair [OF r3(1) k4 d4, where rest = rest4])
  have c4: "config r4 = Global_test_config" by (simp only: r4(2) c3)
  define H5 where "H5 = upd Global_test_config (\<lambda>c. c\<lparr>pre_commands := getlines (c_str (concat (map (\<lambda>c. c @ ''\<newline>'') (pre_commands cfg))))\<rparr>) H4"
  have d5: "pre_commands_consumer u (YAML_SCALAR_EVENT (concat (map (\<lambda>c. c @ ''\<newline>'') (pre_commands cfg)))) r' H4 = Inr H5"
    if "config r' = config r4" for r'
    unfolding H5_def by (rule pre_commands_global) (simp only: that c4)
  have k5: "consumers (c_str ''pre_commands'') = Some pre_commands_consumer"
    by (simp add: c_str_def consumers_def)
  obtain r5 where r5: "state r5 = ACCEPT_KEY" "config r5 = config r4"
    "parse_loop u rest4 r4 H4 = parse_loop u rest5 r5 H5"
    unfolding rest4_def
    by (rule parse_loop_pair [OF r4(1) k5 d5, where rest = rest5])
  have c5: "config r5 = Global_test_config" by (simp only: r5(2) c4)
  define H6 where "H6 = upd Global_test_config (\<lambda>c. c\<lparr>post_commands := getlines (c_str (concat (map (\<lambda>c. c @ ''\<newline>'') (post_commands cfg))))\<rparr>) H5"
  have d6: "post_commands_consumer u (YAML_SCALAR_EVENT (concat (map (\<lambda>c. c @ ''\<newline>'') (post_commands cfg)))) r' H5 = Inr H6"
    if "config r' = config r5" for r'
    unfolding H6_def by (rule post_commands_global) (simp only: that c5)
  have k6: "consumers (c_str ''post_commands'') = Some post_commands_consumer"
    by (simp add: c_str_def consumers_def)
  obtain r6 where r6: "state r6 = ACCEPT_KEY" "config r6 = config r5"
    "parse_loop u rest5 r5 H5 = parse_loop u rest6 r6 H6"
    unfolding rest5_def
    by (rule parse_loop_pair [OF r5(1) k6 d6, where rest = rest6])
  have c6: "config r6 = Global_test_config" by (simp only: r6(2) c5)
  define H7 where "H7 = upd Global_test_config (\<lambda>c. c\<lparr>input_file := c_str (input_file cfg)\<rparr>) H6"
  have d7: "input_file_consumer u (YAML_SCALAR_EVENT (input_file cfg)) r' H6 = Inr H7"
    if "config r' = config r6" for r'
    unfolding H7_def by (rule scalars_global) (simp only: that c6)
  have k7: "consumers (c_str ''input_file'') = Some input_file_consumer"
    by (simp add: c_str_def consumers_def)
  obtain r7 where r7: "state r7 = ACCEPT_KEY" "config r7 = config r6"
    "parse_loop u rest6 r6 H6 = parse_loop u rest7 r7 H7"
    unfolding rest6_def
    by (rule parse_loop_pair [OF r6(1) k7 d7, where rest = rest7])
  have c7: "config r7 = Global_test_config" by (simp only: r7(2) c6)
  define H8 where "H8 = upd Global_test_config (\<lambda>c. c\<lparr>bond_style := c_str (bond_style cfg)\<rparr>) H7"
  have d8: "bond_style_consumer u (YAML_SCALAR_EVENT (bond_style cfg)) r' H7 = Inr H8"
    if "config r' = config r7" for r'
    unfolding H8_def by (rule scalars_global) (simp only: that c7)
  have k8: "consumers (c_str ''bond_style'') = Some bond_style_consumer"
    by (simp add: c_str_def consumers_def)
  obtain r8 where r8: "state r8 = ACCEPT_KEY" "config r8 = config r7"
    "parse_loop u rest7 r7 H7 = parse_loop u rest8 r8 H8"
    unfolding rest7_def
    by (rule parse_loop_pair [OF r7(1) k8 d8, where rest = rest8])
  have c8: "config r8 = Global_test_config" by (simp only: r8(2) c7)
  define H9 where "H9 = upd Global_test_config (\<lambda>c. c\<lparr>bond_coeff := getlines (c_str (concat (map (\<lambda>c. c @ ''\<newline>'') (bond_coeff cfg))))\<rparr>) H8"
  have d9: "bond_coeff_consumer u (YAML_SCALAR_EVENT (concat (map (\<lambda>c. c @ ''\<newline>'') (bond_coeff cfg)))) r' H8 = Inr H9"
    if "config r' = config r8" for r'
    unfolding H9_def by (rule bond_coeff_global) (simp only: that c8)
  have k9: "consumers (c_str ''bond_coeff'') = Some bond_coeff_consumer"
    by (simp add: c_str_def consumers_def)
  obtain r9 where r9: "state r9 = ACCEPT_KEY" "config r9 = config r8"
    "parse_loop u rest8 r8 H8 = parse_loop u rest9 r9 H9"
    unfolding rest8_def
    by (rule parse_loop_pair [OF r8(1) k9 d9, where rest = rest9])
  have c9: "config r9 = Global_test_config" by (simp only: r9(2) c8)
  define H10 where "H10 = upd Global_test_config (\<lambda>c. c\<lparr>natoms := atoi (c_str (snprintf_buf (fmt_d (atom_natoms lmp))))\<rparr>) H9"
  have d10: "natoms_consumer u (YAML_SCALAR_EVENT (snprintf_buf (fmt_d (atom_natoms lmp)))) r' H9 = Inr H10"
    if "config r' = config r9" for r'
    unfolding H10_def by (rule scalars_global) (simp only: that c9)
  have k10: "consumers (c_str ''natoms'') = Some natoms_consumer"
    by (simp add: c_str_def consumers_def)
  obtain r10 where r10: "state r10 = ACCEPT_KEY" "config r10 = config r9"
    "parse_loop u rest9 r9 H9 = parse_loop u rest10 r10 H10"
    unfolding rest9_def
    by (rule parse_loop_pair [OF r9(1) k10 d10, where rest = rest10])
  have c10: "config r10 = Global_test_config" by (simp only: r10(2) c9)
  define H11 where "H11 = upd Global_test_config (\<lambda>c. c\<lparr>init_energy := atof (c_str (snprintf_buf (fmt_15g p (bond_energy lmp))))\<rparr>) H10"
  have d11: "init_energy_consumer u (YAML_SCALAR_EVENT (snprintf_buf (fmt_15g p (bond_energy lmp)))) r' H10 = Inr H11"
    if "config r' = config r10" for r'
    unfolding H11_def by (rule scalars_global) (simp only: that c10)
  have k11: "consumers (c_str ''init_energy'') = Some init_energy_consumer"
    by (simp add: c_str_def consumers_def)
  obtain r11 where r11: "state r11 = ACCEPT_KEY" "config r11 = config r10"
    "parse_loop u rest10 r10 H10 = parse_loop u rest11 r11 H11"
    unfolding rest10_def
    by (rule parse_loop_pair [OF r10(1) k11 d11, where rest = rest11])
  have c11: "config r11 = Global_test_config" by (simp only: r11(2) c10)
  define H12 where "H12 = upd Global_test_config (\<lambda>c. c\<lparr>init_stress := sscanf_stress (stress_uninit u) (c_str (stress_line p (bond_virial lmp)))\<rparr>) H11"
  have d12: "init_stress_consumer u (YAML_SCALAR_EVENT (stress_line p (bond_virial lmp))) r' H11 = Inr H12"
    if "config r' = config r11" for r'
    unfolding H12_def by (rule scalars_global) (simp only: that c11)
  have k12: "consumers (c_str ''init_stress'') = Some init_stress_consumer"
    by (simp add: c_str_def consumers_def)
  obtain r12 where r12: "state r12 = ACCEPT_KEY" "config r12 = config r11"
    "parse_loop u rest11 r11 H11 = parse_loop u rest12 r12 H12"
    unfolding rest11_def
    by (rule parse_loop_pair [OF r11(1) k12 d12, where rest = rest12])
  have c12: "config r12 = Global_test_config" by (simp only: r12(2) c11)
  have "natoms (H12 Global_test_config) = ?n"
    by (simp add: H10_def H11_def H12_def upd_def nat_back)
  from forces_global(1) [where h = H12 and v = ib and u = u, OF this n rows(1)]
  obtain fi where fi: "store_rows (\<lambda>i. 0) (xyz_uninit u) 0 (getlines (c_str ib))
        (replicate (nat (?n + 1)) coord_zero) = Inr fi"
    "\<And>r. config r = Global_test_config \<Longrightarrow> init_forces_consumer u (YAML_SCALAR_EVENT ib) r H12
       = Inr (upd Global_test_config (\<lambda>c. c\<lparr>init_forces := fi\<rparr>) H12)"
    by blast
  define H13 where "H13 = upd Global_test_config (\<lambda>c. c\<lparr>init_forces := fi\<rparr>) H12"
  have d13: "init_forces_consumer u (YAML_SCALAR_EVENT (ib)) r' H12 = Inr H13"
    if "config r' = config r12" for r'
    unfolding H13_def by (rule fi(2)) (simp only: that c12)
  have k13: "consumers (c_str ''init_forces'') = Some init_forces_consumer"
    by (simp add: c_str_def consumers_def)
  obtain r13 where r13: "state r13 = ACCEPT_KEY" "config r13 = config r12"
    "parse_loop u rest12 r12 H12 = parse_loop u rest13 r13 H13"
    unfolding rest12_def
    by (rule parse_loop_pair [OF r12(1) k13 d13, where rest = rest13])
  have c13: "config r13 = Global_test_config" by (simp only: r13(2) c12)
  define H14 where "H14 = upd Global_test_config (\<lambda>c. c\<lparr>run_energy := atof (c_str (snprintf_buf (fmt_15g p (bond_energy run))))\<rparr>) H13"
  have d14: "run_energy_consumer u (YAML_SCALAR_EVENT (snprintf_buf (fmt_15g p (bond_energy run)))) r' H13 = Inr H14"
    if "config r' = config r13" for r'
    unfolding H14_def by (rule scalars_global) (simp only: that c13)
  have k14: "consumers (c_str ''run_energy'') = Some run_energy_consumer"
    by (simp add: c_str_def consumers_def)
  obtain r14 where r14: "state r14 = ACCEPT_KEY" "config r14 = config r13"
    "parse_loop u rest13 r13 H13 = parse_loop u rest14 r14 H14"
    unfolding rest13_def
    by (rule parse_loop_pair [OF r13(1) k14 d14, where rest = rest14])
  have c14: "config r14 = Global_test_config" by (simp only: r14(2) c13)
  define H15 where "H15 = upd Global_test_config (\<lambda>c. c\<lparr>run_stress := sscanf_stress (stress_uninit u) (c_str (stress_line p (bond_virial run)))\<rparr>) H14"
  have d15: "run_stress_consumer u (YAML_SCALAR_EVENT (stress_line p (bond_virial run))) r' H14 = Inr H15"
    if "config r' = config r14" for r'
    unfolding H15_def by (rule scalars_global) (simp only: that c14)
  have k15: "consumers (c_str ''run_stress'') = Some run_stress_consumer"
    by (simp add: c_str_def consumers_def)
  obtain r15 where r15: "state r15 = ACCEPT_KEY" "config r15 = config r14"
    "parse_loop u rest14 r14 H14 = parse_loop u rest15 r15 H15"
    unfolding rest14_def
    by (rule parse_loop_pair [OF r14(1) k15 d15, where rest = rest15])
  have c15: "config r15 = Global_test_config" by (simp only: r15(2) c14)
  have "natoms (H15 Global_test_config) = ?n"
    by (simp add: H10_def H11_def H12_def H13_def H14_def H15_def upd_def nat_back)
  from forces_global(2) [where h = H15 and v = rb and u = u, OF this n rows(2)]
  obtain fr where fr: "store_rows (tag_uninit u) (xyz_uninit u) 0 (getlines (c_str rb))
        (replicate (nat (?n + 1)) coord_zero) = Inr fr"
    "\<And>r. config r = Global_test_config \<Longrightarrow> run_forces_consumer u (YAML_SCALAR_EVENT rb) r H15
       = Inr (upd Global_test_config (\<lambda>c. c\<lparr>run_forces := fr\<rparr>) H15)"
    by blast
  define H16 where "H16 = upd Global_test_config (\<lambda>c. c\<lparr>run_forces := fr\<rparr>) H15"
  have d16: "run_forces_consumer u (YAML_SCALAR_EVENT (rb)) r' H15 = Inr H16"
    if "config r' = config r15" for r'
    unfolding H16_def by (rule fr(2)) (simp only: that c15)
  have k16: "consumers (c_str ''run_forces'') = Some run_forces_consumer"
    by (simp add: c_str_def consumers_def)
  obtain r16 where r16: "state r16 = ACCEPT_KEY" "config r16 = config r15"
    "parse_loop u rest15 r15 H15 = parse_loop u rest16 r16 H16"
    unfolding rest15_def
    by (rule parse_loop_pair [OF r15(1) k16 d16, where rest = rest16])
  have c16: "config r16 = Global_test_config" by (simp only: r16(2) c15)
  from parse_loop_end [OF r16(1), of u _ H16]
  obtain rf where rf: "parse_loop u rest16 r16 H16 = Inr (rf, H16)"
    unfolding rest16_def by blast
  have loop: "parse_loop u (Some YAML_STREAM_START_EVENT # Some YAML_DOCUMENT_START_EVENT #
        Some YAML_MAPPING_START_EVENT # rest0) ?rd h = Inr (rf, H16)"
    by (simp only: r0(3) r1(3) r2(3) r3(3) r4(3) r5(3) r6(3) r7(3) r8(3) r9(3) r10(3) r11(3) r12(3) r13(3) r14(3) r15(3) r16(3) rf)
  have res: "write_then_read p u cfg (Some lmp) run now h = Inr (Some (0, rf, H16))"
    unfolding write_then_read_def gen
    by (simp only: sum.case option.case evs parse_file_def loop prod.case)
  have pre: "getlines (c_str (concat (map (\<lambda>c. c @ ''\<newline>'') (pre_commands cfg)))) = pre_commands cfg"
    and post: "getlines (c_str (concat (map (\<lambda>c. c @ ''\<newline>'') (post_commands cfg)))) = post_commands cfg"
    and coeff: "getlines (c_str (concat (map (\<lambda>c. c @ ''\<newline>'') (bond_coeff cfg)))) = bond_coeff cfg"
    using cmds by (simp_all add: block_lines)
  have final: "H16 Global_test_config =
      (h Global_test_config)\<lparr>lammps_version := c_str (universe_version lmp),
        date_generated := c_str (substr now 0 (size_minus_1 (str_find now ''\<newline>''))),
        epsilon := atof (c_str (snprintf_buf (fmt_15g p (epsilon cfg)))),
        prerequisites := List.map_filter prerequisite_line (getlines (c_str (concat (map (\<lambda>pr. fst pr @ '' '' @ snd pr @ ''\<newline>'') (prerequisites cfg))))),
        pre_commands := getlines (c_str (concat (map (\<lambda>c. c @ ''\<newline>'') (pre_commands cfg)))),
        post_commands := getlines (c_str (concat (map (\<lambda>c. c @ ''\<newline>'') (post_commands cfg)))),
        input_file := c_str (input_file cfg),
        bond_style := c_str (bond_style cfg),
        bond_coeff := getlines (c_str (concat (map (\<lambda>c. c @ ''\<newline>'') (bond_coeff cfg)))),
        natoms := atoi (c_str (snprintf_buf (fmt_d (atom_natoms lmp)))),
        init_energy := atof (c_str (snprintf_buf (fmt_15g p (bond_energy lmp)))),
        init_stress := sscanf_stress (stress_uninit u) (c_str (stress_line p (bond_virial lmp))),
        init_forces := fi,
        run_energy := atof (c_str (snprintf_buf (fmt_15g p (bond_energy run)))),
        run_stress := sscanf_stress (stress_uninit u) (c_str (stress_line p (bond_virial run))),
        run_forces := fr\<rparr>"
    by (simp add: H0_def H1_def H2_def H3_def H4_def H5_def H6_def H7_def H8_def H9_def H10_def H11_def H12_def H13_def H14_def H15_def H16_def upd_def)
  have nice: "H16 Global_test_config =
      (h Global_test_config)\<lparr>lammps_version := c_str (universe_version lmp),
        date_generated := c_str (substr now 0 (size_minus_1 (str_find now ''\<newline>''))),
        epsilon := atof (c_str (snprintf_buf (fmt_15g p (epsilon cfg)))),
        prerequisites := prerequisites cfg,
        pre_commands := pre_commands cfg,
        post_commands := post_commands cfg,
        input_file := input_file cfg,
        bond_style := bond_style cfg,
        bond_coeff := bond_coeff cfg,
        natoms := atom_natoms lmp,
        init_energy := atof (c_str (snprintf_buf (fmt_15g p (bond_energy lmp)))),
        init_stress := sscanf_stress (stress_uninit u) (c_str (stress_line p (bond_virial lmp))),
        init_forces := fi,
        run_energy := atof (c_str (snprintf_buf (fmt_15g p (bond_energy run)))),
        run_stress := sscanf_stress (stress_uninit u) (c_str (stress_line p (bond_virial run))),
        run_forces := fr\<rparr>"
    unfolding final using names
    by (simp add: c_str_id prerequisites_block [OF prs, simplified] pre [simplified]
        post [simplified] coeff [simplified] nat_back)
  show ?thesis
    using res nice fi(1) fr(1) unfolding ib(2) rb(2) by blast
qed

lemma c_str_substr_prefix: "\<exists>rest. s = c_str (substr s 0 k) @ rest"
proof -
  let ?t = "substr s 0 k"
  have "\<exists>d. s = ?t @ d"
  proof (cases k)
    case None
    then show ?thesis by (simp add: substr_def)
  next
    case (Some n)
    have "s = take n s @ drop n s" by simp
    then show ?thesis unfolding Some substr_def by (simp only: option.case drop_0) (rule exI)
  qed
  then obtain d where d: "s = ?t @ d" ..
  have "?t = c_str ?t @ dropWhile (\<lambda>c. c \<noteq> CHR 0x00) ?t"
    by (simp add: c_str_def)
  then have "s = c_str ?t @ (dropWhile (\<lambda>c. c \<noteq> CHR 0x00) ?t @ d)"
    using d by (metis append_assoc)
  then show ?thesis ..
qed

text \<open>The texts of the stand-in, read back.\<close>

lemma reads_zero_e: "reads_as '' 0.0000000000000000e+00'' 0"
  unfolding reads_as_def
proof (intro allI impI)
  fix strict rest
  assume "rest = [] \<or> hd rest = CHR '' ''"
  then consider "rest = []" | r where "rest = CHR '' '' # r" by (cases rest) auto
  then show "scan_double strict ('' 0.0000000000000000e+00'' @ rest) = Some (0, rest)"
    by cases (cases strict; simp add: scan_double_defs)+
qed

lemma reads_one_e: "reads_as '' 1.0000000000000000e+00'' 1"
  unfolding reads_as_def
proof (intro allI impI)
  fix strict rest
  assume "rest = [] \<or> hd rest = CHR '' ''"
  then consider "rest = []" | r where "rest = CHR '' '' # r" by (cases rest) auto
  then show "scan_double strict ('' 1.0000000000000000e+00'' @ rest) = Some (1, rest)"
    by cases (cases strict; simp add: scan_double_defs)+
qed

lemma reads_zero_g: "reads_as ''0'' 0"
  unfolding reads_as_def
proof (intro allI impI)
  fix strict rest
  assume "rest = [] \<or> hd rest = CHR '' ''"
  then consider "rest = []" | r where "rest = CHR '' '' # r" by (cases rest) auto
  then show "scan_double strict (''0'' @ rest) = Some (0, rest)"
    by cases (cases strict; simp add: scan_double_defs)+
qed

lemma reads_epsilon_g: "reads_as ''1e-14'' (1 / 10 ^ 14)"
  unfolding reads_as_def
proof (intro allI impI)
  fix strict rest
  assume "rest = [] \<or> hd rest = CHR '' ''"
  then consider "rest = []" | r where "rest = CHR '' '' # r" by (cases rest) auto
  then show "scan_double strict (''1e-14'' @ rest) = Some (1 / 10 ^ 14, rest)"
    by cases (cases strict; simp add: scan_double_defs)+
qed

lemma sample_renders:
  "renders 0 (fmt_23_16e sample_printf 0) 0"
  "renders 0 (fmt_23_16e sample_printf 1) 1"
  "renders 0 (fmt_15g sample_printf 0) 0"
  "renders 0 (fmt_15g sample_printf (1 / 10 ^ 14)) (1 / 10 ^ 14)"
  using reads_zero_e reads_one_e reads_zero_g reads_epsilon_g
  by (auto simp: renders_def sample_printf_def close_to_def)

lemma sample_forces:
  "\<forall>j<nat (atom_natoms one_atom_engine).
      renders_coord sample_printf 0 (atom_f one_atom_engine ! j) \<and>
      renders_coord sample_printf 0 (atom_f one_atom_engine ! j)"
  "\<forall>j<nat (atom_natoms strained_engine).
      renders_coord sample_printf 0 (atom_f strained_engine ! j) \<and>
      renders_coord sample_printf 0 (atom_f strained_engine ! j)"
  using sample_renders(1,2)
  by (simp_all add: one_atom_engine_def strained_engine_def renders_coord_def)

lemma sample_hypotheses:
  "\<forall>s\<in>set (pre_commands one_atom_fixture @ post_commands one_atom_fixture
              @ bond_coeff one_atom_fixture). CHR 0x00 \<notin> set s \<and> CHR 0x0A \<notin> set s"
  "CHR 0x00 \<notin> set (input_file one_atom_fixture)"
  "CHR 0x00 \<notin> set (bond_style one_atom_fixture)"
  "\<forall>pr\<in>set (prerequisites one_atom_fixture).
      (\<forall>c\<in>set [CHR 0x00, CHR 0x0A, CHR '' '', CHR 0x09].
          c \<notin> set (fst pr) \<and> c \<notin> set (snd pr)) \<and> snd pr \<noteq> []"
  "0 \<le> atom_natoms one_atom_engine" "atom_natoms one_atom_engine < 2147483647"
  "nat (atom_natoms one_atom_engine) \<le> length (atom_tag one_atom_engine)"
  "nat (atom_natoms one_atom_engine) \<le> length (atom_f one_atom_engine)"
  "\<forall>j<nat (atom_natoms one_atom_engine).
      0 \<le> atom_tag one_atom_engine ! j \<and> atom_tag one_atom_engine ! j \<le> atom_natoms one_atom_engine \<and>
      0 \<le> atom_tag one_atom_engine ! j \<and> atom_tag one_atom_engine ! j \<le> atom_natoms one_atom_engine"
  by (simp_all add: one_atom_fixture_def TestConfig_ctor_def one_atom_engine_def)

lemma stale_hypotheses:
  "\<forall>s\<in>set (pre_commands stale_fixture @ post_commands stale_fixture
              @ bond_coeff stale_fixture). CHR 0x00 \<notin> set s \<and> CHR 0x0A \<notin> set s"
  "CHR 0x00 \<notin> set (input_file stale_fixture)"
  "CHR 0x00 \<notin> set (bond_style stale_fixture)"
  "\<forall>pr\<in>set (prerequisites stale_fixture).
      (\<forall>c\<in>set [CHR 0x00, CHR 0x0A, CHR '' '', CHR 0x09].
          c \<notin> set (fst pr) \<and> c \<notin> set (snd pr)) \<and> snd pr \<noteq> []"
  "0 \<le> atom_natoms strained_engine" "atom_natoms strained_engine < 2147483647"
  "nat (atom_natoms strained_engine) \<le> length (atom_tag strained_engine)"
  "nat (atom_natoms strained_engine) \<le> length (atom_f strained_engine)"
  "\<forall>j<nat (atom_natoms strained_engine).
      0 \<le> atom_tag strained_engine ! j \<and> atom_tag strained_engine ! j \<le> atom_natoms strained_engine \<and>
      0 \<le> atom_tag strained_engine ! j \<and> atom_tag strained_engine ! j \<le> atom_natoms strained_engine"
  by (simp_all add: stale_fixture_def TestConfig_ctor_def strained_engine_def one_atom_engine_def)

lemma stale_read_back:
  "c_str (universe_version strained_engine) = ''7 Aug 2019''"
  "c_str (substr sample_now 0 (size_minus_1 (str_find sample_now ''\<newline>'')))
     \<noteq> ''Wed Jun  5 12:00:00 2019''"
  "atof (c_str (snprintf_buf (fmt_15g sample_printf (epsilon stale_fixture)))) = 11 / 10 ^ 17"
  "atof (c_str (snprintf_buf (fmt_15g sample_printf (bond_energy strained_engine)))) = 3 / 10"
proof -
  show "c_str (universe_version strained_engine) = ''7 Aug 2019''"
    by (simp add: strained_engine_def one_atom_engine_def c_str_def)
  show "c_str (substr sample_now 0 (size_minus_1 (str_find sample_now ''\<newline>'')))
     \<noteq> ''Wed Jun  5 12:00:00 2019''"
    by (simp add: sample_now_def str_find_def substr_def c_str_def)
  show "atof (c_str (snprintf_buf (fmt_15g sample_printf (epsilon stale_fixture)))) = 11 / 10 ^ 17"
    by (simp add: sample_printf_def stale_fixture_def TestConfig_ctor_def snprintf_buf_def
        c_str_def atof_def scan_double_defs)
  show "atof (c_str (snprintf_buf (fmt_15g sample_printf (bond_energy strained_engine)))) = 3 / 10"
    by (simp add: sample_printf_def strained_engine_def one_atom_engine_def snprintf_buf_def
        c_str_def atof_def scan_double_defs)
qed

text \<open>
  C3, as stated, fails. The writer does not write the configuration's version, date,
  atom count, energies, stresses and forces: it writes the engine's version and atom
  count, the time of writing and the values that the engine has just computed. A
  fixture recorded on 5 June with version \<open>5 Jun 2019\<close>, two atoms and energy 5, written
  again on 7 August with the engine of \<open>7 Aug 2019\<close> that holds one atom with energy
  \<open>0.30000000000000004\<close>, is read back with the engine's version, another date, one atom,
  force arrays of two entries instead of three, and the energy 0.3. The numbers
  themselves are written with 15 significant digits: the tolerance
  \<open>1.1000000000000001e-16\<close> of the fixture is read back as \<open>1.1e-16\<close>, not exactly; and
  the energy read back, 0.3, is not within that tolerance of the fixture's energy 5,
  nor of the engine's energy, by the relative error of the harness's own comparison.
\<close>

theorem C3_engine_values_counterexample:
  "(case write_then_read sample_printf leftover stale_fixture (Some strained_engine)
           strained_engine sample_now fresh_heap of
      Inl e \<Rightarrow> False
    | Inr None \<Rightarrow> False
    | Inr (Some (rc, r', h')) \<Rightarrow>
        lammps_version stale_fixture = ''5 Jun 2019'' \<and>
        lammps_version (h' Global_test_config) = ''7 Aug 2019'' \<and>
        date_generated (h' Global_test_config) \<noteq> date_generated stale_fixture \<and>
        natoms stale_fixture = 2 \<and> natoms (h' Global_test_config) = 1 \<and>
        length (init_forces stale_fixture) = 3 \<and>
        length (init_forces (h' Global_test_config)) = 2 \<and>
        epsilon stale_fixture = 11000000000000001 / 10 ^ 32 \<and>
        epsilon (h' Global_test_config) = 11 / 10 ^ 17 \<and>
        init_energy stale_fixture = 5 \<and>
        bond_energy strained_engine = 30000000000000004 / 10 ^ 17 \<and>
        init_energy (h' Global_test_config) = 3 / 10 \<and>
        epsilon stale_fixture
          < rel_err (fst (EXPECT_FP_LE_WITH_EPS (init_energy (h' Global_test_config))
                            (init_energy stale_fixture) (epsilon stale_fixture) reset)) \<and>
        epsilon stale_fixture
          < rel_err (fst (EXPECT_FP_LE_WITH_EPS (init_energy (h' Global_test_config))
                            (bond_energy strained_engine) (epsilon stale_fixture) reset)))"
proof -
  from written_fixture_read_back [OF sample_forces(2) stale_hypotheses(1-8)
      stale_hypotheses(7,8) stale_hypotheses(9), of leftover sample_now fresh_heap]
  obtain r' h' fi fr where wr:
    "write_then_read sample_printf leftover stale_fixture (Some strained_engine)
       strained_engine sample_now fresh_heap = Inr (Some (0, r', h'))"
    and hg: "h' Global_test_config =
      (fresh_heap Global_test_config)\<lparr>lammps_version := c_str (universe_version strained_engine),
        date_generated := c_str (substr sample_now 0 (size_minus_1 (str_find sample_now ''\<newline>''))),
        epsilon := atof (c_str (snprintf_buf (fmt_15g sample_printf (epsilon stale_fixture)))),
        prerequisites := prerequisites stale_fixture,
        pre_commands := pre_commands stale_fixture,
        post_commands := post_commands stale_fixture,
        input_file := input_file stale_fixture,
        bond_style := bond_style stale_fixture,
        bond_coeff := bond_coeff stale_fixture,
        natoms := atom_natoms strained_engine,
        init_energy := atof (c_str (snprintf_buf (fmt_15g sample_printf (bond_energy strained_engine)))),
        init_stress := sscanf_stress (stress_uninit leftover)
                         (c_str (stress_line sample_printf (bond_virial strained_engine))),
        init_forces := fi,
        run_energy := atof (c_str (snprintf_buf (fmt_15g sample_printf (bond_energy strained_engine)))),
        run_stress := sscanf_stress (stress_uninit leftover)
                        (c_str (stress_line sample_printf (bond_virial strained_engine))),
        run_forces := fr\<rparr>"
    and fi: "store_rows (\<lambda>i. 0) (xyz_uninit leftover) 0
        (map (\<lambda>j. force_line sample_printf (atom_tag strained_engine ! j)
                    (atom_f strained_engine ! j)) [0..<nat (atom_natoms strained_engine)])
        (replicate (nat (atom_natoms strained_engine + 1)) coord_zero) = Inr fi"
    by blast
  have len: "length fi = 2"
    using store_rows_length [OF fi] by (simp add: strained_engine_def one_atom_engine_def)
  have got: "lammps_version (h' Global_test_config) = ''7 Aug 2019''"
    "date_generated (h' Global_test_config) \<noteq> date_generated stale_fixture"
    "natoms (h' Global_test_config) = 1"
    "length (init_forces (h' Global_test_config)) = 2"
    "epsilon (h' Global_test_config) = 11 / 10 ^ 17"
    "init_energy (h' Global_test_config) = 3 / 10"
    unfolding hg using stale_read_back len
    by (simp_all add: stale_fixture_def strained_engine_def one_atom_engine_def)
  have old: "lammps_version stale_fixture = ''5 Jun 2019''" "natoms stale_fixture = 2"
    "length (init_forces stale_fixture) = 3"
    "epsilon stale_fixture = 11000000000000001 / 10 ^ 32" "init_energy stale_fixture = 5"
    "bond_energy strained_engine = 30000000000000004 / 10 ^ 17"
    by (simp_all add: stale_fixture_def strained_engine_def TestConfig_ctor_def)
  have far: "epsilon stale_fixture
      < rel_err (fst (EXPECT_FP_LE_WITH_EPS (init_energy (h' Global_test_config))
                        (init_energy stale_fixture) (epsilon stale_fixture) reset))"
    "epsilon stale_fixture
      < rel_err (fst (EXPECT_FP_LE_WITH_EPS (init_energy (h' Global_test_config))
                        (bond_energy strained_engine) (epsilon stale_fixture) reset))"
    unfolding got(6) old(4,5,6)
    by (simp_all add: EXPECT_FP_LE_WITH_EPS_def std_min_def Let_def)
  show ?thesis
    unfolding wr using got old far by simp
qed

text \<open>
  C3, amended. Let the configuration's commands and coefficient lines be free of
  newline and NUL, its input file and style names and the engine's version free of NUL,
  and its prerequisite pairs free of blank, tab, newline and NUL with a non-empty style
  name; let the engine hold at least \<open>natoms\<close> tags and forces, \<open>0 \<le> natoms < 2^31 - 1\<close>,
  with tags between 0 and \<open>natoms\<close>, no tag twice; and let \<^verbatim>\<open>snprintf\<close> render the numbers
  that are written, \<^verbatim>\<open>%.15g\<close> within \<open>\<delta>\<close> (the tolerance and the two energies) and
  \<^verbatim>\<open>% 23.16e\<close> within \<open>\<delta>'\<close> (the stresses and the forces of the first \<open>natoms\<close> atoms);
  for the 15 and 17 significant digits of \<^verbatim>\<open>snprintf\<close> these are \<open>5e-15\<close> and \<open>5e-17\<close>, and
  0 for a number of fewer digits. Then writing and reading back succeeds with return
  value 0 and
  \<^item> reproduces exactly \<open>input_file\<close>, \<open>bond_style\<close>, \<open>prerequisites\<close>, \<open>pre_commands\<close>,
    \<open>post_commands\<close> and \<open>bond_coeff\<close>;
  \<^item> gives the engine's version and atom count, and a date that is an initial part of
    the text of the clock;
  \<^item> gives a tolerance close to the configuration's within \<open>\<delta>\<close>;
  \<^item> gives energies close to the engine's within \<open>\<delta>\<close>, stresses close to the engine's
    within \<open>\<delta>'\<close>, and force arrays of \<open>natoms + 1\<close> entries whose entry at the index of
    each atom's tag is close to that atom's force within \<open>\<delta>'\<close>;
  \<^item> and, when the configuration's tolerance is at least \<open>2\<delta>\<close> and \<open>2\<delta>'\<close> (with \<open>\<delta>\<close> and
    \<open>\<delta>'\<close> between 0 and 1/2), every energy, stress and force read back passes the
    comparison of the harness against the engine's value at that tolerance.
\<close>

theorem C3_written_fixture_read_back:
  assumes cmds: "\<forall>s\<in>set (pre_commands cfg @ post_commands cfg @ bond_coeff cfg).
                 CHR 0x00 \<notin> set s \<and> CHR 0x0A \<notin> set s"
    and names: "CHR 0x00 \<notin> set (input_file cfg)" "CHR 0x00 \<notin> set (bond_style cfg)"
    and version: "CHR 0x00 \<notin> set (universe_version lmp)"
    and prs: "\<forall>pr\<in>set (prerequisites cfg).
                (\<forall>c\<in>set [CHR 0x00, CHR 0x0A, CHR '' '', CHR 0x09].
                    c \<notin> set (fst pr) \<and> c \<notin> set (snd pr)) \<and> snd pr \<noteq> []"
    and n: "0 \<le> atom_natoms lmp" "atom_natoms lmp < 2147483647"
    and arrays: "nat (atom_natoms lmp) \<le> length (atom_tag lmp)"
      "nat (atom_natoms lmp) \<le> length (atom_f lmp)"
      "nat (atom_natoms lmp) \<le> length (atom_tag run)"
      "nat (atom_natoms lmp) \<le> length (atom_f run)"
    and tags: "\<forall>j<nat (atom_natoms lmp).
                 0 \<le> atom_tag lmp ! j \<and> atom_tag lmp ! j \<le> atom_natoms lmp \<and>
                 0 \<le> atom_tag run ! j \<and> atom_tag run ! j \<le> atom_natoms lmp"
    and dist: "distinct (take (nat (atom_natoms lmp)) (atom_tag lmp))"
      "distinct (take (nat (atom_natoms lmp)) (atom_tag run))"
    and g: "renders \<delta> (fmt_15g p (epsilon cfg)) (epsilon cfg)"
      "renders \<delta> (fmt_15g p (bond_energy lmp)) (bond_energy lmp)"
      "renders \<delta> (fmt_15g p (bond_energy run)) (bond_energy run)"
    and st: "renders_stress p \<delta>' (bond_virial lmp)" "renders_stress p \<delta>' (bond_virial run)"
    and rf: "\<forall>j<nat (atom_natoms lmp).
               renders_coord p \<delta>' (atom_f lmp ! j) \<and> renders_coord p \<delta>' (atom_f run ! j)"
  shows "\<exists>r' h'. write_then_read p u cfg (Some lmp) run now h = Inr (Some (0, r', h')) \<and>
           input_file (h' Global_test_config) = input_file cfg \<and>
           bond_style (h' Global_test_config) = bond_style cfg \<and>
           prerequisites (h' Global_test_config) = prerequisites cfg \<and>
           pre_commands (h' Global_test_config) = pre_commands cfg \<and>
           post_commands (h' Global_test_config) = post_commands cfg \<and>
           bond_coeff (h' Global_test_config) = bond_coeff cfg \<and>
           lammps_version (h' Global_test_config) = universe_version lmp \<and>
           natoms (h' Global_test_config) = atom_natoms lmp \<and>
           (\<exists>rest. now = date_generated (h' Global_test_config) @ rest) \<and>
           close_to \<delta> (epsilon (h' Global_test_config)) (epsilon cfg) \<and>
           close_to \<delta> (init_energy (h' Global_test_config)) (bond_energy lmp) \<and>
           close_to \<delta> (run_energy (h' Global_test_config)) (bond_energy run) \<and>
           stress_close \<delta>' (init_stress (h' Global_test_config)) (bond_virial lmp) \<and>
           stress_close \<delta>' (run_stress (h' Global_test_config)) (bond_virial run) \<and>
           length (init_forces (h' Global_test_config)) = nat (atom_natoms lmp + 1) \<and>
           length (run_forces (h' Global_test_config)) = nat (atom_natoms lmp + 1) \<and>
           (\<forall>j<nat (atom_natoms lmp).
              coord_close \<delta>'
                (init_forces (h' Global_test_config) ! nat (atom_tag lmp ! j)) (atom_f lmp ! j) \<and>
              coord_close \<delta>'
                (run_forces (h' Global_test_config) ! nat (atom_tag run ! j)) (atom_f run ! j)) \<and>
           (0 \<le> \<delta> \<and> \<delta> \<le> 1 / 2 \<and> 2 * \<delta> \<le> epsilon cfg \<and>
            0 \<le> \<delta>' \<and> \<delta>' \<le> 1 / 2 \<and> 2 * \<delta>' \<le> epsilon cfg \<longrightarrow>
              passed (fst (EXPECT_FP_LE_WITH_EPS (bond_energy lmp)
                             (init_energy (h' Global_test_config)) (epsilon cfg) reset)) \<and>
              passed (fst (EXPECT_FP_LE_WITH_EPS (bond_energy run)
                             (run_energy (h' Global_test_config)) (epsilon cfg) reset)) \<and>
              list_all passed (fst (compare_stress (epsilon cfg) (bond_virial lmp)
                                      (init_stress (h' Global_test_config)) reset)) \<and>
              list_all passed (fst (compare_stress (epsilon cfg) (bond_virial run)
                                      (run_stress (h' Global_test_config)) reset)) \<and>
              (\<exists>cs s. compare_forces (epsilon cfg) (atom_f lmp) (atom_tag lmp)
                         (init_forces (h' Global_test_config)) 0 (nat (atom_natoms lmp)) reset
                       = Inr (cs, s) \<and> list_all passed cs) \<and>
              (\<exists>cs s. compare_forces (epsilon cfg) (atom_f run) (atom_tag run)
                         (run_forces (h' Global_test_config)) 0 (nat (atom_natoms lmp)) reset
                       = Inr (cs, s) \<and> list_all passed cs))"
proof -
  let ?n = "atom_natoms lmp"
  from written_fixture_read_back [OF rf cmds names prs n arrays tags, of u now h]
  obtain r' h' fi fr where wr:
    "write_then_read p u cfg (Some lmp) run now h = Inr (Some (0, r', h'))"
    and hg: "h' Global_test_config =
      (h Global_test_config)\<lparr>lammps_version := c_str (universe_version lmp),
        date_generated := c_str (substr now 0 (size_minus_1 (str_find now ''\<newline>''))),
        epsilon := atof (c_str (snprintf_buf (fmt_15g p (epsilon cfg)))),
        prerequisites := prerequisites cfg,
        pre_commands := pre_commands cfg,
        post_commands := post_commands cfg,
        input_file := input_file cfg,
        bond_style := bond_style cfg,
        bond_coeff := bond_coeff cfg,
        natoms := atom_natoms lmp,
        init_energy := atof (c_str (snprintf_buf (fmt_15g p (bond_energy lmp)))),
        init_stress := sscanf_stress (stress_uninit u) (c_str (stress_line p (bond_virial lmp))),
        init_forces := fi,
        run_energy := atof (c_str (snprintf_buf (fmt_15g p (bond_energy run)))),
        run_stress := sscanf_stress (stress_uninit u) (c_str (stress_line p (bond_virial run))),
        run_forces := fr\<rparr>"
    and fi: "store_rows (\<lambda>i. 0) (xyz_uninit u) 0
        (map (\<lambda>j. force_line p (atom_tag lmp ! j) (atom_f lmp ! j)) [0..<nat ?n])
        (replicate (nat (?n + 1)) coord_zero) = Inr fi"
    and fr: "store_rows (tag_uninit u) (xyz_uninit u) 0
        (map (\<lambda>j. force_line p (atom_tag run ! j) (atom_f run ! j)) [0..<nat ?n])
        (replicate (nat (?n + 1)) coord_zero) = Inr fr"
    by blast
  have exact: "input_file (h' Global_test_config) = input_file cfg"
    "bond_style (h' Global_test_config) = bond_style cfg"
    "prerequisites (h' Global_test_config) = prerequisites cfg"
    "pre_commands (h' Global_test_config) = pre_commands cfg"
    "post_commands (h' Global_test_config) = post_commands cfg"
    "bond_coeff (h' Global_test_config) = bond_coeff cfg"
    "lammps_version (h' Global_test_config) = universe_version lmp"
    "natoms (h' Global_test_config) = atom_natoms lmp"
    unfolding hg using version by (simp_all add: c_str_id)
  have date: "\<exists>rest. now = date_generated (h' Global_test_config) @ rest"
    unfolding hg using c_str_substr_prefix [of now] by simp
  have numbers: "close_to \<delta> (epsilon (h' Global_test_config)) (epsilon cfg)"
    "close_to \<delta> (init_energy (h' Global_test_config)) (bond_energy lmp)"
    "close_to \<delta> (run_energy (h' Global_test_config)) (bond_energy run)"
    "stress_close \<delta>' (init_stress (h' Global_test_config)) (bond_virial lmp)"
    "stress_close \<delta>' (run_stress (h' Global_test_config)) (bond_virial run)"
    unfolding hg
    using atof_rendered [OF g(1)] atof_rendered [OF g(2)] atof_rendered [OF g(3)]
      stress_rendered [OF st(1)] stress_rendered [OF st(2)]
    by simp_all
  have len: "length (init_forces (h' Global_test_config)) = nat (?n + 1)"
    "length (run_forces (h' Global_test_config)) = nat (?n + 1)"
    unfolding hg using store_rows_length [OF fi] store_rows_length [OF fr] by simp_all
  have tr: "\<forall>j<nat ?n. 0 \<le> atom_tag lmp ! j \<and> atom_tag lmp ! j < 2147483648"
    "\<forall>j<nat ?n. 0 \<le> atom_tag run ! j \<and> atom_tag run ! j < 2147483648"
    using tags n(2) by force+
  have rf1: "\<forall>j<nat ?n. renders_coord p \<delta>' (atom_f lmp ! j)"
    and rf2: "\<forall>j<nat ?n. renders_coord p \<delta>' (atom_f run ! j)"
    using rf by simp_all
  have forces: "coord_close \<delta>'
        (init_forces (h' Global_test_config) ! nat (atom_tag lmp ! j)) (atom_f lmp ! j) \<and>
      coord_close \<delta>'
        (run_forces (h' Global_test_config) ! nat (atom_tag run ! j)) (atom_f run ! j)"
    if "j < nat ?n" for j
    unfolding hg
    using forces_rendered [OF fi tr(1) dist(1) arrays(1) rf1 that]
      forces_rendered [OF fr tr(2) dist(2) arrays(3) rf2 that]
    by simp
  have passes: "passed (fst (EXPECT_FP_LE_WITH_EPS (bond_energy lmp)
                       (init_energy (h' Global_test_config)) (epsilon cfg) reset)) \<and>
      passed (fst (EXPECT_FP_LE_WITH_EPS (bond_energy run)
                     (run_energy (h' Global_test_config)) (epsilon cfg) reset)) \<and>
      list_all passed (fst (compare_stress (epsilon cfg) (bond_virial lmp)
                              (init_stress (h' Global_test_config)) reset)) \<and>
      list_all passed (fst (compare_stress (epsilon cfg) (bond_virial run)
                              (run_stress (h' Global_test_config)) reset)) \<and>
      (\<exists>cs s. compare_forces (epsilon cfg) (atom_f lmp) (atom_tag lmp)
                 (init_forces (h' Global_test_config)) 0 (nat ?n) reset
               = Inr (cs, s) \<and> list_all passed cs) \<and>
      (\<exists>cs s. compare_forces (epsilon cfg) (atom_f run) (atom_tag run)
                 (run_forces (h' Global_test_config)) 0 (nat ?n) reset
               = Inr (cs, s) \<and> list_all passed cs)"
    if d: "0 \<le> \<delta>" "\<delta> \<le> 1 / 2" "2 * \<delta> \<le> epsilon cfg"
      and d': "0 \<le> \<delta>'" "\<delta>' \<le> 1 / 2" "2 * \<delta>' \<le> epsilon cfg"
  proof -
    have 1: "\<forall>j. 0 \<le> j \<and> j < 0 + nat ?n \<longrightarrow>
          j < length (atom_f lmp) \<and> j < length (atom_tag lmp) \<and> 0 \<le> atom_tag lmp ! j \<and>
          nat (atom_tag lmp ! j) < length (init_forces (h' Global_test_config)) \<and>
          coord_close \<delta>' (init_forces (h' Global_test_config) ! nat (atom_tag lmp ! j))
            (atom_f lmp ! j)"
      using arrays(1,2) tags forces len(1) n(1) by auto
    have 2: "\<forall>j. 0 \<le> j \<and> j < 0 + nat ?n \<longrightarrow>
          j < length (atom_f run) \<and> j < length (atom_tag run) \<and> 0 \<le> atom_tag run ! j \<and>
          nat (atom_tag run ! j) < length (run_forces (h' Global_test_config)) \<and>
          coord_close \<delta>' (run_forces (h' Global_test_config) ! nat (atom_tag run ! j))
            (atom_f run ! j)"
      using arrays(3,4) tags forces len(2) n(1) by auto
    show ?thesis
      using close_passes [OF numbers(2) d] close_passes [OF numbers(3) d]
        compare_stress_passes [OF numbers(4) d'] compare_stress_passes [OF numbers(5) d']
        compare_forces_passes [OF 1 d'] compare_forces_passes [OF 2 d']
      by blast
  qed
  show ?thesis
    using wr exact date numbers len forces passes by blast
qed

text \<open>
  The one-atom fixture written with the one-atom engine and read back into a fresh
  store. The stand-in prints the numbers of these two without loss, so they are read
  back as they were.
\<close>

theorem C3_written_fixture_read_back_witness:
  "\<exists>r' h'. write_then_read sample_printf leftover one_atom_fixture (Some one_atom_engine)
             one_atom_engine sample_now fresh_heap = Inr (Some (0, r', h')) \<and>
           input_file (h' Global_test_config) = ''in.fourmol'' \<and>
           bond_style (h' Global_test_config) = ''harmonic'' \<and>
           prerequisites (h' Global_test_config) = [(''atom'', ''full''), (''bond'', ''harmonic'')] \<and>
           pre_commands (h' Global_test_config) = [''units real''] \<and>
           post_commands (h' Global_test_config) = [''special_bonds lj 0 1 1''] \<and>
           bond_coeff (h' Global_test_config) = [''1 250.0 1.5''] \<and>
           lammps_version (h' Global_test_config) = ''7 Aug 2019'' \<and>
           natoms (h' Global_test_config) = 1 \<and>
           epsilon (h' Global_test_config) = 1 / 10 ^ 14 \<and>
           init_energy (h' Global_test_config) = 0 \<and>
           run_energy (h' Global_test_config) = 0 \<and>
           stress_close 0 (init_stress (h' Global_test_config))
             \<lparr>xx = 0, yy = 0, zz = 0, xy = 0, xz = 0, yz = 0\<rparr> \<and>
           stress_close 0 (run_stress (h' Global_test_config))
             \<lparr>xx = 0, yy = 0, zz = 0, xy = 0, xz = 0, yz = 0\<rparr> \<and>
           length (init_forces (h' Global_test_config)) = 2 \<and>
           length (run_forces (h' Global_test_config)) = 2 \<and>
           coord_close 0 (init_forces (h' Global_test_config) ! 1)
             \<lparr>x_coord = 1, y_coord = 0, z_coord = 0\<rparr> \<and>
           coord_close 0 (run_forces (h' Global_test_config) ! 1)
             \<lparr>x_coord = 1, y_coord = 0, z_coord = 0\<rparr> \<and>
           passed (fst (EXPECT_FP_LE_WITH_EPS 0 (init_energy (h' Global_test_config))
                          (1 / 10 ^ 14) reset)) \<and>
           list_all passed (fst (compare_stress (1 / 10 ^ 14)
                                   \<lparr>xx = 0, yy = 0, zz = 0, xy = 0, xz = 0, yz = 0\<rparr>
                                   (init_stress (h' Global_test_config)) reset)) \<and>
           (\<exists>cs s. compare_forces (1 / 10 ^ 14) [\<lparr>x_coord = 1, y_coord = 0, z_coord = 0\<rparr>] [1]
                      (init_forces (h' Global_test_config)) 0 1 reset
                    = Inr (cs, s) \<and> list_all passed cs)"
proof -
  have version: "CHR 0x00 \<notin> set (universe_version one_atom_engine)"
    and dist: "distinct (take (nat (atom_natoms one_atom_engine)) (atom_tag one_atom_engine))"
    by (simp_all add: one_atom_engine_def)
  have g: "renders 0 (fmt_15g sample_printf (epsilon one_atom_fixture)) (epsilon one_atom_fixture)"
    "renders 0 (fmt_15g sample_printf (bond_energy one_atom_engine)) (bond_energy one_atom_engine)"
    using sample_renders(3,4)
    by (simp_all add: one_atom_fixture_def TestConfig_ctor_def one_atom_engine_def)
  have st: "renders_stress sample_printf 0 (bond_virial one_atom_engine)"
    using sample_renders(1) by (simp add: renders_stress_def one_atom_engine_def)
  from C3_written_fixture_read_back [OF sample_hypotheses(1-3) version sample_hypotheses(4-8)
      sample_hypotheses(7,8) sample_hypotheses(9) dist dist g(1) g(2) g(2) st st sample_forces(1),
      of leftover sample_now fresh_heap]
  obtain r' h' where h':
    "write_then_read sample_printf leftover one_atom_fixture (Some one_atom_engine)
       one_atom_engine sample_now fresh_heap = Inr (Some (0, r', h'))"
    "input_file (h' Global_test_config) = input_file one_atom_fixture"
    "bond_style (h' Global_test_config) = bond_style one_atom_fixture"
    "prerequisites (h' Global_test_config) = prerequisites one_atom_fixture"
    "pre_commands (h' Global_test_config) = pre_commands one_atom_fixture"
    "post_commands (h' Global_test_config) = post_commands one_atom_fixture"
    "bond_coeff (h' Global_test_config) = bond_coeff one_atom_fixture"
    "lammps_version (h' Global_test_config) = universe_version one_atom_engine"
    "natoms (h' Global_test_config) = atom_natoms one_atom_engine"
    "close_to 0 (epsilon (h' Global_test_config)) (epsilon one_atom_fixture)"
    "close_to 0 (init_energy (h' Global_test_config)) (bond_energy one_atom_engine)"
    "close_to 0 (run_energy (h' Global_test_config)) (bond_energy one_atom_engine)"
    "stress_close 0 (init_stress (h' Global_test_config)) (bond_virial one_atom_engine)"
    "stress_close 0 (run_stress (h' Global_test_config)) (bond_virial one_atom_engine)"
    "length (init_forces (h' Global_test_config)) = nat (atom_natoms one_atom_engine + 1)"
    "length (run_forces (h' Global_test_config)) = nat (atom_natoms one_atom_engine + 1)"
    "\<forall>j<nat (atom_natoms one_atom_engine).
       coord_close 0
         (init_forces (h' Global_test_config) ! nat (atom_tag one_atom_engine ! j))
         (atom_f one_atom_engine ! j) \<and>
       coord_close 0
         (run_forces (h' Global_test_config) ! nat (atom_tag one_atom_engine ! j))
         (atom_f one_atom_engine ! j)"
    and pass: "(0::real) \<le> 0 \<and> (0::real) \<le> 1 / 2 \<and> 2 * 0 \<le> epsilon one_atom_fixture \<and>
       (0::real) \<le> 0 \<and> (0::real) \<le> 1 / 2 \<and> 2 * 0 \<le> epsilon one_atom_fixture \<longrightarrow>
       passed (fst (EXPECT_FP_LE_WITH_EPS (bond_energy one_atom_engine)
                      (init_energy (h' Global_test_config)) (epsilon one_atom_fixture) reset)) \<and>
       passed (fst (EXPECT_FP_LE_WITH_EPS (bond_energy one_atom_engine)
                      (run_energy (h' Global_test_config)) (epsilon one_atom_fixture) reset)) \<and>
       list_all passed (fst (compare_stress (epsilon one_atom_fixture) (bond_virial one_atom_engine)
                               (init_stress (h' Global_test_config)) reset)) \<and>
       list_all passed (fst (compare_stress (epsilon one_atom_fixture) (bond_virial one_atom_engine)
                               (run_stress (h' Global_test_config)) reset)) \<and>
       (\<exists>cs s. compare_forces (epsilon one_atom_fixture) (atom_f one_atom_engine)
                  (atom_tag one_atom_engine) (init_forces (h' Global_test_config)) 0
                  (nat (atom_natoms one_atom_engine)) reset
                = Inr (cs, s) \<and> list_all passed cs) \<and>
       (\<exists>cs s. compare_forces (epsilon one_atom_fixture) (atom_f one_atom_engine)
                  (atom_tag one_atom_engine) (run_forces (h' Global_test_config)) 0
                  (nat (atom_natoms one_atom_engine)) reset
                = Inr (cs, s) \<and> list_all passed cs)"
    by blast
  have eps: "epsilon one_atom_fixture = 1 / 10 ^ 14"
    by (simp add: one_atom_fixture_def TestConfig_ctor_def)
  have "input_file (h' Global_test_config) = ''in.fourmol''"
    "bond_style (h' Global_test_config) = ''harmonic''"
    "prerequisites (h' Global_test_config) = [(''atom'', ''full''), (''bond'', ''harmonic'')]"
    "pre_commands (h' Global_test_config) = [''units real'']"
    "post_commands (h' Global_test_config) = [''special_bonds lj 0 1 1'']"
    "bond_coeff (h' Global_test_config) = [''1 250.0 1.5'']"
    "lammps_version (h' Global_test_config) = ''7 Aug 2019''"
    "natoms (h' Global_test_config) = 1"
    "epsilon (h' Global_test_config) = 1 / 10 ^ 14"
    "init_energy (h' Global_test_config) = 0"
    "run_energy (h' Global_test_config) = 0"
    "stress_close 0 (init_stress (h' Global_test_config))
       \<lparr>xx = 0, yy = 0, zz = 0, xy = 0, xz = 0, yz = 0\<rparr>"
    "stress_close 0 (run_stress (h' Global_test_config))
       \<lparr>xx = 0, yy = 0, zz = 0, xy = 0, xz = 0, yz = 0\<rparr>"
    "length (init_forces (h' Global_test_config)) = 2"
    "length (run_forces (h' Global_test_config)) = 2"
    "coord_close 0 (init_forces (h' Global_test_config) ! 1)
       \<lparr>x_coord = 1, y_coord = 0, z_coord = 0\<rparr>"
    "coord_close 0 (run_forces (h' Global_test_config) ! 1)
       \<lparr>x_coord = 1, y_coord = 0, z_coord = 0\<rparr>"
    using h'(2-17)
    by (simp_all add: one_atom_fixture_def one_atom_engine_def TestConfig_ctor_def close_to_def)
  moreover have "passed (fst (EXPECT_FP_LE_WITH_EPS 0 (init_energy (h' Global_test_config))
                          (1 / 10 ^ 14) reset))"
    "list_all passed (fst (compare_stress (1 / 10 ^ 14)
                             \<lparr>xx = 0, yy = 0, zz = 0, xy = 0, xz = 0, yz = 0\<rparr>
                             (init_stress (h' Global_test_config)) reset))"
    "\<exists>cs s. compare_forces (1 / 10 ^ 14) [\<lparr>x_coord = 1, y_coord = 0, z_coord = 0\<rparr>] [1]
               (init_forces (h' Global_test_config)) 0 1 reset
             = Inr (cs, s) \<and> list_all passed cs"
    using pass unfolding eps by (simp_all add: one_atom_engine_def)
  ultimately show ?thesis using h'(1) by blast
qed

end
